theory Spec2Isabelle
  imports Main "HOL-Library.Word" "HOL-Library.AList"
begin

section \<open>The binary wire format\<close>

text \<open>
  Modelled from the spec: the classes \<open>BinaryWriter\<close> and \<open>BinaryReader\<close> of the protobuf
  runtime, against which the codec of the repository is written, are not part of the
  repository.  The spec describes the binary shape as a sequence of (field-number,
  wire-type, value) entries with nested length-delimited wrappers; the model below is the
  protobuf wire format that realises it: base-128 varints (at most ten bytes, the value
  cut to 32 or 64 bits by the reader), tags \<open>fieldNo * 8 + wireType\<close>, and length-prefixed
  strings and byte arrays.

  A writer is modelled by the bytes it has produced (chained calls are concatenation, and
  \<open>finish()\<close> is the identity); a reader by the bytes it has not consumed yet, so the
  source's loop condition \<open>reader.pos < data.length\<close> reads \<open>bs \<noteq> []\<close>.  Every exception
  the reader raises (illegal tag, invalid varint, premature end of input, a wire type that
  cannot be skipped) is the result \<open>None\<close>.

  A JavaScript string is modelled by the code units of its UTF-8 form (an Isabelle
  \<open>string\<close>), so that the text encoder is the conversion of characters to bytes and the
  empty string is the only falsy one.  The JavaScript strings that have a UTF-8 form are
  the well-formed ones, those without an unpaired surrogate (the writer's text encoder
  writes the replacement character for an unpaired surrogate, which the reader cannot
  undo), and a string of the model stands for one of them exactly when its code units
  are well-formed UTF-8 (\<open>well_formed\<close> below).  The limits of what the platform can
  allocate are outside the model.
\<close>

type_synonym byte = "8 word"

datatype WireType = Varint | Bit64 | LengthDelimited | StartGroup | EndGroup | Bit32

fun wire_code :: "WireType \<Rightarrow> nat" where
  "wire_code Varint = 0"
| "wire_code Bit64 = 1"
| "wire_code LengthDelimited = 2"
| "wire_code StartGroup = 3"
| "wire_code EndGroup = 4"
| "wire_code Bit32 = 5"

definition wire_of_code :: "nat \<Rightarrow> WireType option" where
  "wire_of_code n =
     (if n = 0 then Some Varint else if n = 1 then Some Bit64
      else if n = 2 then Some LengthDelimited else if n = 3 then Some StartGroup
      else if n = 4 then Some EndGroup else if n = 5 then Some Bit32 else None)"

subsection \<open>Strings and their bytes\<close>

text \<open>
  The writer encodes a string with the platform's \<open>TextEncoder\<close>; on the UTF-8 form of a
  string that is the code units themselves.  The reader decodes with \<open>new
  TextDecoder("utf-8", {fatal: true, ignoreBOM: true})\<close>, which raises on bytes that are
  not well-formed UTF-8 and keeps a byte order mark.  In well-formed UTF-8 a lead byte
  fixes how many continuation bytes follow and the range of the first of them (which
  excludes overlong forms, the surrogates and code points beyond \<open>U+10FFFF\<close>); the other
  continuation bytes are in \<open>0x80 .. 0xBF\<close>.
\<close>

definition TextEncoder_encode :: "string \<Rightarrow> byte list" where
  "TextEncoder_encode s = map (\<lambda>c. of_nat (of_char c)) s"

definition utf8_lead :: "nat \<Rightarrow> (nat \<times> nat \<times> nat) option" where
  "utf8_lead b =
     (if 0xC2 \<le> b \<and> b \<le> 0xDF then Some (1, 0x80, 0xBF)
      else if b = 0xE0 then Some (2, 0xA0, 0xBF)
      else if 0xE1 \<le> b \<and> b \<le> 0xEC then Some (2, 0x80, 0xBF)
      else if b = 0xED then Some (2, 0x80, 0x9F)
      else if 0xEE \<le> b \<and> b \<le> 0xEF then Some (2, 0x80, 0xBF)
      else if b = 0xF0 then Some (3, 0x90, 0xBF)
      else if 0xF1 \<le> b \<and> b \<le> 0xF3 then Some (3, 0x80, 0xBF)
      else if b = 0xF4 then Some (3, 0x80, 0x8F)
      else None)"

function utf8_valid :: "byte list \<Rightarrow> bool" where
  "utf8_valid [] = True"
| "utf8_valid (b # bs) =
     (if unat b < 0x80 then utf8_valid bs
      else
        (case utf8_lead (unat b) of
           None \<Rightarrow> False
         | Some (needed, lower, upper) \<Rightarrow>
             needed \<le> length bs \<and>
             lower \<le> unat (hd bs) \<and> unat (hd bs) \<le> upper \<and>
             list_all (\<lambda>c. 0x80 \<le> unat c \<and> unat c \<le> 0xBF) (tl (take needed bs)) \<and>
             utf8_valid (drop needed bs)))"
  by pat_completeness auto
termination
  by (relation "measure length") auto

definition TextDecoder_decode :: "byte list \<Rightarrow> string option" where
  "TextDecoder_decode bs = (if utf8_valid bs then Some (map (\<lambda>b. char_of (unat b)) bs) else None)"

definition well_formed :: "string \<Rightarrow> bool" where
  "well_formed s = utf8_valid (TextEncoder_encode s)"

subsection \<open>The writer\<close>

text \<open>\<open>while (value > 0x7f) { push((value & 0x7f) | 0x80); value >>>= 7 }; push(value)\<close>\<close>

fun varint_write :: "nat \<Rightarrow> byte list" where
  "varint_write n =
     (if n > 127 then of_nat (n mod 128 + 128) # varint_write (n div 128) else [of_nat n])"

declare varint_write.simps [simp del]

definition wr_uint32 :: "nat \<Rightarrow> byte list" where
  "wr_uint32 n = varint_write n"

text \<open>
  \<open>int32\<close> writes a value that is not negative as a varint and a negative one sign-extended
  to 64 bits (nine bytes with the continuation bit, then the byte 1).  \<open>int64\<close> writes the
  64-bit two's complement of its argument.  The runtime's writer checks that an argument
  is in the range of its type (\<open>uint32\<close>, \<open>int32\<close>, a signed 64-bit number) and raises when
  it is not; the model writes the varint of the argument in any case, and every theorem
  about reading back states the range as a hypothesis.
\<close>

definition wr_int32 :: "int \<Rightarrow> byte list" where
  "wr_int32 v = (if v \<ge> 0 then varint_write (nat v) else varint_write (nat (v mod 2 ^ 64)))"

definition wr_int64 :: "int \<Rightarrow> byte list" where
  "wr_int64 v = varint_write (nat (v mod 2 ^ 64))"

definition wr_tag :: "nat \<Rightarrow> WireType \<Rightarrow> byte list" where
  "wr_tag fieldNo type = wr_uint32 (fieldNo * 8 + wire_code type)"

definition wr_bytes :: "byte list \<Rightarrow> byte list" where
  "wr_bytes v = wr_uint32 (length v) @ v"

definition wr_string :: "string \<Rightarrow> byte list" where
  "wr_string s = wr_bytes (TextEncoder_encode s)"

subsection \<open>The reader\<close>

text \<open>
  A varint is read seven bits at a time, lowest group first, until a byte without the
  continuation bit; the runtime gives up after ten bytes.  The first argument counts the
  bytes that may still be read.
\<close>

fun varint_read :: "nat \<Rightarrow> byte list \<Rightarrow> (nat \<times> byte list) option" where
  "varint_read 0 bs = None"
| "varint_read (Suc k) [] = None"
| "varint_read (Suc k) (b # bs) =
     (if unat b < 128 then Some (unat b, bs)
      else (case varint_read k bs of
              None \<Rightarrow> None
            | Some (v, rest) \<Rightarrow> Some (unat b mod 128 + 128 * v, rest)))"

definition rd_uint32 :: "byte list \<Rightarrow> (nat \<times> byte list) option" where
  "rd_uint32 bs = map_option (\<lambda>(v, rest). (v mod 2 ^ 32, rest)) (varint_read 10 bs)"

text \<open>\<open>int32()\<close> is \<open>uint32() | 0\<close>; \<open>int64()\<close> reads 64 bits as two's complement.\<close>

definition to_signed :: "nat \<Rightarrow> nat \<Rightarrow> int" where
  "to_signed w v = (if v < 2 ^ (w - 1) then int v else int v - 2 ^ w)"

definition rd_int32 :: "byte list \<Rightarrow> (int \<times> byte list) option" where
  "rd_int32 bs = map_option (\<lambda>(v, rest). (to_signed 32 v, rest)) (rd_uint32 bs)"

definition rd_int64 :: "byte list \<Rightarrow> (int \<times> byte list) option" where
  "rd_int64 bs =
     map_option (\<lambda>(v, rest). (to_signed 64 (v mod 2 ^ 64), rest)) (varint_read 10 bs)"

text \<open>\<open>tag()\<close> raises on field number 0 and on the wire types 6 and 7.\<close>

definition rd_tag :: "byte list \<Rightarrow> ((nat \<times> WireType) \<times> byte list) option" where
  "rd_tag bs =
     (case rd_uint32 bs of
        None \<Rightarrow> None
      | Some (t, rest) \<Rightarrow>
          (if t div 8 = 0 then None
           else (case wire_of_code (t mod 8) of
                   None \<Rightarrow> None
                 | Some w \<Rightarrow> Some ((t div 8, w), rest))))"

definition rd_bytes :: "byte list \<Rightarrow> (byte list \<times> byte list) option" where
  "rd_bytes bs =
     (case rd_uint32 bs of
        None \<Rightarrow> None
      | Some (len, rest) \<Rightarrow>
          (if length rest < len then None else Some (take len rest, drop len rest)))"

definition rd_string :: "byte list \<Rightarrow> (string \<times> byte list) option" where
  "rd_string bs =
     (case rd_bytes bs of
        None \<Rightarrow> None
      | Some (v, rest) \<Rightarrow> map_option (\<lambda>s. (s, rest)) (TextDecoder_decode v))"

text \<open>
  \<open>skip\<close>: a varint is skipped up to its last byte whatever its length, fixed-width
  values by their width, a length-delimited value by its length prefix, a group up to its
  matching end-group tag.  The runtime skips a group by calling \<open>skip\<close> on every field
  inside it; the model counts the open groups instead.
\<close>

fun skip_varint :: "byte list \<Rightarrow> byte list option" where
  "skip_varint [] = None"
| "skip_varint (b # bs) = (if unat b < 128 then Some bs else skip_varint bs)"

definition skip_fixed :: "nat \<Rightarrow> byte list \<Rightarrow> byte list option" where
  "skip_fixed n bs = (if length bs < n then None else Some (drop n bs))"

definition skip_scalar :: "WireType \<Rightarrow> byte list \<Rightarrow> byte list option" where
  "skip_scalar w bs =
     (case w of
        Varint \<Rightarrow> skip_varint bs
      | Bit64 \<Rightarrow> skip_fixed 8 bs
      | Bit32 \<Rightarrow> skip_fixed 4 bs
      | LengthDelimited \<Rightarrow> map_option snd (rd_bytes bs)
      | _ \<Rightarrow> None)"

lemma varint_read_shorter:
  "varint_read k bs = Some (v, rest) \<Longrightarrow> length rest < length bs"
proof (induction k bs arbitrary: v rest rule: varint_read.induct)
  case (3 k b bs)
  then show ?case
    by (fastforce split: if_splits option.splits)
qed simp_all

lemma rd_uint32_shorter: "rd_uint32 bs = Some (v, rest) \<Longrightarrow> length rest < length bs"
  by (auto simp: rd_uint32_def dest: varint_read_shorter)

lemma rd_tag_shorter [termination_simp]:
  "rd_tag bs = Some (fw, rest) \<Longrightarrow> length rest < length bs"
  by (auto simp: rd_tag_def split: option.splits if_splits dest: rd_uint32_shorter)

lemma rd_bytes_shorter: "rd_bytes bs = Some (v, rest) \<Longrightarrow> length rest < length bs"
  by (auto simp: rd_bytes_def split: option.splits if_splits dest!: rd_uint32_shorter)

lemma rd_string_shorter [termination_simp]:
  "rd_string bs = Some (v, rest) \<Longrightarrow> length rest < length bs"
  by (auto simp: rd_string_def split: option.splits dest: rd_bytes_shorter)

lemma rd_int32_shorter [termination_simp]:
  "rd_int32 bs = Some (v, rest) \<Longrightarrow> length rest < length bs"
  by (auto simp: rd_int32_def dest: rd_uint32_shorter)

lemma rd_int64_shorter [termination_simp]:
  "rd_int64 bs = Some (v, rest) \<Longrightarrow> length rest < length bs"
  by (auto simp: rd_int64_def dest: varint_read_shorter)

lemma skip_varint_shorter: "skip_varint bs = Some rest \<Longrightarrow> length rest < length bs"
  by (induction bs) (auto split: if_splits)

lemma skip_scalar_le: "skip_scalar w bs = Some rest \<Longrightarrow> length rest \<le> length bs"
  by (cases w)
     (auto simp: skip_scalar_def skip_fixed_def split: if_splits
           dest: skip_varint_shorter rd_bytes_shorter less_imp_le)

function skip_group :: "nat \<Rightarrow> byte list \<Rightarrow> byte list option" where
  "skip_group depth bs =
     (case rd_tag bs of
        None \<Rightarrow> None
      | Some ((fieldNo, t), rest) \<Rightarrow>
          (case t of
             EndGroup \<Rightarrow> (if depth = 0 then Some rest else skip_group (depth - 1) rest)
           | StartGroup \<Rightarrow> skip_group (Suc depth) rest
           | _ \<Rightarrow> (case skip_scalar t rest of
                     None \<Rightarrow> None
                   | Some rest' \<Rightarrow> skip_group depth rest')))"
  by pat_completeness auto
termination
  by (relation "measure (\<lambda>(d, bs). length bs)")
     (auto dest!: rd_tag_shorter skip_scalar_le)

declare skip_group.simps [simp del]

definition rd_skip :: "WireType \<Rightarrow> byte list \<Rightarrow> byte list option" where
  "rd_skip w bs = (if w = StartGroup then skip_group 0 bs else skip_scalar w bs)"

lemma skip_group_shorter: "skip_group d bs = Some rest \<Longrightarrow> length rest < length bs"
proof (induction d bs rule: skip_group.induct)
  case (1 depth bs)
  from "1.prems" obtain fieldNo t r where tg: "rd_tag bs = Some ((fieldNo, t), r)"
    by (subst (asm) skip_group.simps) (auto split: option.splits)
  then have lt: "length r < length bs" by (rule rd_tag_shorter)
  note IH = "1.IH"[OF tg refl refl]
  show ?case
  proof (cases t)
    case EndGroup
    with "1.prems" IH(5) tg lt show ?thesis
      by (subst (asm) skip_group.simps) (auto split: if_splits)
  next
    case StartGroup
    with "1.prems" IH(4) tg lt show ?thesis
      by (subst (asm) skip_group.simps) auto
  next
    case Varint
    with "1.prems" tg obtain r' where sk: "skip_scalar t r = Some r'" and g: "skip_group depth r' = Some rest"
      by (subst (asm) skip_group.simps) (auto split: option.splits)
    from IH(1)[OF Varint sk] g skip_scalar_le[OF sk] lt show ?thesis by simp
  next
    case Bit64
    with "1.prems" tg obtain r' where sk: "skip_scalar t r = Some r'" and g: "skip_group depth r' = Some rest"
      by (subst (asm) skip_group.simps) (auto split: option.splits)
    from IH(2)[OF Bit64 sk] g skip_scalar_le[OF sk] lt show ?thesis by simp
  next
    case LengthDelimited
    with "1.prems" tg obtain r' where sk: "skip_scalar t r = Some r'" and g: "skip_group depth r' = Some rest"
      by (subst (asm) skip_group.simps) (auto split: option.splits)
    from IH(3)[OF LengthDelimited sk] g skip_scalar_le[OF sk] lt show ?thesis by simp
  next
    case Bit32
    with "1.prems" tg obtain r' where sk: "skip_scalar t r = Some r'" and g: "skip_group depth r' = Some rest"
      by (subst (asm) skip_group.simps) (auto split: option.splits)
    from IH(6)[OF Bit32 sk] g skip_scalar_le[OF sk] lt show ?thesis by simp
  qed
qed

lemma rd_skip_le: "rd_skip w bs = Some rest \<Longrightarrow> length rest \<le> length bs"
  by (auto simp: rd_skip_def split: if_splits dest: skip_group_shorter skip_scalar_le less_imp_le)

section \<open>Error detail records and the status envelope\<close>

text \<open>
  \<open>types.ts\<close>: the discriminated union \<open>ErrorDetail\<close>.  The \<open>type\<close> tag of a record is the
  constructor, and its fields are the constructor's arguments in the order of the
  interface (\<open>locale\<close>, \<open>message\<close>; \<open>fieldViolations\<close>; \<open>stackEntries\<close>, \<open>detail\<close>;
  \<open>reason\<close>, \<open>domain\<close>, \<open>metadata\<close>; \<open>retryDelaySeconds\<close>; \<open>violations\<close>;
  \<open>violations\<close>; \<open>requestId\<close>, \<open>servingData\<close>; \<open>resourceType\<close>, \<open>resourceName\<close>,
  \<open>owner\<close>, \<open>description\<close>; \<open>links\<close>; \<open>typeUrl\<close>, \<open>value\<close>).  The \<open>metadata\<close> of an
  error-info record is a JavaScript object with string values; it is modelled by the list
  of its own entries in the order in which \<open>Object.entries\<close> lists them, every key once.
  (An object lists keys that are array indices first, in ascending order, whatever the
  order they were written in; the model keeps the order of writing, so a list stands for
  an object only when its array-index keys come first and ascending.)
  \<open>retryDelaySeconds\<close> is a JavaScript number; the model has the whole numbers only, so
  fractions, \<open>NaN\<close>, the infinities and negative zero are outside the model, and of the
  whole numbers beyond \<open>2^53\<close> only those a number holds exactly stand for an input.
\<close>

datatype FieldViolation = FieldViolation (fv_field: string) (fv_description: string)

datatype QuotaViolation = QuotaViolation (qv_subject: string) (qv_description: string)

datatype PreconditionViolation =
  PreconditionViolation (pv_type: string) (pv_subject: string) (pv_description: string)

datatype HelpLink = HelpLink (hl_description: string) (hl_url: string)

datatype ErrorDetail =
    LocalizedMessageDetail string string
  | BadRequestDetail "FieldViolation list"
  | DebugInfoDetail "string list" string
  | ErrorInfoDetail string string "(string \<times> string) list"
  | RetryInfoDetail int
  | QuotaFailureDetail "QuotaViolation list"
  | PreconditionFailureDetail "PreconditionViolation list"
  | RequestInfoDetail string string
  | ResourceInfoDetail string string string string
  | HelpDetail "HelpLink list"
  | UnknownDetail string "byte list"

text \<open>
  The assignment \<open>object[key] = value\<close> of a string to a property of an object that was
  created as \<open>{}\<close>.  An existing key takes the new value and keeps its place, a new key
  goes to the end.  The key \<open>__proto__\<close> is the exception: the object inherits an accessor
  of that name, the assignment calls its setter, and the setter ignores a value that is
  neither an object nor \<open>null\<close>, so no property is written.
\<close>

definition assign_property :: "string \<Rightarrow> 'v \<Rightarrow> (string \<times> 'v) list \<Rightarrow> (string \<times> 'v) list" where
  "assign_property key v object =
     (if key = ''__proto__'' then object else AList.update key v object)"

text \<open>\<open>status.ts\<close>: \<open>google.protobuf.Any\<close> and \<open>google.rpc.Status\<close>.\<close>

record Any =
  typeUrl :: string
  "value" :: "byte list"

record Status =
  code :: int
  status_message :: string
  details :: "Any list"

subsection \<open>Type URLs\<close>

definition TYPE_URLS_localizedMessage :: string where
  "TYPE_URLS_localizedMessage = ''type.googleapis.com/google.rpc.LocalizedMessage''"

definition TYPE_URLS_badRequest :: string where
  "TYPE_URLS_badRequest = ''type.googleapis.com/google.rpc.BadRequest''"

definition TYPE_URLS_debugInfo :: string where
  "TYPE_URLS_debugInfo = ''type.googleapis.com/google.rpc.DebugInfo''"

definition TYPE_URLS_errorInfo :: string where
  "TYPE_URLS_errorInfo = ''type.googleapis.com/google.rpc.ErrorInfo''"

definition TYPE_URLS_retryInfo :: string where
  "TYPE_URLS_retryInfo = ''type.googleapis.com/google.rpc.RetryInfo''"

definition TYPE_URLS_quotaFailure :: string where
  "TYPE_URLS_quotaFailure = ''type.googleapis.com/google.rpc.QuotaFailure''"

definition TYPE_URLS_preconditionFailure :: string where
  "TYPE_URLS_preconditionFailure = ''type.googleapis.com/google.rpc.PreconditionFailure''"

definition TYPE_URLS_requestInfo :: string where
  "TYPE_URLS_requestInfo = ''type.googleapis.com/google.rpc.RequestInfo''"

definition TYPE_URLS_resourceInfo :: string where
  "TYPE_URLS_resourceInfo = ''type.googleapis.com/google.rpc.ResourceInfo''"

definition TYPE_URLS_help :: string where
  "TYPE_URLS_help = ''type.googleapis.com/google.rpc.Help''"

definition TYPE_URLS :: "string list" where
  "TYPE_URLS =
     [TYPE_URLS_localizedMessage, TYPE_URLS_badRequest, TYPE_URLS_debugInfo,
      TYPE_URLS_errorInfo, TYPE_URLS_retryInfo, TYPE_URLS_quotaFailure,
      TYPE_URLS_preconditionFailure, TYPE_URLS_requestInfo, TYPE_URLS_resourceInfo,
      TYPE_URLS_help]"

subsection \<open>Encoding (\<open>codec/encode.ts\<close>, \<open>codec/status.ts\<close>)\<close>

text \<open>
  A field guarded by \<open>if (detail.x)\<close> is written when the string is not empty.  A
  \<open>for ... of\<close> loop that writes one entry per element is \<open>concat (map ...)\<close>.
\<close>

definition wr_string_field :: "nat \<Rightarrow> string \<Rightarrow> byte list" where
  "wr_string_field fieldNo s =
     (if s \<noteq> [] then wr_tag fieldNo LengthDelimited @ wr_string s else [])"

definition encodeLocalizedMessage :: "string \<Rightarrow> string \<Rightarrow> byte list" where
  "encodeLocalizedMessage locale message =
     wr_string_field 1 locale @ wr_string_field 2 message"

definition encodeFieldViolation :: "FieldViolation \<Rightarrow> byte list" where
  "encodeFieldViolation violation =
     wr_string_field 1 (fv_field violation) @ wr_string_field 2 (fv_description violation)"

definition encodeBadRequest :: "FieldViolation list \<Rightarrow> byte list" where
  "encodeBadRequest fieldViolations =
     concat (map (\<lambda>violation.
        wr_tag 1 LengthDelimited @ wr_bytes (encodeFieldViolation violation)) fieldViolations)"

definition encodeDebugInfo :: "string list \<Rightarrow> string \<Rightarrow> byte list" where
  "encodeDebugInfo stackEntries detail =
     concat (map (\<lambda>entry. wr_tag 1 LengthDelimited @ wr_string entry) stackEntries)
     @ wr_string_field 2 detail"

definition encodeMapEntry :: "string \<times> string \<Rightarrow> byte list" where
  "encodeMapEntry kv =
     wr_tag 1 LengthDelimited @ wr_string (fst kv) @ wr_tag 2 LengthDelimited @ wr_string (snd kv)"

definition encodeErrorInfo :: "string \<Rightarrow> string \<Rightarrow> (string \<times> string) list \<Rightarrow> byte list" where
  "encodeErrorInfo reason domain metadata =
     wr_string_field 1 reason @ wr_string_field 2 domain
     @ concat (map (\<lambda>kv. wr_tag 3 LengthDelimited @ wr_bytes (encodeMapEntry kv)) metadata)"

definition encodeRetryInfo :: "int \<Rightarrow> byte list" where
  "encodeRetryInfo retryDelaySeconds =
     (if retryDelaySeconds > 0
      then wr_tag 1 LengthDelimited @ wr_bytes (wr_tag 1 Varint @ wr_int64 retryDelaySeconds)
      else [])"

definition encodeQuotaViolation :: "QuotaViolation \<Rightarrow> byte list" where
  "encodeQuotaViolation violation =
     wr_string_field 1 (qv_subject violation) @ wr_string_field 2 (qv_description violation)"

definition encodeQuotaFailure :: "QuotaViolation list \<Rightarrow> byte list" where
  "encodeQuotaFailure violations =
     concat (map (\<lambda>violation.
        wr_tag 1 LengthDelimited @ wr_bytes (encodeQuotaViolation violation)) violations)"

definition encodePreconditionViolation :: "PreconditionViolation \<Rightarrow> byte list" where
  "encodePreconditionViolation violation =
     wr_string_field 1 (pv_type violation) @ wr_string_field 2 (pv_subject violation)
     @ wr_string_field 3 (pv_description violation)"

definition encodePreconditionFailure :: "PreconditionViolation list \<Rightarrow> byte list" where
  "encodePreconditionFailure violations =
     concat (map (\<lambda>violation.
        wr_tag 1 LengthDelimited @ wr_bytes (encodePreconditionViolation violation)) violations)"

definition encodeRequestInfo :: "string \<Rightarrow> string \<Rightarrow> byte list" where
  "encodeRequestInfo requestId servingData =
     wr_string_field 1 requestId @ wr_string_field 2 servingData"

definition encodeResourceInfo :: "string \<Rightarrow> string \<Rightarrow> string \<Rightarrow> string \<Rightarrow> byte list" where
  "encodeResourceInfo resourceType resourceName owner description =
     wr_string_field 1 resourceType @ wr_string_field 2 resourceName
     @ wr_string_field 3 owner @ wr_string_field 4 description"

definition encodeHelpLink :: "HelpLink \<Rightarrow> byte list" where
  "encodeHelpLink link =
     wr_string_field 1 (hl_description link) @ wr_string_field 2 (hl_url link)"

definition encodeHelp :: "HelpLink list \<Rightarrow> byte list" where
  "encodeHelp links =
     concat (map (\<lambda>link. wr_tag 1 LengthDelimited @ wr_bytes (encodeHelpLink link)) links)"

text \<open>
  \<open>encodeErrorDetail\<close> returns \<open>Any | null\<close>; \<open>null\<close> is the \<open>default\<close> branch of the
  switch, which no value of the union reaches.
\<close>

fun encodeErrorDetail :: "ErrorDetail \<Rightarrow> Any option" where
  "encodeErrorDetail (LocalizedMessageDetail locale message) =
     Some \<lparr>typeUrl = TYPE_URLS_localizedMessage, value = encodeLocalizedMessage locale message\<rparr>"
| "encodeErrorDetail (BadRequestDetail fieldViolations) =
     Some \<lparr>typeUrl = TYPE_URLS_badRequest, value = encodeBadRequest fieldViolations\<rparr>"
| "encodeErrorDetail (DebugInfoDetail stackEntries detail) =
     Some \<lparr>typeUrl = TYPE_URLS_debugInfo, value = encodeDebugInfo stackEntries detail\<rparr>"
| "encodeErrorDetail (ErrorInfoDetail reason domain metadata) =
     Some \<lparr>typeUrl = TYPE_URLS_errorInfo, value = encodeErrorInfo reason domain metadata\<rparr>"
| "encodeErrorDetail (RetryInfoDetail retryDelaySeconds) =
     Some \<lparr>typeUrl = TYPE_URLS_retryInfo, value = encodeRetryInfo retryDelaySeconds\<rparr>"
| "encodeErrorDetail (QuotaFailureDetail violations) =
     Some \<lparr>typeUrl = TYPE_URLS_quotaFailure, value = encodeQuotaFailure violations\<rparr>"
| "encodeErrorDetail (PreconditionFailureDetail violations) =
     Some \<lparr>typeUrl = TYPE_URLS_preconditionFailure,
           value = encodePreconditionFailure violations\<rparr>"
| "encodeErrorDetail (RequestInfoDetail requestId servingData) =
     Some \<lparr>typeUrl = TYPE_URLS_requestInfo, value = encodeRequestInfo requestId servingData\<rparr>"
| "encodeErrorDetail (ResourceInfoDetail resourceType resourceName owner description) =
     Some \<lparr>typeUrl = TYPE_URLS_resourceInfo,
           value = encodeResourceInfo resourceType resourceName owner description\<rparr>"
| "encodeErrorDetail (HelpDetail links) =
     Some \<lparr>typeUrl = TYPE_URLS_help, value = encodeHelp links\<rparr>"
| "encodeErrorDetail (UnknownDetail t v) = Some \<lparr>typeUrl = t, value = v\<rparr>"

definition encodeAny :: "Any \<Rightarrow> byte list" where
  "encodeAny any =
     wr_string_field 1 (typeUrl any)
     @ (if length (value any) > 0 then wr_tag 2 LengthDelimited @ wr_bytes (value any) else [])"

definition encodeStatus :: "Status \<Rightarrow> byte list" where
  "encodeStatus status =
     (if code status \<noteq> 0 then wr_tag 1 Varint @ wr_int32 (code status) else [])
     @ wr_string_field 2 (status_message status)
     @ concat (map (\<lambda>detail. wr_tag 3 LengthDelimited @ wr_bytes (encodeAny detail))
                 (details status))"

subsection \<open>Decoding (\<open>codec/decode.ts\<close>, \<open>codec/status.ts\<close>)\<close>

text \<open>
  Every decoder of the source is a loop \<open>while (reader.pos < data.length)\<close> over local
  variables that start at the type's zero value.  The loop is a recursive function on the
  bytes not read yet, with the local variables as arguments; the decoder calls it with
  the initial values.  A \<open>switch (fieldNo)\<close> with \<open>if (wireType === ...) ... else
  reader.skip(wireType)\<close> in each case is the nested \<open>if\<close> below; \<open>push\<close> appends at the end.
\<close>

function parseLocalizedMessage_loop ::
  "byte list \<Rightarrow> string \<Rightarrow> string \<Rightarrow> ErrorDetail option" where
  "parseLocalizedMessage_loop bs locale message =
     (if bs = [] then Some (LocalizedMessageDetail locale message)
      else
        (case rd_tag bs of
           None \<Rightarrow> None
         | Some ((fieldNo, wireType), r) \<Rightarrow>
             (if fieldNo = 1 then
                (if wireType = LengthDelimited then
                   (case rd_string r of
                      None \<Rightarrow> None
                    | Some (v, r') \<Rightarrow> parseLocalizedMessage_loop r' v message)
                 else
                   (case rd_skip wireType r of
                      None \<Rightarrow> None
                    | Some r' \<Rightarrow> parseLocalizedMessage_loop r' locale message))
              else if fieldNo = 2 then
                (if wireType = LengthDelimited then
                   (case rd_string r of
                      None \<Rightarrow> None
                    | Some (v, r') \<Rightarrow> parseLocalizedMessage_loop r' locale v)
                 else
                   (case rd_skip wireType r of
                      None \<Rightarrow> None
                    | Some r' \<Rightarrow> parseLocalizedMessage_loop r' locale message))
              else
                (case rd_skip wireType r of
                   None \<Rightarrow> None
                 | Some r' \<Rightarrow> parseLocalizedMessage_loop r' locale message))))"
  by pat_completeness auto
termination
  by (relation "measure (\<lambda>(bs, locale, message). length bs)")
     (auto dest!: rd_tag_shorter rd_string_shorter rd_bytes_shorter rd_int32_shorter
                  rd_int64_shorter rd_skip_le)

declare parseLocalizedMessage_loop.simps [simp del]

definition parseLocalizedMessage :: "byte list \<Rightarrow> ErrorDetail option" where
  "parseLocalizedMessage data = parseLocalizedMessage_loop data [] []"

function parseFieldViolation_loop ::
  "byte list \<Rightarrow> string \<Rightarrow> string \<Rightarrow> FieldViolation option" where
  "parseFieldViolation_loop bs field description =
     (if bs = [] then Some (FieldViolation field description)
      else
        (case rd_tag bs of
           None \<Rightarrow> None
         | Some ((fieldNo, wireType), r) \<Rightarrow>
             (if fieldNo = 1 then
                (if wireType = LengthDelimited then
                   (case rd_string r of
                      None \<Rightarrow> None
                    | Some (v, r') \<Rightarrow> parseFieldViolation_loop r' v description)
                 else
                   (case rd_skip wireType r of
                      None \<Rightarrow> None
                    | Some r' \<Rightarrow> parseFieldViolation_loop r' field description))
              else if fieldNo = 2 then
                (if wireType = LengthDelimited then
                   (case rd_string r of
                      None \<Rightarrow> None
                    | Some (v, r') \<Rightarrow> parseFieldViolation_loop r' field v)
                 else
                   (case rd_skip wireType r of
                      None \<Rightarrow> None
                    | Some r' \<Rightarrow> parseFieldViolation_loop r' field description))
              else
                (case rd_skip wireType r of
                   None \<Rightarrow> None
                 | Some r' \<Rightarrow> parseFieldViolation_loop r' field description))))"
  by pat_completeness auto
termination
  by (relation "measure (\<lambda>(bs, field, description). length bs)")
     (auto dest!: rd_tag_shorter rd_string_shorter rd_bytes_shorter rd_int32_shorter
                  rd_int64_shorter rd_skip_le)

declare parseFieldViolation_loop.simps [simp del]

definition parseFieldViolation :: "byte list \<Rightarrow> FieldViolation option" where
  "parseFieldViolation data = parseFieldViolation_loop data [] []"

function parseBadRequest_loop ::
  "byte list \<Rightarrow> FieldViolation list \<Rightarrow> ErrorDetail option" where
  "parseBadRequest_loop bs fieldViolations =
     (if bs = [] then Some (BadRequestDetail fieldViolations)
      else
        (case rd_tag bs of
           None \<Rightarrow> None
         | Some ((fieldNo, wireType), r) \<Rightarrow>
             (if fieldNo = 1 \<and> wireType = LengthDelimited then
                (case rd_bytes r of
                   None \<Rightarrow> None
                 | Some (v, r') \<Rightarrow>
                     (case parseFieldViolation v of
                        None \<Rightarrow> None
                      | Some x \<Rightarrow>
                          parseBadRequest_loop r' (fieldViolations @ [x])))
              else
                (case rd_skip wireType r of
                   None \<Rightarrow> None
                 | Some r' \<Rightarrow> parseBadRequest_loop r' fieldViolations))))"
  by pat_completeness auto
termination
  by (relation "measure (\<lambda>(bs, fieldViolations). length bs)")
     (auto dest!: rd_tag_shorter rd_string_shorter rd_bytes_shorter rd_int32_shorter
                  rd_int64_shorter rd_skip_le)

declare parseBadRequest_loop.simps [simp del]

definition parseBadRequest :: "byte list \<Rightarrow> ErrorDetail option" where
  "parseBadRequest data = parseBadRequest_loop data []"

function parseDebugInfo_loop ::
  "byte list \<Rightarrow> string list \<Rightarrow> string \<Rightarrow> ErrorDetail option" where
  "parseDebugInfo_loop bs stackEntries detail =
     (if bs = [] then Some (DebugInfoDetail stackEntries detail)
      else
        (case rd_tag bs of
           None \<Rightarrow> None
         | Some ((fieldNo, wireType), r) \<Rightarrow>
             (if fieldNo = 1 then
                (if wireType = LengthDelimited then
                   (case rd_string r of
                      None \<Rightarrow> None
                    | Some (v, r') \<Rightarrow> parseDebugInfo_loop r' (stackEntries @ [v]) detail)
                 else
                   (case rd_skip wireType r of
                      None \<Rightarrow> None
                    | Some r' \<Rightarrow> parseDebugInfo_loop r' stackEntries detail))
              else if fieldNo = 2 then
                (if wireType = LengthDelimited then
                   (case rd_string r of
                      None \<Rightarrow> None
                    | Some (v, r') \<Rightarrow> parseDebugInfo_loop r' stackEntries v)
                 else
                   (case rd_skip wireType r of
                      None \<Rightarrow> None
                    | Some r' \<Rightarrow> parseDebugInfo_loop r' stackEntries detail))
              else
                (case rd_skip wireType r of
                   None \<Rightarrow> None
                 | Some r' \<Rightarrow> parseDebugInfo_loop r' stackEntries detail))))"
  by pat_completeness auto
termination
  by (relation "measure (\<lambda>(bs, stackEntries, detail). length bs)")
     (auto dest!: rd_tag_shorter rd_string_shorter rd_bytes_shorter rd_int32_shorter
                  rd_int64_shorter rd_skip_le)

declare parseDebugInfo_loop.simps [simp del]

definition parseDebugInfo :: "byte list \<Rightarrow> ErrorDetail option" where
  "parseDebugInfo data = parseDebugInfo_loop data [] []"

function parseMapEntry_loop ::
  "byte list \<Rightarrow> string \<Rightarrow> string \<Rightarrow> (string \<times> string) option" where
  "parseMapEntry_loop bs key val =
     (if bs = [] then Some ((key, val))
      else
        (case rd_tag bs of
           None \<Rightarrow> None
         | Some ((fieldNo, wireType), r) \<Rightarrow>
             (if fieldNo = 1 then
                (if wireType = LengthDelimited then
                   (case rd_string r of
                      None \<Rightarrow> None
                    | Some (v, r') \<Rightarrow> parseMapEntry_loop r' v val)
                 else
                   (case rd_skip wireType r of
                      None \<Rightarrow> None
                    | Some r' \<Rightarrow> parseMapEntry_loop r' key val))
              else if fieldNo = 2 then
                (if wireType = LengthDelimited then
                   (case rd_string r of
                      None \<Rightarrow> None
                    | Some (v, r') \<Rightarrow> parseMapEntry_loop r' key v)
                 else
                   (case rd_skip wireType r of
                      None \<Rightarrow> None
                    | Some r' \<Rightarrow> parseMapEntry_loop r' key val))
              else
                (case rd_skip wireType r of
                   None \<Rightarrow> None
                 | Some r' \<Rightarrow> parseMapEntry_loop r' key val))))"
  by pat_completeness auto
termination
  by (relation "measure (\<lambda>(bs, key, val). length bs)")
     (auto dest!: rd_tag_shorter rd_string_shorter rd_bytes_shorter rd_int32_shorter
                  rd_int64_shorter rd_skip_le)

declare parseMapEntry_loop.simps [simp del]

definition parseMapEntry :: "byte list \<Rightarrow> (string \<times> string) option" where
  "parseMapEntry data = parseMapEntry_loop data [] []"

function parseErrorInfo_loop ::
  "byte list \<Rightarrow> string \<Rightarrow> string \<Rightarrow> (string \<times> string) list \<Rightarrow> ErrorDetail option" where
  "parseErrorInfo_loop bs reason domain metadata =
     (if bs = [] then Some (ErrorInfoDetail reason domain metadata)
      else
        (case rd_tag bs of
           None \<Rightarrow> None
         | Some ((fieldNo, wireType), r) \<Rightarrow>
             (if fieldNo = 1 then
                (if wireType = LengthDelimited then
                   (case rd_string r of
                      None \<Rightarrow> None
                    | Some (v, r') \<Rightarrow> parseErrorInfo_loop r' v domain metadata)
                 else
                   (case rd_skip wireType r of
                      None \<Rightarrow> None
                    | Some r' \<Rightarrow> parseErrorInfo_loop r' reason domain metadata))
              else if fieldNo = 2 then
                (if wireType = LengthDelimited then
                   (case rd_string r of
                      None \<Rightarrow> None
                    | Some (v, r') \<Rightarrow> parseErrorInfo_loop r' reason v metadata)
                 else
                   (case rd_skip wireType r of
                      None \<Rightarrow> None
                    | Some r' \<Rightarrow> parseErrorInfo_loop r' reason domain metadata))
              else if fieldNo = 3 then
                (if wireType = LengthDelimited then
                   (case rd_bytes r of
                      None \<Rightarrow> None
                    | Some (v, r') \<Rightarrow>
                        (case parseMapEntry v of
                           None \<Rightarrow> None
                         | Some mapEntry \<Rightarrow>
                             parseErrorInfo_loop r' reason domain
                               (assign_property (fst mapEntry) (snd mapEntry) metadata)))
                 else
                   (case rd_skip wireType r of
                      None \<Rightarrow> None
                    | Some r' \<Rightarrow> parseErrorInfo_loop r' reason domain metadata))
              else
                (case rd_skip wireType r of
                   None \<Rightarrow> None
                 | Some r' \<Rightarrow> parseErrorInfo_loop r' reason domain metadata))))"
  by pat_completeness auto
termination
  by (relation "measure (\<lambda>(bs, reason, domain, metadata). length bs)")
     (auto dest!: rd_tag_shorter rd_string_shorter rd_bytes_shorter rd_int32_shorter
                  rd_int64_shorter rd_skip_le)

declare parseErrorInfo_loop.simps [simp del]

definition parseErrorInfo :: "byte list \<Rightarrow> ErrorDetail option" where
  "parseErrorInfo data = parseErrorInfo_loop data [] [] []"

text \<open>
  \<open>parseRetryInfo\<close> reads the nested \<open>Duration\<close> in an inner loop that assigns to the same
  variable \<open>retryDelaySeconds\<close>; \<open>Number(...)\<close> of the 64-bit value read is the value itself
  on the whole numbers the model has.
\<close>

function parseDuration_loop ::
  "byte list \<Rightarrow> int \<Rightarrow> int option" where
  "parseDuration_loop bs retryDelaySeconds =
     (if bs = [] then Some (retryDelaySeconds)
      else
        (case rd_tag bs of
           None \<Rightarrow> None
         | Some ((fieldNo, wireType), r) \<Rightarrow>
             (if fieldNo = 1 \<and> wireType = Varint then
                (case rd_int64 r of
                   None \<Rightarrow> None
                 | Some (v, r') \<Rightarrow> parseDuration_loop r' v)
              else
                (case rd_skip wireType r of
                   None \<Rightarrow> None
                 | Some r' \<Rightarrow> parseDuration_loop r' retryDelaySeconds))))"
  by pat_completeness auto
termination
  by (relation "measure (\<lambda>(bs, retryDelaySeconds). length bs)")
     (auto dest!: rd_tag_shorter rd_string_shorter rd_bytes_shorter rd_int32_shorter
                  rd_int64_shorter rd_skip_le)

declare parseDuration_loop.simps [simp del]

function parseRetryInfo_loop ::
  "byte list \<Rightarrow> int \<Rightarrow> ErrorDetail option" where
  "parseRetryInfo_loop bs retryDelaySeconds =
     (if bs = [] then Some (RetryInfoDetail retryDelaySeconds)
      else
        (case rd_tag bs of
           None \<Rightarrow> None
         | Some ((fieldNo, wireType), r) \<Rightarrow>
             (if fieldNo = 1 \<and> wireType = LengthDelimited then
                (case rd_bytes r of
                   None \<Rightarrow> None
                 | Some (durationBytes, r') \<Rightarrow>
                     (case parseDuration_loop durationBytes retryDelaySeconds of
                        None \<Rightarrow> None
                      | Some x \<Rightarrow>
                          parseRetryInfo_loop r' x))
              else
                (case rd_skip wireType r of
                   None \<Rightarrow> None
                 | Some r' \<Rightarrow> parseRetryInfo_loop r' retryDelaySeconds))))"
  by pat_completeness auto
termination
  by (relation "measure (\<lambda>(bs, retryDelaySeconds). length bs)")
     (auto dest!: rd_tag_shorter rd_string_shorter rd_bytes_shorter rd_int32_shorter
                  rd_int64_shorter rd_skip_le)

declare parseRetryInfo_loop.simps [simp del]

definition parseRetryInfo :: "byte list \<Rightarrow> ErrorDetail option" where
  "parseRetryInfo data = parseRetryInfo_loop data 0"

function parseQuotaViolation_loop ::
  "byte list \<Rightarrow> string \<Rightarrow> string \<Rightarrow> QuotaViolation option" where
  "parseQuotaViolation_loop bs subject description =
     (if bs = [] then Some (QuotaViolation subject description)
      else
        (case rd_tag bs of
           None \<Rightarrow> None
         | Some ((fieldNo, wireType), r) \<Rightarrow>
             (if fieldNo = 1 then
                (if wireType = LengthDelimited then
                   (case rd_string r of
                      None \<Rightarrow> None
                    | Some (v, r') \<Rightarrow> parseQuotaViolation_loop r' v description)
                 else
                   (case rd_skip wireType r of
                      None \<Rightarrow> None
                    | Some r' \<Rightarrow> parseQuotaViolation_loop r' subject description))
              else if fieldNo = 2 then
                (if wireType = LengthDelimited then
                   (case rd_string r of
                      None \<Rightarrow> None
                    | Some (v, r') \<Rightarrow> parseQuotaViolation_loop r' subject v)
                 else
                   (case rd_skip wireType r of
                      None \<Rightarrow> None
                    | Some r' \<Rightarrow> parseQuotaViolation_loop r' subject description))
              else
                (case rd_skip wireType r of
                   None \<Rightarrow> None
                 | Some r' \<Rightarrow> parseQuotaViolation_loop r' subject description))))"
  by pat_completeness auto
termination
  by (relation "measure (\<lambda>(bs, subject, description). length bs)")
     (auto dest!: rd_tag_shorter rd_string_shorter rd_bytes_shorter rd_int32_shorter
                  rd_int64_shorter rd_skip_le)

declare parseQuotaViolation_loop.simps [simp del]

definition parseQuotaViolation :: "byte list \<Rightarrow> QuotaViolation option" where
  "parseQuotaViolation data = parseQuotaViolation_loop data [] []"

function parseQuotaFailure_loop ::
  "byte list \<Rightarrow> QuotaViolation list \<Rightarrow> ErrorDetail option" where
  "parseQuotaFailure_loop bs violations =
     (if bs = [] then Some (QuotaFailureDetail violations)
      else
        (case rd_tag bs of
           None \<Rightarrow> None
         | Some ((fieldNo, wireType), r) \<Rightarrow>
             (if fieldNo = 1 \<and> wireType = LengthDelimited then
                (case rd_bytes r of
                   None \<Rightarrow> None
                 | Some (v, r') \<Rightarrow>
                     (case parseQuotaViolation v of
                        None \<Rightarrow> None
                      | Some x \<Rightarrow>
                          parseQuotaFailure_loop r' (violations @ [x])))
              else
                (case rd_skip wireType r of
                   None \<Rightarrow> None
                 | Some r' \<Rightarrow> parseQuotaFailure_loop r' violations))))"
  by pat_completeness auto
termination
  by (relation "measure (\<lambda>(bs, violations). length bs)")
     (auto dest!: rd_tag_shorter rd_string_shorter rd_bytes_shorter rd_int32_shorter
                  rd_int64_shorter rd_skip_le)

declare parseQuotaFailure_loop.simps [simp del]

definition parseQuotaFailure :: "byte list \<Rightarrow> ErrorDetail option" where
  "parseQuotaFailure data = parseQuotaFailure_loop data []"

function parsePreconditionViolation_loop ::
  "byte list \<Rightarrow> string \<Rightarrow> string \<Rightarrow> string \<Rightarrow> PreconditionViolation option" where
  "parsePreconditionViolation_loop bs type subject description =
     (if bs = [] then Some (PreconditionViolation type subject description)
      else
        (case rd_tag bs of
           None \<Rightarrow> None
         | Some ((fieldNo, wireType), r) \<Rightarrow>
             (if fieldNo = 1 then
                (if wireType = LengthDelimited then
                   (case rd_string r of
                      None \<Rightarrow> None
                    | Some (v, r') \<Rightarrow> parsePreconditionViolation_loop r' v subject description)
                 else
                   (case rd_skip wireType r of
                      None \<Rightarrow> None
                    | Some r' \<Rightarrow> parsePreconditionViolation_loop r' type subject description))
              else if fieldNo = 2 then
                (if wireType = LengthDelimited then
                   (case rd_string r of
                      None \<Rightarrow> None
                    | Some (v, r') \<Rightarrow> parsePreconditionViolation_loop r' type v description)
                 else
                   (case rd_skip wireType r of
                      None \<Rightarrow> None
                    | Some r' \<Rightarrow> parsePreconditionViolation_loop r' type subject description))
              else if fieldNo = 3 then
                (if wireType = LengthDelimited then
                   (case rd_string r of
                      None \<Rightarrow> None
                    | Some (v, r') \<Rightarrow> parsePreconditionViolation_loop r' type subject v)
                 else
                   (case rd_skip wireType r of
                      None \<Rightarrow> None
                    | Some r' \<Rightarrow> parsePreconditionViolation_loop r' type subject description))
              else
                (case rd_skip wireType r of
                   None \<Rightarrow> None
                 | Some r' \<Rightarrow> parsePreconditionViolation_loop r' type subject description))))"
  by pat_completeness auto
termination
  by (relation "measure (\<lambda>(bs, type, subject, description). length bs)")
     (auto dest!: rd_tag_shorter rd_string_shorter rd_bytes_shorter rd_int32_shorter
                  rd_int64_shorter rd_skip_le)

declare parsePreconditionViolation_loop.simps [simp del]

definition parsePreconditionViolation :: "byte list \<Rightarrow> PreconditionViolation option" where
  "parsePreconditionViolation data = parsePreconditionViolation_loop data [] [] []"

function parsePreconditionFailure_loop ::
  "byte list \<Rightarrow> PreconditionViolation list \<Rightarrow> ErrorDetail option" where
  "parsePreconditionFailure_loop bs violations =
     (if bs = [] then Some (PreconditionFailureDetail violations)
      else
        (case rd_tag bs of
           None \<Rightarrow> None
         | Some ((fieldNo, wireType), r) \<Rightarrow>
             (if fieldNo = 1 \<and> wireType = LengthDelimited then
                (case rd_bytes r of
                   None \<Rightarrow> None
                 | Some (v, r') \<Rightarrow>
                     (case parsePreconditionViolation v of
                        None \<Rightarrow> None
                      | Some x \<Rightarrow>
                          parsePreconditionFailure_loop r' (violations @ [x])))
              else
                (case rd_skip wireType r of
                   None \<Rightarrow> None
                 | Some r' \<Rightarrow> parsePreconditionFailure_loop r' violations))))"
  by pat_completeness auto
termination
  by (relation "measure (\<lambda>(bs, violations). length bs)")
     (auto dest!: rd_tag_shorter rd_string_shorter rd_bytes_shorter rd_int32_shorter
                  rd_int64_shorter rd_skip_le)

declare parsePreconditionFailure_loop.simps [simp del]

definition parsePreconditionFailure :: "byte list \<Rightarrow> ErrorDetail option" where
  "parsePreconditionFailure data = parsePreconditionFailure_loop data []"

function parseRequestInfo_loop ::
  "byte list \<Rightarrow> string \<Rightarrow> string \<Rightarrow> ErrorDetail option" where
  "parseRequestInfo_loop bs requestId servingData =
     (if bs = [] then Some (RequestInfoDetail requestId servingData)
      else
        (case rd_tag bs of
           None \<Rightarrow> None
         | Some ((fieldNo, wireType), r) \<Rightarrow>
             (if fieldNo = 1 then
                (if wireType = LengthDelimited then
                   (case rd_string r of
                      None \<Rightarrow> None
                    | Some (v, r') \<Rightarrow> parseRequestInfo_loop r' v servingData)
                 else
                   (case rd_skip wireType r of
                      None \<Rightarrow> None
                    | Some r' \<Rightarrow> parseRequestInfo_loop r' requestId servingData))
              else if fieldNo = 2 then
                (if wireType = LengthDelimited then
                   (case rd_string r of
                      None \<Rightarrow> None
                    | Some (v, r') \<Rightarrow> parseRequestInfo_loop r' requestId v)
                 else
                   (case rd_skip wireType r of
                      None \<Rightarrow> None
                    | Some r' \<Rightarrow> parseRequestInfo_loop r' requestId servingData))
              else
                (case rd_skip wireType r of
                   None \<Rightarrow> None
                 | Some r' \<Rightarrow> parseRequestInfo_loop r' requestId servingData))))"
  by pat_completeness auto
termination
  by (relation "measure (\<lambda>(bs, requestId, servingData). length bs)")
     (auto dest!: rd_tag_shorter rd_string_shorter rd_bytes_shorter rd_int32_shorter
                  rd_int64_shorter rd_skip_le)

declare parseRequestInfo_loop.simps [simp del]

definition parseRequestInfo :: "byte list \<Rightarrow> ErrorDetail option" where
  "parseRequestInfo data = parseRequestInfo_loop data [] []"

function parseResourceInfo_loop ::
  "byte list \<Rightarrow> string \<Rightarrow> string \<Rightarrow> string \<Rightarrow> string \<Rightarrow> ErrorDetail option" where
  "parseResourceInfo_loop bs resourceType resourceName owner description =
     (if bs = [] then Some (ResourceInfoDetail resourceType resourceName owner description)
      else
        (case rd_tag bs of
           None \<Rightarrow> None
         | Some ((fieldNo, wireType), r) \<Rightarrow>
             (if fieldNo = 1 then
                (if wireType = LengthDelimited then
                   (case rd_string r of
                      None \<Rightarrow> None
                    | Some (v, r') \<Rightarrow> parseResourceInfo_loop r' v resourceName owner description)
                 else
                   (case rd_skip wireType r of
                      None \<Rightarrow> None
                    | Some r' \<Rightarrow> parseResourceInfo_loop r' resourceType resourceName owner description))
              else if fieldNo = 2 then
                (if wireType = LengthDelimited then
                   (case rd_string r of
                      None \<Rightarrow> None
                    | Some (v, r') \<Rightarrow> parseResourceInfo_loop r' resourceType v owner description)
                 else
                   (case rd_skip wireType r of
                      None \<Rightarrow> None
                    | Some r' \<Rightarrow> parseResourceInfo_loop r' resourceType resourceName owner description))
              else if fieldNo = 3 then
                (if wireType = LengthDelimited then
                   (case rd_string r of
                      None \<Rightarrow> None
                    | Some (v, r') \<Rightarrow> parseResourceInfo_loop r' resourceType resourceName v description)
                 else
                   (case rd_skip wireType r of
                      None \<Rightarrow> None
                    | Some r' \<Rightarrow> parseResourceInfo_loop r' resourceType resourceName owner description))
              else if fieldNo = 4 then
                (if wireType = LengthDelimited then
                   (case rd_string r of
                      None \<Rightarrow> None
                    | Some (v, r') \<Rightarrow> parseResourceInfo_loop r' resourceType resourceName owner v)
                 else
                   (case rd_skip wireType r of
                      None \<Rightarrow> None
                    | Some r' \<Rightarrow> parseResourceInfo_loop r' resourceType resourceName owner description))
              else
                (case rd_skip wireType r of
                   None \<Rightarrow> None
                 | Some r' \<Rightarrow> parseResourceInfo_loop r' resourceType resourceName owner description))))"
  by pat_completeness auto
termination
  by (relation "measure (\<lambda>(bs, resourceType, resourceName, owner, description). length bs)")
     (auto dest!: rd_tag_shorter rd_string_shorter rd_bytes_shorter rd_int32_shorter
                  rd_int64_shorter rd_skip_le)

declare parseResourceInfo_loop.simps [simp del]

definition parseResourceInfo :: "byte list \<Rightarrow> ErrorDetail option" where
  "parseResourceInfo data = parseResourceInfo_loop data [] [] [] []"

function parseHelpLink_loop ::
  "byte list \<Rightarrow> string \<Rightarrow> string \<Rightarrow> HelpLink option" where
  "parseHelpLink_loop bs description url =
     (if bs = [] then Some (HelpLink description url)
      else
        (case rd_tag bs of
           None \<Rightarrow> None
         | Some ((fieldNo, wireType), r) \<Rightarrow>
             (if fieldNo = 1 then
                (if wireType = LengthDelimited then
                   (case rd_string r of
                      None \<Rightarrow> None
                    | Some (v, r') \<Rightarrow> parseHelpLink_loop r' v url)
                 else
                   (case rd_skip wireType r of
                      None \<Rightarrow> None
                    | Some r' \<Rightarrow> parseHelpLink_loop r' description url))
              else if fieldNo = 2 then
                (if wireType = LengthDelimited then
                   (case rd_string r of
                      None \<Rightarrow> None
                    | Some (v, r') \<Rightarrow> parseHelpLink_loop r' description v)
                 else
                   (case rd_skip wireType r of
                      None \<Rightarrow> None
                    | Some r' \<Rightarrow> parseHelpLink_loop r' description url))
              else
                (case rd_skip wireType r of
                   None \<Rightarrow> None
                 | Some r' \<Rightarrow> parseHelpLink_loop r' description url))))"
  by pat_completeness auto
termination
  by (relation "measure (\<lambda>(bs, description, url). length bs)")
     (auto dest!: rd_tag_shorter rd_string_shorter rd_bytes_shorter rd_int32_shorter
                  rd_int64_shorter rd_skip_le)

declare parseHelpLink_loop.simps [simp del]

definition parseHelpLink :: "byte list \<Rightarrow> HelpLink option" where
  "parseHelpLink data = parseHelpLink_loop data [] []"

function parseHelp_loop ::
  "byte list \<Rightarrow> HelpLink list \<Rightarrow> ErrorDetail option" where
  "parseHelp_loop bs links =
     (if bs = [] then Some (HelpDetail links)
      else
        (case rd_tag bs of
           None \<Rightarrow> None
         | Some ((fieldNo, wireType), r) \<Rightarrow>
             (if fieldNo = 1 \<and> wireType = LengthDelimited then
                (case rd_bytes r of
                   None \<Rightarrow> None
                 | Some (v, r') \<Rightarrow>
                     (case parseHelpLink v of
                        None \<Rightarrow> None
                      | Some x \<Rightarrow>
                          parseHelp_loop r' (links @ [x])))
              else
                (case rd_skip wireType r of
                   None \<Rightarrow> None
                 | Some r' \<Rightarrow> parseHelp_loop r' links))))"
  by pat_completeness auto
termination
  by (relation "measure (\<lambda>(bs, links). length bs)")
     (auto dest!: rd_tag_shorter rd_string_shorter rd_bytes_shorter rd_int32_shorter
                  rd_int64_shorter rd_skip_le)

declare parseHelp_loop.simps [simp del]

definition parseHelp :: "byte list \<Rightarrow> ErrorDetail option" where
  "parseHelp data = parseHelp_loop data []"

function parseAny_loop ::
  "byte list \<Rightarrow> Any \<Rightarrow> Any option" where
  "parseAny_loop bs any =
     (if bs = [] then Some (any)
      else
        (case rd_tag bs of
           None \<Rightarrow> None
         | Some ((fieldNo, wireType), r) \<Rightarrow>
             (if fieldNo = 1 then
                (if wireType = LengthDelimited then
                   (case rd_string r of
                      None \<Rightarrow> None
                    | Some (v, r') \<Rightarrow> parseAny_loop r' (any\<lparr>typeUrl := v\<rparr>))
                 else
                   (case rd_skip wireType r of
                      None \<Rightarrow> None
                    | Some r' \<Rightarrow> parseAny_loop r' any))
              else if fieldNo = 2 then
                (if wireType = LengthDelimited then
                   (case rd_bytes r of
                      None \<Rightarrow> None
                    | Some (v, r') \<Rightarrow> parseAny_loop r' (any\<lparr>value := v\<rparr>))
                 else
                   (case rd_skip wireType r of
                      None \<Rightarrow> None
                    | Some r' \<Rightarrow> parseAny_loop r' any))
              else
                (case rd_skip wireType r of
                   None \<Rightarrow> None
                 | Some r' \<Rightarrow> parseAny_loop r' any))))"
  by pat_completeness auto
termination
  by (relation "measure (\<lambda>(bs, any). length bs)")
     (auto dest!: rd_tag_shorter rd_string_shorter rd_bytes_shorter rd_int32_shorter
                  rd_int64_shorter rd_skip_le)

declare parseAny_loop.simps [simp del]

definition parseAny :: "byte list \<Rightarrow> Any option" where
  "parseAny data = parseAny_loop data \<lparr>typeUrl = [], value = []\<rparr>"

function parseStatus_loop ::
  "byte list \<Rightarrow> Status \<Rightarrow> Status option" where
  "parseStatus_loop bs status =
     (if bs = [] then Some (status)
      else
        (case rd_tag bs of
           None \<Rightarrow> None
         | Some ((fieldNo, wireType), r) \<Rightarrow>
             (if fieldNo = 1 then
                (if wireType = Varint then
                   (case rd_int32 r of
                      None \<Rightarrow> None
                    | Some (v, r') \<Rightarrow> parseStatus_loop r' (status\<lparr>code := v\<rparr>))
                 else
                   (case rd_skip wireType r of
                      None \<Rightarrow> None
                    | Some r' \<Rightarrow> parseStatus_loop r' status))
              else if fieldNo = 2 then
                (if wireType = LengthDelimited then
                   (case rd_string r of
                      None \<Rightarrow> None
                    | Some (v, r') \<Rightarrow> parseStatus_loop r' (status\<lparr>status_message := v\<rparr>))
                 else
                   (case rd_skip wireType r of
                      None \<Rightarrow> None
                    | Some r' \<Rightarrow> parseStatus_loop r' status))
              else if fieldNo = 3 then
                (if wireType = LengthDelimited then
                   (case rd_bytes r of
                      None \<Rightarrow> None
                    | Some (anyBytes, r') \<Rightarrow>
                        (case parseAny anyBytes of
                           None \<Rightarrow> None
                         | Some x \<Rightarrow>
                             parseStatus_loop r' (status\<lparr>details := details status @ [x]\<rparr>)))
                 else
                   (case rd_skip wireType r of
                      None \<Rightarrow> None
                    | Some r' \<Rightarrow> parseStatus_loop r' status))
              else
                (case rd_skip wireType r of
                   None \<Rightarrow> None
                 | Some r' \<Rightarrow> parseStatus_loop r' status))))"
  by pat_completeness auto
termination
  by (relation "measure (\<lambda>(bs, status). length bs)")
     (auto dest!: rd_tag_shorter rd_string_shorter rd_bytes_shorter rd_int32_shorter
                  rd_int64_shorter rd_skip_le)

declare parseStatus_loop.simps [simp del]

definition parseStatus :: "byte list \<Rightarrow> Status option" where
  "parseStatus data =
     parseStatus_loop data \<lparr>code = 0, status_message = [], details = []\<rparr>"

definition parseErrorDetail :: "Any \<Rightarrow> ErrorDetail option" where
  "parseErrorDetail any =
     (if typeUrl any = TYPE_URLS_localizedMessage then parseLocalizedMessage (value any)
      else if typeUrl any = TYPE_URLS_badRequest then parseBadRequest (value any)
      else if typeUrl any = TYPE_URLS_debugInfo then parseDebugInfo (value any)
      else if typeUrl any = TYPE_URLS_errorInfo then parseErrorInfo (value any)
      else if typeUrl any = TYPE_URLS_retryInfo then parseRetryInfo (value any)
      else if typeUrl any = TYPE_URLS_quotaFailure then parseQuotaFailure (value any)
      else if typeUrl any = TYPE_URLS_preconditionFailure
        then parsePreconditionFailure (value any)
      else if typeUrl any = TYPE_URLS_requestInfo then parseRequestInfo (value any)
      else if typeUrl any = TYPE_URLS_resourceInfo then parseResourceInfo (value any)
      else if typeUrl any = TYPE_URLS_help then parseHelp (value any)
      else Some (UnknownDetail (typeUrl any) (value any)))"

record DecodedGrpcStatus =
  decoded_code :: int
  decoded_message :: string
  localizedMessage :: "string option"
  decoded_details :: "ErrorDetail list"

fun localized_message_of :: "ErrorDetail \<Rightarrow> string option" where
  "localized_message_of (LocalizedMessageDetail l m) = Some m"
| "localized_message_of _ = None"

text \<open>
  \<open>status.details.map(parseErrorDetail)\<close> raises when one of the calls does; \<open>find\<close>
  returns the first localized-message record.
\<close>

definition decodeGrpcStatus :: "byte list \<Rightarrow> DecodedGrpcStatus option" where
  "decodeGrpcStatus data =
     (case parseStatus data of
        None \<Rightarrow> None
      | Some status \<Rightarrow>
          (case those (map parseErrorDetail (details status)) of
             None \<Rightarrow> None
           | Some ds \<Rightarrow>
               Some \<lparr>decoded_code = code status,
                     decoded_message = status_message status,
                     localizedMessage =
                       (case find (\<lambda>d. localized_message_of d \<noteq> None) ds of
                          None \<Rightarrow> None
                        | Some d \<Rightarrow> localized_message_of d),
                     decoded_details = ds\<rparr>))"

subsection \<open>Where decoding gives back what was encoded\<close>

text \<open>
  The records the round trip is stated for.  Every string is well-formed.  A retry delay
  is written only when it is positive (\<open>if (detail.retryDelaySeconds > 0)\<close>) and as a
  signed 64-bit number, so it has to be in \<open>0 .. 2^63 - 1\<close>.  A metadata object has every
  key once, and the decoder, which builds the object by assignment, cannot give it a key
  \<open>__proto__\<close>.  An unknown-shape record must not carry one of the ten recognised type
  URLs.  \<open>encoded_size\<close> is the number of bytes of the encoded value; a length prefix has
  32 bits.
\<close>

definition wf_FieldViolation :: "FieldViolation \<Rightarrow> bool" where
  "wf_FieldViolation v = (well_formed (fv_field v) \<and> well_formed (fv_description v))"

definition wf_QuotaViolation :: "QuotaViolation \<Rightarrow> bool" where
  "wf_QuotaViolation v = (well_formed (qv_subject v) \<and> well_formed (qv_description v))"

definition wf_PreconditionViolation :: "PreconditionViolation \<Rightarrow> bool" where
  "wf_PreconditionViolation v =
     (well_formed (pv_type v) \<and> well_formed (pv_subject v) \<and> well_formed (pv_description v))"

definition wf_HelpLink :: "HelpLink \<Rightarrow> bool" where
  "wf_HelpLink v = (well_formed (hl_description v) \<and> well_formed (hl_url v))"

definition wf_entry :: "string \<times> string \<Rightarrow> bool" where
  "wf_entry kv = (well_formed (fst kv) \<and> well_formed (snd kv))"

fun in_codec_domain :: "ErrorDetail \<Rightarrow> bool" where
  "in_codec_domain (LocalizedMessageDetail l m) = (well_formed l \<and> well_formed m)"
| "in_codec_domain (BadRequestDetail vs) = list_all wf_FieldViolation vs"
| "in_codec_domain (DebugInfoDetail es d) = (list_all well_formed es \<and> well_formed d)"
| "in_codec_domain (ErrorInfoDetail r d md) =
     (well_formed r \<and> well_formed d \<and> list_all wf_entry md \<and>
      distinct (map fst md) \<and> ''__proto__'' \<notin> set (map fst md))"
| "in_codec_domain (RetryInfoDetail n) = (0 \<le> n \<and> n < 2 ^ 63)"
| "in_codec_domain (QuotaFailureDetail vs) = list_all wf_QuotaViolation vs"
| "in_codec_domain (PreconditionFailureDetail vs) = list_all wf_PreconditionViolation vs"
| "in_codec_domain (RequestInfoDetail i d) = (well_formed i \<and> well_formed d)"
| "in_codec_domain (ResourceInfoDetail t n ow d) =
     (well_formed t \<and> well_formed n \<and> well_formed ow \<and> well_formed d)"
| "in_codec_domain (HelpDetail ls) = list_all wf_HelpLink ls"
| "in_codec_domain (UnknownDetail t v) = (t \<notin> set TYPE_URLS \<and> well_formed t)"

definition encoded_size :: "ErrorDetail \<Rightarrow> nat" where
  "encoded_size r = (case encodeErrorDetail r of None \<Rightarrow> 0 | Some a \<Rightarrow> length (value a))"

section \<open>The error taxonomy (\<open>errors.ts\<close>)\<close>

text \<open>
  A \<open>GrpcError\<close> is an object: two errors built by two \<open>new\<close> expressions are different
  objects even when all their fields agree.  The model gives every object built the next
  number of a counter (\<open>ident\<close>); two references are the same instance when the records are
  equal, and in particular their \<open>ident\<close>.  \<open>cause\<close> has the type \<open>unknown\<close> in the source;
  the interceptor only ever stores the wire error there.
\<close>

datatype MetaValue = Single string | Multi "string list"

type_synonym RpcMetadata = "(string \<times> MetaValue) list"

record RpcError =
  rpc_code :: string
  rpc_meta :: RpcMetadata
  rpc_message :: string

datatype ErrorClass =
    GrpcErrorBase | AbortedError | AlreadyExistsError | DeadlineExceededError | NotFoundError
  | PermissionDeniedError | RaceUpdateError | ValidationError | UnavailableError
  | UnauthenticatedError | UnknownError

fun class_name :: "ErrorClass \<Rightarrow> string" where
  "class_name GrpcErrorBase = ''GrpcError''"
| "class_name AbortedError = ''AbortedError''"
| "class_name AlreadyExistsError = ''AlreadyExistsError''"
| "class_name DeadlineExceededError = ''DeadlineExceededError''"
| "class_name NotFoundError = ''NotFoundError''"
| "class_name PermissionDeniedError = ''PermissionDeniedError''"
| "class_name RaceUpdateError = ''RaceUpdateError''"
| "class_name ValidationError = ''ValidationError''"
| "class_name UnavailableError = ''UnavailableError''"
| "class_name UnauthenticatedError = ''UnauthenticatedError''"
| "class_name UnknownError = ''UnknownError''"

text \<open>The message each subclass passes to \<open>super\<close>.\<close>

fun class_message :: "ErrorClass \<Rightarrow> string" where
  "class_message GrpcErrorBase = []"
| "class_message AbortedError = ''Aborted by client''"
| "class_message AlreadyExistsError = ''Already exists''"
| "class_message DeadlineExceededError = ''Request took too long to respond''"
| "class_message NotFoundError = ''Not found''"
| "class_message PermissionDeniedError = ''Permission denied''"
| "class_message RaceUpdateError =
     ''Attempt to update after the item is already updated elsewhere''"
| "class_message ValidationError = ''Validation error''"
| "class_message UnavailableError = ''Cannot connect to the server''"
| "class_message UnauthenticatedError = ''Unauthenticated''"
| "class_message UnknownError = ''Unknown error''"

record GrpcErrorOptions =
  opt_details :: "ErrorDetail list option"
  opt_cause :: "RpcError option"

record GrpcError =
  ident :: nat
  cls :: ErrorClass
  name :: string
  message :: string
  error_details :: "ErrorDetail list"
  cause :: "RpcError option"
  stack :: string

text \<open>
  What the program shares between calls: the counter of the objects built, and the calls
  the configured \<open>onError\<close> callback has received, in order.
\<close>

record world =
  next_id :: nat
  onError_calls :: "GrpcError list"

text \<open>
  What the platform provides: \<open>atob\<close> and \<open>Buffer.from(_, 'base64')\<close> of \<open>globalThis\<close>
  (either may be missing; \<open>atob\<close> raises on input that is not base64, and its result is
  taken as the bytes \<open>Uint8Array.from\<close> makes of it), the stack an error gets when it is
  built, and the stack \<open>captureCallSiteStack\<close> finds at the call site.
\<close>

record platform =
  atob :: "(string \<Rightarrow> byte list option) option"
  Buffer_from :: "(MetaValue \<Rightarrow> byte list) option"
  new_error_stack :: string
  call_site_stack :: "string option"

text \<open>
  The constructor of \<open>GrpcError\<close>, called through a subclass with the optional
  \<open>options\<close>: \<open>details = options?.details ?? []\<close>, \<open>cause = options?.cause\<close>.
\<close>

definition new_GrpcError ::
  "platform \<Rightarrow> ErrorClass \<Rightarrow> GrpcErrorOptions option \<Rightarrow> world \<Rightarrow> GrpcError \<times> world" where
  "new_GrpcError g c options w =
     (\<lparr>ident = next_id w,
       cls = c,
       name = class_name c,
       message = class_message c,
       error_details =
         (case options of
            None \<Rightarrow> []
          | Some opts \<Rightarrow> (case opt_details opts of None \<Rightarrow> [] | Some ds \<Rightarrow> ds)),
       cause = (case options of None \<Rightarrow> None | Some opts \<Rightarrow> opt_cause opts),
       stack = new_error_stack g\<rparr>,
      w\<lparr>next_id := Suc (next_id w)\<rparr>)"

definition error_localizedMessage :: "GrpcError \<Rightarrow> string option" where
  "error_localizedMessage e =
     (case find (\<lambda>d. localized_message_of d \<noteq> None) (error_details e) of
        None \<Rightarrow> None
      | Some d \<Rightarrow> localized_message_of d)"

subsection \<open>\<open>encodeGrpcStatus\<close> (\<open>codec/encode.ts\<close>)\<close>

fun ERROR_TO_GRPC_CODE :: "ErrorClass \<Rightarrow> int" where
  "ERROR_TO_GRPC_CODE AbortedError = 10"
| "ERROR_TO_GRPC_CODE AlreadyExistsError = 6"
| "ERROR_TO_GRPC_CODE DeadlineExceededError = 4"
| "ERROR_TO_GRPC_CODE NotFoundError = 5"
| "ERROR_TO_GRPC_CODE PermissionDeniedError = 7"
| "ERROR_TO_GRPC_CODE RaceUpdateError = 10"
| "ERROR_TO_GRPC_CODE ValidationError = 3"
| "ERROR_TO_GRPC_CODE UnavailableError = 14"
| "ERROR_TO_GRPC_CODE UnauthenticatedError = 16"
| "ERROR_TO_GRPC_CODE UnknownError = 2"
| "ERROR_TO_GRPC_CODE GrpcErrorBase = 2"

definition encodeGrpcStatus :: "GrpcError \<Rightarrow> byte list" where
  "encodeGrpcStatus error =
     encodeStatus
       \<lparr>code = ERROR_TO_GRPC_CODE (cls error),
        status_message = message error,
        details = List.map_filter encodeErrorDetail (error_details error)\<rparr>"


section \<open>The error-mapping interceptor (\<open>interceptor.ts\<close>)\<close>

text \<open>
  A value that a promise rejects with or a stream reports: a wire error (\<open>RpcError\<close>), a
  typed error, another \<open>Error\<close> object (its identity and message), or a value that is not
  an \<open>Error\<close>.
\<close>

datatype thrown =
    RpcErr RpcError
  | TypedErr GrpcError
  | OtherError nat string
  | NonError string

subsection \<open>Status codes and the status-details header\<close>

definition GrpcStatusCode_CANCELLED :: string where
  "GrpcStatusCode_CANCELLED = ''CANCELLED''"

definition GrpcStatusCode_INVALID_ARGUMENT :: string where
  "GrpcStatusCode_INVALID_ARGUMENT = ''INVALID_ARGUMENT''"

definition GrpcStatusCode_DEADLINE_EXCEEDED :: string where
  "GrpcStatusCode_DEADLINE_EXCEEDED = ''DEADLINE_EXCEEDED''"

definition GrpcStatusCode_NOT_FOUND :: string where
  "GrpcStatusCode_NOT_FOUND = ''NOT_FOUND''"

definition GrpcStatusCode_ALREADY_EXISTS :: string where
  "GrpcStatusCode_ALREADY_EXISTS = ''ALREADY_EXISTS''"

definition GrpcStatusCode_PERMISSION_DENIED :: string where
  "GrpcStatusCode_PERMISSION_DENIED = ''PERMISSION_DENIED''"

definition GrpcStatusCode_FAILED_PRECONDITION :: string where
  "GrpcStatusCode_FAILED_PRECONDITION = ''FAILED_PRECONDITION''"

definition GrpcStatusCode_ABORTED :: string where
  "GrpcStatusCode_ABORTED = ''ABORTED''"

definition GrpcStatusCode_UNAVAILABLE :: string where
  "GrpcStatusCode_UNAVAILABLE = ''UNAVAILABLE''"

definition GrpcStatusCode_UNAUTHENTICATED :: string where
  "GrpcStatusCode_UNAUTHENTICATED = ''UNAUTHENTICATED''"

text \<open>
  The header value is read with a cast to \<open>string\<close>.  A list value is truthy, and \<open>atob\<close>
  receives the string JavaScript makes of it, its elements joined by commas.
\<close>

fun join_with :: "string \<Rightarrow> string list \<Rightarrow> string" where
  "join_with sep [] = []"
| "join_with sep [x] = x"
| "join_with sep (x # y # ys) = x @ sep @ join_with sep (y # ys)"

fun js_string_of :: "MetaValue \<Rightarrow> string" where
  "js_string_of (Single s) = s"
| "js_string_of (Multi xs) = join_with '','' xs"

fun falsy :: "MetaValue \<Rightarrow> bool" where
  "falsy (Single s) = (s = [])"
| "falsy (Multi xs) = False"

definition decodeBase64 :: "platform \<Rightarrow> MetaValue \<Rightarrow> byte list option" where
  "decodeBase64 g base64 =
     (case atob g of
        Some f \<Rightarrow> f (js_string_of base64)
      | None \<Rightarrow>
          (case Buffer_from g of
             Some f \<Rightarrow> Some (f base64)
           | None \<Rightarrow> None))"

definition parseRichErrorDetails :: "platform \<Rightarrow> RpcMetadata \<Rightarrow> GrpcErrorOptions" where
  "parseRichErrorDetails g meta =
     (case map_of meta ''grpc-status-details-bin'' of
        None \<Rightarrow> \<lparr>opt_details = Some [], opt_cause = None\<rparr>
      | Some richError \<Rightarrow>
          (if falsy richError then \<lparr>opt_details = Some [], opt_cause = None\<rparr>
           else (case decodeBase64 g richError of
                   None \<Rightarrow> \<lparr>opt_details = Some [], opt_cause = None\<rparr>
                 | Some binary \<Rightarrow>
                     (case decodeGrpcStatus binary of
                        None \<Rightarrow> \<lparr>opt_details = Some [], opt_cause = None\<rparr>
                      | Some decoded \<Rightarrow>
                          \<lparr>opt_details = Some (decoded_details decoded), opt_cause = None\<rparr>))))"

subsection \<open>The call-site stack\<close>

definition captureCallSiteStack :: "platform \<Rightarrow> string option" where
  "captureCallSiteStack g = call_site_stack g"

text \<open>\<open>split('\n')\<close>: the pieces between the newlines, at least one.\<close>

fun split_lines :: "string \<Rightarrow> string list" where
  "split_lines [] = [[]]"
| "split_lines (c # cs) =
     (if c = CHR 0x0A then [] # split_lines cs
      else (case split_lines cs of
              [] \<Rightarrow> [[c]]
            | l # ls \<Rightarrow> (c # l) # ls))"

definition applyCallSiteStack :: "GrpcError \<Rightarrow> string option \<Rightarrow> GrpcError" where
  "applyCallSiteStack error callSiteStack =
     (case callSiteStack of
        None \<Rightarrow> error
      | Some st \<Rightarrow>
          (if st = [] then error
           else (let errorHeader = name error @ '': '' @ message error;
                     stackLines = drop 1 (split_lines st)
                 in error\<lparr>stack := errorHeader @ [CHR 0x0A] @ join_with [CHR 0x0A] stackLines\<rparr>)))"

subsection \<open>\<open>mapRpcError\<close>\<close>

text \<open>
  \<open>abort\<close> is \<open>options.abort\<close>, absent or the value of its flag \<open>aborted\<close> when the failure
  is handled.  \<open>onError\<close> is the configured callback or absent; the model records the
  errors it is called with, and a callback that raises is outside the model.
\<close>

definition call_onError :: "bool \<Rightarrow> GrpcError \<Rightarrow> world \<Rightarrow> world" where
  "call_onError onError error w =
     (if onError then w\<lparr>onError_calls := onError_calls w @ [error]\<rparr> else w)"

definition class_of_code :: "string \<Rightarrow> ErrorClass" where
  "class_of_code c =
     (if c = GrpcStatusCode_CANCELLED \<or> c = GrpcStatusCode_ABORTED then AbortedError
      else if c = GrpcStatusCode_UNAUTHENTICATED then UnauthenticatedError
      else if c = GrpcStatusCode_UNAVAILABLE then UnavailableError
      else if c = GrpcStatusCode_ALREADY_EXISTS then AlreadyExistsError
      else if c = GrpcStatusCode_NOT_FOUND then NotFoundError
      else if c = GrpcStatusCode_INVALID_ARGUMENT \<or> c = GrpcStatusCode_FAILED_PRECONDITION
        then ValidationError
      else if c = GrpcStatusCode_DEADLINE_EXCEEDED then DeadlineExceededError
      else if c = GrpcStatusCode_PERMISSION_DENIED then PermissionDeniedError
      else UnknownError)"

definition mapRpcError ::
  "platform \<Rightarrow> thrown \<Rightarrow> bool option \<Rightarrow> bool \<Rightarrow> string option \<Rightarrow> world \<Rightarrow> thrown \<times> world"
where
  "mapRpcError g e abort onError callSiteStack w =
     (case e of
        RpcErr r \<Rightarrow>
          (if abort = Some True then
             (let (error, w1) = new_GrpcError g AbortedError None w;
                  error = applyCallSiteStack error callSiteStack
              in (TypedErr error, call_onError onError error w1))
           else
             (let parsed = parseRichErrorDetails g (rpc_meta r);
                  options = parsed\<lparr>opt_cause := Some r\<rparr>;
                  (error, w1) = new_GrpcError g (class_of_code (rpc_code r)) (Some options) w;
                  error = applyCallSiteStack error callSiteStack
              in (TypedErr error, call_onError onError error w1)))
      | TypedErr t \<Rightarrow> (e, w)
      | OtherError i m \<Rightarrow> (e, w)
      | NonError v \<Rightarrow>
          (let (error, w1) = new_GrpcError g UnknownError None w in (TypedErr error, w1)))"


section \<open>Calls, promises and streams\<close>

text \<open>
  Modelled from the spec: the call classes, \<open>Deferred\<close> and \<open>RpcOutputStreamController\<close>
  of the RPC runtime are not part of the repository.  The spec gives every call four
  outcomes settled once each (headers, payload, status, trailers), the payload being one
  value or a push-stream of values, and, for the shapes with streaming input, a request
  stream with \<open>send\<close> and \<open>complete\<close>.

  A promise is modelled by how it settles: fulfilled with a value, rejected with a
  reason, or never.  \<open>p.then(f)\<close> is \<open>then_outcome\<close>.  A response stream is the list of
  the events it reports to \<open>onNext\<close>, one of message, error and completion per event.  A
  request stream is the list of what it has been handed.  Awaiting a unary or a
  server-streaming call (they are thenables) waits for all its promises and fails with
  the first rejection; of several rejections the model takes the first in the order
  headers, response, status, trailers.  The delegate \<open>next\<close> is a function that returns a
  call; a delegate that raises instead is outside the model.
\<close>

datatype 'a outcome = Fulfilled 'a | Rejected thrown | Pending

definition then_outcome :: "'a outcome \<Rightarrow> ('a \<Rightarrow> 'b) \<Rightarrow> 'b outcome" where
  "then_outcome p f =
     (case p of Fulfilled v \<Rightarrow> Fulfilled (f v) | Rejected e \<Rightarrow> Rejected e | Pending \<Rightarrow> Pending)"

text \<open>The reason a promise is rejected with, if it is.\<close>

definition rejection :: "'a outcome \<Rightarrow> thrown option" where
  "rejection p = (case p of Rejected e \<Rightarrow> Some e | _ \<Rightarrow> None)"

datatype 'o stream_event = Message 'o | StreamError thrown | StreamComplete

datatype 'i request_event = Send 'i | Complete

text \<open>The messages among the events of a request stream, in order.\<close>

fun messages_of :: "'i request_event list \<Rightarrow> 'i list" where
  "messages_of [] = []"
| "messages_of (Send m # evs) = m # messages_of evs"
| "messages_of (Complete # evs) = messages_of evs"


datatype CallType = Unary | ServerStreaming | ClientStreaming | Duplex

type_synonym MethodInfo = string

record RpcStatus =
  status_code :: string
  status_detail :: string

record RpcOptions =
  options_meta :: "RpcMetadata option"
  options_abort :: "bool option"

record ('i, 'o) UnaryCall =
  u_method :: MethodInfo
  u_requestHeaders :: RpcMetadata
  u_request :: 'i
  u_headers :: "RpcMetadata outcome"
  u_response :: "'o outcome"
  u_status :: "RpcStatus outcome"
  u_trailers :: "RpcMetadata outcome"

record ('i, 'o) ServerStreamingCall =
  ss_method :: MethodInfo
  ss_requestHeaders :: RpcMetadata
  ss_request :: 'i
  ss_headers :: "RpcMetadata outcome"
  ss_responses :: "'o stream_event list"
  ss_status :: "RpcStatus outcome"
  ss_trailers :: "RpcMetadata outcome"

record ('i, 'o) ClientStreamingCall =
  cs_method :: MethodInfo
  cs_requestHeaders :: RpcMetadata
  cs_requests :: "'i request_event list"
  cs_headers :: "RpcMetadata outcome"
  cs_response :: "'o outcome"
  cs_status :: "RpcStatus outcome"
  cs_trailers :: "RpcMetadata outcome"

record ('i, 'o) DuplexStreamingCall =
  dx_method :: MethodInfo
  dx_requestHeaders :: RpcMetadata
  dx_requests :: "'i request_event list"
  dx_headers :: "RpcMetadata outcome"
  dx_responses :: "'o stream_event list"
  dx_status :: "RpcStatus outcome"
  dx_trailers :: "RpcMetadata outcome"

text \<open>The finished call a unary call resolves to: headers, response, status, trailers.\<close>

definition await_unary ::
  "('i, 'o) UnaryCall \<Rightarrow> (RpcMetadata \<times> 'o \<times> RpcStatus \<times> RpcMetadata) outcome" where
  "await_unary c =
     (case (u_headers c, u_response c, u_status c, u_trailers c) of
        (Fulfilled h, Fulfilled r, Fulfilled s, Fulfilled t) \<Rightarrow> Fulfilled (h, r, s, t)
      | (Rejected e, _, _, _) \<Rightarrow> Rejected e
      | (_, Rejected e, _, _) \<Rightarrow> Rejected e
      | (_, _, Rejected e, _) \<Rightarrow> Rejected e
      | (_, _, _, Rejected e) \<Rightarrow> Rejected e
      | _ \<Rightarrow> Pending)"

definition await_server_streaming ::
  "('i, 'o) ServerStreamingCall \<Rightarrow> (RpcMetadata \<times> RpcStatus \<times> RpcMetadata) outcome" where
  "await_server_streaming c =
     (case (ss_headers c, ss_status c, ss_trailers c) of
        (Fulfilled h, Fulfilled s, Fulfilled t) \<Rightarrow> Fulfilled (h, s, t)
      | (Rejected e, _, _) \<Rightarrow> Rejected e
      | (_, Rejected e, _) \<Rightarrow> Rejected e
      | (_, _, Rejected e) \<Rightarrow> Rejected e
      | _ \<Rightarrow> Pending)"

text \<open>\<open>options.meta ?? {}\<close>\<close>

definition meta_or_empty :: "'a RpcOptions_scheme \<Rightarrow> RpcMetadata" where
  "meta_or_empty options = (case options_meta options of None \<Rightarrow> [] | Some m \<Rightarrow> m)"

section \<open>The error-mapping interceptor: the four hooks\<close>

text \<open>
  \<open>createErrorInterceptor\<close>.  The hooks take the platform, whether \<open>onError\<close> is
  configured, the delegate \<open>next\<close> and the state shared between calls.  A rejection handler
  \<open>.catch((e) => deferred.reject(mapRpcError(e, ...)))\<close> is \<open>map_rejection\<close>.  The handlers
  of one call run in the order in which its channels settle; the model runs them in the
  order headers, response, status, trailers, and the stream's events after them.
\<close>

definition map_rejection ::
  "platform \<Rightarrow> bool option \<Rightarrow> bool \<Rightarrow> string option \<Rightarrow> 'a outcome \<Rightarrow> world
     \<Rightarrow> 'a outcome \<times> world" where
  "map_rejection g abort onError callSiteStack p w =
     (case p of
        Rejected e \<Rightarrow>
          (let (error, w') = mapRpcError g e abort onError callSiteStack w
           in (Rejected error, w'))
      | Fulfilled v \<Rightarrow> (Fulfilled v, w)
      | Pending \<Rightarrow> (Pending, w))"

text \<open>
  The listener \<open>responses.onNext((message, error, done) => ...)\<close> that forwards every event
  to the output stream, the error mapped.
\<close>

fun map_stream ::
  "platform \<Rightarrow> bool option \<Rightarrow> bool \<Rightarrow> string option \<Rightarrow> 'o stream_event list \<Rightarrow> world
     \<Rightarrow> 'o stream_event list \<times> world" where
  "map_stream g abort onError callSiteStack [] w = ([], w)"
| "map_stream g abort onError callSiteStack (Message m # evs) w =
     (let (out, w') = map_stream g abort onError callSiteStack evs w in (Message m # out, w'))"
| "map_stream g abort onError callSiteStack (StreamError e # evs) w =
     (let (error, w1) = mapRpcError g e abort onError callSiteStack w;
          (out, w') = map_stream g abort onError callSiteStack evs w1
      in (StreamError error # out, w'))"
| "map_stream g abort onError callSiteStack (StreamComplete # evs) w =
     (let (out, w') = map_stream g abort onError callSiteStack evs w
      in (StreamComplete # out, w'))"

definition err_interceptUnary ::
  "platform \<Rightarrow> bool \<Rightarrow> (MethodInfo \<Rightarrow> 'i \<Rightarrow> RpcOptions \<Rightarrow> ('i, 'o) UnaryCall)
     \<Rightarrow> MethodInfo \<Rightarrow> 'i \<Rightarrow> RpcOptions \<Rightarrow> world \<Rightarrow> ('i, 'o) UnaryCall \<times> world" where
  "err_interceptUnary g onError next method input options w =
     (let callSiteStack = captureCallSiteStack g;
          call = \<lparr>u_method = method, u_requestHeaders = meta_or_empty options,
                  u_request = input, u_headers = Pending, u_response = Pending,
                  u_status = Pending, u_trailers = Pending\<rparr>
      in (case await_unary (next method input options) of
            Fulfilled (h, r, s, t) \<Rightarrow>
              (call\<lparr>u_headers := Fulfilled h, u_response := Fulfilled r,
                    u_status := Fulfilled s, u_trailers := Fulfilled t\<rparr>, w)
          | Rejected e \<Rightarrow>
              (let (error, w') =
                     mapRpcError g e (options_abort options) onError callSiteStack w
               in (call\<lparr>u_headers := Rejected error, u_response := Rejected error,
                         u_status := Rejected error, u_trailers := Rejected error\<rparr>, w'))
          | Pending \<Rightarrow> (call, w)))"

definition err_interceptServerStreaming ::
  "platform \<Rightarrow> bool \<Rightarrow> (MethodInfo \<Rightarrow> 'i \<Rightarrow> RpcOptions \<Rightarrow> ('i, 'o) ServerStreamingCall)
     \<Rightarrow> MethodInfo \<Rightarrow> 'i \<Rightarrow> RpcOptions \<Rightarrow> world
     \<Rightarrow> ('i, 'o) ServerStreamingCall \<times> world" where
  "err_interceptServerStreaming g onError next method input options w =
     (let callSiteStack = captureCallSiteStack g;
          serverStream = next method input options;
          (outputStream, w') =
             map_stream g (options_abort options) onError callSiteStack
               (ss_responses serverStream) w
      in (\<lparr>ss_method = method, ss_requestHeaders = meta_or_empty options,
            ss_request = input, ss_headers = ss_headers serverStream,
            ss_responses = outputStream, ss_status = ss_status serverStream,
            ss_trailers = ss_trailers serverStream\<rparr>, w'))"

definition err_interceptClientStreaming ::
  "platform \<Rightarrow> bool \<Rightarrow> (MethodInfo \<Rightarrow> RpcOptions \<Rightarrow> ('i, 'o) ClientStreamingCall)
     \<Rightarrow> MethodInfo \<Rightarrow> RpcOptions \<Rightarrow> world \<Rightarrow> ('i, 'o) ClientStreamingCall \<times> world" where
  "err_interceptClientStreaming g onError next method options w =
     (let callSiteStack = captureCallSiteStack g;
          call = next method options;
          (headersDeferred, w1) =
             map_rejection g (options_abort options) onError callSiteStack (cs_headers call) w;
          (responseDeferred, w2) =
             map_rejection g (options_abort options) onError callSiteStack (cs_response call) w1;
          (statusDeferred, w3) =
             map_rejection g (options_abort options) onError callSiteStack (cs_status call) w2;
          (trailersDeferred, w4) =
             map_rejection g (options_abort options) onError callSiteStack (cs_trailers call) w3
      in (\<lparr>cs_method = method, cs_requestHeaders = meta_or_empty options,
            cs_requests = cs_requests call, cs_headers = headersDeferred,
            cs_response = responseDeferred, cs_status = statusDeferred,
            cs_trailers = trailersDeferred\<rparr>, w4))"

definition err_interceptDuplex ::
  "platform \<Rightarrow> bool \<Rightarrow> (MethodInfo \<Rightarrow> RpcOptions \<Rightarrow> ('i, 'o) DuplexStreamingCall)
     \<Rightarrow> MethodInfo \<Rightarrow> RpcOptions \<Rightarrow> world \<Rightarrow> ('i, 'o) DuplexStreamingCall \<times> world" where
  "err_interceptDuplex g onError next method options w =
     (let callSiteStack = captureCallSiteStack g;
          call = next method options;
          (headersDeferred, w1) =
             map_rejection g (options_abort options) onError callSiteStack (dx_headers call) w;
          (statusDeferred, w2) =
             map_rejection g (options_abort options) onError callSiteStack (dx_status call) w1;
          (trailersDeferred, w3) =
             map_rejection g (options_abort options) onError callSiteStack (dx_trailers call) w2;
          (outputStream, w4) =
             map_stream g (options_abort options) onError callSiteStack (dx_responses call) w3
      in (\<lparr>dx_method = method, dx_requestHeaders = meta_or_empty options,
            dx_requests = dx_requests call, dx_headers = headersDeferred,
            dx_responses = outputStream, dx_status = statusDeferred,
            dx_trailers = trailersDeferred\<rparr>, w4))"

section \<open>The metadata interceptor (\<open>metadata-interceptor.ts\<close>)\<close>

text \<open>
  A metadata provider is a static mapping or a function of the context; a function that
  returns a mapping settles as fulfilled, one that raises or returns a rejected promise
  as rejected.  Metadata is a JavaScript object, modelled as the list of its entries;
  the spread \<open>{ ...a, ...b }\<close> writes the entries of \<open>a\<close> and then those of \<open>b\<close> into a
  fresh object, a key that is there already keeping its place and taking the new value.
\<close>

record MetadataContext =
  callType :: CallType
  context_method :: MethodInfo

datatype MetadataProvider =
    Static RpcMetadata
  | Provider "MetadataContext \<Rightarrow> RpcMetadata outcome"

record MetadataInterceptorConfig =
  config_metadata :: MetadataProvider
  config_callTypes :: "CallType list option"

definition resolveMetadata :: "MetadataProvider \<Rightarrow> MetadataContext \<Rightarrow> RpcMetadata outcome" where
  "resolveMetadata provider context =
     (case provider of Provider f \<Rightarrow> f context | Static m \<Rightarrow> Fulfilled m)"

definition shouldIntercept :: "MetadataInterceptorConfig \<Rightarrow> CallType \<Rightarrow> bool" where
  "shouldIntercept config type =
     (case config_callTypes config of None \<Rightarrow> True | Some ts \<Rightarrow> type \<in> set ts)"

definition spread :: "('k \<times> 'v) list \<Rightarrow> ('k \<times> 'v) list \<Rightarrow> ('k \<times> 'v) list" where
  "spread target source = foldl (\<lambda>acc kv. AList.update (fst kv) (snd kv) acc) target source"

text \<open>\<open>const meta = { ...options.meta, ...resolved }\<close>\<close>

definition merge_meta :: "RpcMetadata option \<Rightarrow> RpcMetadata \<Rightarrow> RpcMetadata" where
  "merge_meta m resolved =
     spread (spread [] (case m of None \<Rightarrow> [] | Some xs \<Rightarrow> xs)) resolved"

text \<open>
  \<open>interceptUnary\<close> and \<open>interceptServerStreaming\<close>.  The callback of \<open>.then\<close> returns the
  delegated call, which is a thenable, so \<open>callPromise\<close> settles as the finished call does.
\<close>

definition meta_interceptUnary ::
  "MetadataInterceptorConfig \<Rightarrow> (MethodInfo \<Rightarrow> 'i \<Rightarrow> RpcOptions \<Rightarrow> ('i, 'o) UnaryCall)
     \<Rightarrow> MethodInfo \<Rightarrow> 'i \<Rightarrow> RpcOptions \<Rightarrow> ('i, 'o) UnaryCall" where
  "meta_interceptUnary config next method input options =
     (if \<not> shouldIntercept config Unary then next method input options
      else
        (let context = \<lparr>callType = Unary, context_method = method\<rparr>;
             resolved = resolveMetadata (config_metadata config) context;
             callPromise =
               (case resolved of
                  Fulfilled r \<Rightarrow>
                    await_unary
                      (next method input
                         (options\<lparr>options_meta := Some (merge_meta (options_meta options) r)\<rparr>))
                | Rejected e \<Rightarrow> Rejected e
                | Pending \<Rightarrow> Pending)
         in \<lparr>u_method = method, u_requestHeaders = meta_or_empty options, u_request = input,
              u_headers = then_outcome callPromise (\<lambda>(h, r, s, t). h),
              u_response = then_outcome callPromise (\<lambda>(h, r, s, t). r),
              u_status = then_outcome callPromise (\<lambda>(h, r, s, t). s),
              u_trailers = then_outcome callPromise (\<lambda>(h, r, s, t). t)\<rparr>))"

definition meta_interceptServerStreaming ::
  "MetadataInterceptorConfig
     \<Rightarrow> (MethodInfo \<Rightarrow> 'i \<Rightarrow> RpcOptions \<Rightarrow> ('i, 'o) ServerStreamingCall)
     \<Rightarrow> MethodInfo \<Rightarrow> 'i \<Rightarrow> RpcOptions \<Rightarrow> ('i, 'o) ServerStreamingCall"
where
  "meta_interceptServerStreaming config next method input options =
     (if \<not> shouldIntercept config ServerStreaming then next method input options
      else
        (let context = \<lparr>callType = ServerStreaming, context_method = method\<rparr>;
             resolved = resolveMetadata (config_metadata config) context;
             outputStream =
               (case resolved of
                  Fulfilled r \<Rightarrow>
                    ss_responses
                      (next method input
                         (options\<lparr>options_meta := Some (merge_meta (options_meta options) r)\<rparr>))
                | _ \<Rightarrow> []);
             callPromise =
               (case resolved of
                  Fulfilled r \<Rightarrow>
                    await_server_streaming
                      (next method input
                         (options\<lparr>options_meta := Some (merge_meta (options_meta options) r)\<rparr>))
                | Rejected e \<Rightarrow> Rejected e
                | Pending \<Rightarrow> Pending)
         in \<lparr>ss_method = method, ss_requestHeaders = meta_or_empty options,
              ss_request = input,
              ss_headers = then_outcome callPromise (\<lambda>(h, s, t). h),
              ss_responses = outputStream,
              ss_status = then_outcome callPromise (\<lambda>(h, s, t). s),
              ss_trailers = then_outcome callPromise (\<lambda>(h, s, t). t)\<rparr>))"

subsection \<open>Client streaming: the buffering proxy\<close>

text \<open>
  \<open>interceptClientStreaming\<close> returns at once a call whose request stream is a proxy that
  closes over \<open>pendingCall\<close>, \<open>pendingMessages\<close> and \<open>sendCompleted\<close>, and whose promises are
  those of four deferreds.  The record holds what the closures share.  The call then
  lives through the caller's \<open>send\<close> and \<open>complete\<close> and, at most once, the callback that
  \<open>resolveMetadata(...).then(...)\<close> registers; a rejection of the provider has no handler.
\<close>

record ('i, 'o) ClientStreamingProxy =
  csp_method :: MethodInfo
  csp_requestHeaders :: RpcMetadata
  csp_pendingCall :: "('i, 'o) ClientStreamingCall option"
  csp_pendingMessages :: "'i list"
  csp_sendCompleted :: bool
  csp_headersDeferred :: "RpcMetadata outcome"
  csp_responseDeferred :: "'o outcome"
  csp_statusDeferred :: "RpcStatus outcome"
  csp_trailersDeferred :: "RpcMetadata outcome"

datatype ('i, 'o) ClientStreamingResult =
    DirectClientStreaming "('i, 'o) ClientStreamingCall"
  | ProxiedClientStreaming "('i, 'o) ClientStreamingProxy"

definition meta_interceptClientStreaming ::
  "MetadataInterceptorConfig \<Rightarrow> (MethodInfo \<Rightarrow> RpcOptions \<Rightarrow> ('i, 'o) ClientStreamingCall)
     \<Rightarrow> MethodInfo \<Rightarrow> RpcOptions \<Rightarrow> ('i, 'o) ClientStreamingResult" where
  "meta_interceptClientStreaming config next method options =
     (if \<not> shouldIntercept config ClientStreaming
      then DirectClientStreaming (next method options)
      else ProxiedClientStreaming
        \<lparr>csp_method = method, csp_requestHeaders = meta_or_empty options,
         csp_pendingCall = None, csp_pendingMessages = [], csp_sendCompleted = False,
         csp_headersDeferred = Pending, csp_responseDeferred = Pending,
         csp_statusDeferred = Pending, csp_trailersDeferred = Pending\<rparr>)"

text \<open>\<open>call.requests.send(msg)\<close> and \<open>call.requests.complete()\<close> on the delegated call.\<close>

definition cs_send :: "'i \<Rightarrow> ('i, 'o) ClientStreamingCall \<Rightarrow> ('i, 'o) ClientStreamingCall" where
  "cs_send msg call = call\<lparr>cs_requests := cs_requests call @ [Send msg]\<rparr>"

definition cs_complete :: "('i, 'o) ClientStreamingCall \<Rightarrow> ('i, 'o) ClientStreamingCall" where
  "cs_complete call = call\<lparr>cs_requests := cs_requests call @ [Complete]\<rparr>"

text \<open>The callback of \<open>.then((resolved) => ...)\<close>.\<close>

definition csp_resolved ::
  "(MethodInfo \<Rightarrow> RpcOptions \<Rightarrow> ('i, 'o) ClientStreamingCall) \<Rightarrow> MethodInfo \<Rightarrow> RpcOptions
     \<Rightarrow> RpcMetadata \<Rightarrow> ('i, 'o) ClientStreamingProxy \<Rightarrow> ('i, 'o) ClientStreamingProxy" where
  "csp_resolved next method options resolved p =
     (let meta = merge_meta (options_meta options) resolved;
          call = next method (options\<lparr>options_meta := Some meta\<rparr>);
          call = foldl (\<lambda>c msg. cs_send msg c) call (csp_pendingMessages p);
          call = (if csp_sendCompleted p then cs_complete call else call)
      in p\<lparr>csp_pendingCall := Some call,
            csp_headersDeferred := cs_headers call,
            csp_responseDeferred := cs_response call,
            csp_statusDeferred := cs_status call,
            csp_trailersDeferred := cs_trailers call,
            csp_pendingMessages := []\<rparr>)"

definition csp_provider_settled ::
  "(MethodInfo \<Rightarrow> RpcOptions \<Rightarrow> ('i, 'o) ClientStreamingCall) \<Rightarrow> MethodInfo \<Rightarrow> RpcOptions
     \<Rightarrow> RpcMetadata outcome \<Rightarrow> ('i, 'o) ClientStreamingProxy \<Rightarrow> ('i, 'o) ClientStreamingProxy"
where
  "csp_provider_settled next method options settled p =
     (case settled of
        Fulfilled resolved \<Rightarrow> csp_resolved next method options resolved p
      | Rejected e \<Rightarrow> p
      | Pending \<Rightarrow> p)"

text \<open>The proxy's \<open>send\<close> and \<open>complete\<close>.\<close>

fun csp_request :: "('i, 'o) ClientStreamingProxy \<Rightarrow> 'i request_event \<Rightarrow> ('i, 'o) ClientStreamingProxy"
where
  "csp_request p (Send msg) =
     (case csp_pendingCall p of
        Some call \<Rightarrow> p\<lparr>csp_pendingCall := Some (cs_send msg call)\<rparr>
      | None \<Rightarrow> p\<lparr>csp_pendingMessages := csp_pendingMessages p @ [msg]\<rparr>)"
| "csp_request p Complete =
     (case csp_pendingCall p of
        Some call \<Rightarrow> p\<lparr>csp_pendingCall := Some (cs_complete call)\<rparr>
      | None \<Rightarrow> p\<lparr>csp_sendCompleted := True\<rparr>)"

text \<open>
  A run of an intercepted call: what the caller does before the provider settles, the
  provider settling, what the caller does after.
\<close>

definition csp_run ::
  "MetadataInterceptorConfig \<Rightarrow> (MethodInfo \<Rightarrow> RpcOptions \<Rightarrow> ('i, 'o) ClientStreamingCall)
     \<Rightarrow> MethodInfo \<Rightarrow> RpcOptions \<Rightarrow> 'i request_event list \<Rightarrow> 'i request_event list
     \<Rightarrow> ('i, 'o) ClientStreamingProxy option" where
  "csp_run config next method options before after =
     (case meta_interceptClientStreaming config next method options of
        DirectClientStreaming call \<Rightarrow> None
      | ProxiedClientStreaming p \<Rightarrow>
          Some (foldl csp_request
                  (csp_provider_settled next method options
                     (resolveMetadata (config_metadata config)
                        \<lparr>callType = ClientStreaming, context_method = method\<rparr>)
                     (foldl csp_request p before))
                  after))"

subsection \<open>Duplex: the same proxy, with a response stream\<close>

record ('i, 'o) DuplexProxy =
  dxp_method :: MethodInfo
  dxp_requestHeaders :: RpcMetadata
  dxp_pendingCall :: "('i, 'o) DuplexStreamingCall option"
  dxp_pendingMessages :: "'i list"
  dxp_sendCompleted :: bool
  dxp_headersDeferred :: "RpcMetadata outcome"
  dxp_responseStream :: "'o stream_event list"
  dxp_statusDeferred :: "RpcStatus outcome"
  dxp_trailersDeferred :: "RpcMetadata outcome"

datatype ('i, 'o) DuplexResult =
    DirectDuplex "('i, 'o) DuplexStreamingCall"
  | ProxiedDuplex "('i, 'o) DuplexProxy"

definition meta_interceptDuplex ::
  "MetadataInterceptorConfig \<Rightarrow> (MethodInfo \<Rightarrow> RpcOptions \<Rightarrow> ('i, 'o) DuplexStreamingCall)
     \<Rightarrow> MethodInfo \<Rightarrow> RpcOptions \<Rightarrow> ('i, 'o) DuplexResult" where
  "meta_interceptDuplex config next method options =
     (if \<not> shouldIntercept config Duplex
      then DirectDuplex (next method options)
      else ProxiedDuplex
        \<lparr>dxp_method = method, dxp_requestHeaders = meta_or_empty options,
         dxp_pendingCall = None, dxp_pendingMessages = [], dxp_sendCompleted = False,
         dxp_headersDeferred = Pending, dxp_responseStream = [],
         dxp_statusDeferred = Pending, dxp_trailersDeferred = Pending\<rparr>)"

definition dx_send :: "'i \<Rightarrow> ('i, 'o) DuplexStreamingCall \<Rightarrow> ('i, 'o) DuplexStreamingCall" where
  "dx_send msg call = call\<lparr>dx_requests := dx_requests call @ [Send msg]\<rparr>"

definition dx_complete :: "('i, 'o) DuplexStreamingCall \<Rightarrow> ('i, 'o) DuplexStreamingCall" where
  "dx_complete call = call\<lparr>dx_requests := dx_requests call @ [Complete]\<rparr>"

definition dxp_resolved ::
  "(MethodInfo \<Rightarrow> RpcOptions \<Rightarrow> ('i, 'o) DuplexStreamingCall) \<Rightarrow> MethodInfo \<Rightarrow> RpcOptions
     \<Rightarrow> RpcMetadata \<Rightarrow> ('i, 'o) DuplexProxy \<Rightarrow> ('i, 'o) DuplexProxy" where
  "dxp_resolved next method options resolved p =
     (let meta = merge_meta (options_meta options) resolved;
          call = next method (options\<lparr>options_meta := Some meta\<rparr>);
          call = foldl (\<lambda>c msg. dx_send msg c) call (dxp_pendingMessages p);
          call = (if dxp_sendCompleted p then dx_complete call else call)
      in p\<lparr>dxp_pendingCall := Some call,
            dxp_headersDeferred := dx_headers call,
            dxp_statusDeferred := dx_status call,
            dxp_trailersDeferred := dx_trailers call,
            dxp_responseStream := dx_responses call,
            dxp_pendingMessages := []\<rparr>)"

definition dxp_provider_settled ::
  "(MethodInfo \<Rightarrow> RpcOptions \<Rightarrow> ('i, 'o) DuplexStreamingCall) \<Rightarrow> MethodInfo \<Rightarrow> RpcOptions
     \<Rightarrow> RpcMetadata outcome \<Rightarrow> ('i, 'o) DuplexProxy \<Rightarrow> ('i, 'o) DuplexProxy" where
  "dxp_provider_settled next method options settled p =
     (case settled of
        Fulfilled resolved \<Rightarrow> dxp_resolved next method options resolved p
      | Rejected e \<Rightarrow> p
      | Pending \<Rightarrow> p)"

fun dxp_request :: "('i, 'o) DuplexProxy \<Rightarrow> 'i request_event \<Rightarrow> ('i, 'o) DuplexProxy" where
  "dxp_request p (Send msg) =
     (case dxp_pendingCall p of
        Some call \<Rightarrow> p\<lparr>dxp_pendingCall := Some (dx_send msg call)\<rparr>
      | None \<Rightarrow> p\<lparr>dxp_pendingMessages := dxp_pendingMessages p @ [msg]\<rparr>)"
| "dxp_request p Complete =
     (case dxp_pendingCall p of
        Some call \<Rightarrow> p\<lparr>dxp_pendingCall := Some (dx_complete call)\<rparr>
      | None \<Rightarrow> p\<lparr>dxp_sendCompleted := True\<rparr>)"

definition dxp_run ::
  "MetadataInterceptorConfig \<Rightarrow> (MethodInfo \<Rightarrow> RpcOptions \<Rightarrow> ('i, 'o) DuplexStreamingCall)
     \<Rightarrow> MethodInfo \<Rightarrow> RpcOptions \<Rightarrow> 'i request_event list \<Rightarrow> 'i request_event list
     \<Rightarrow> ('i, 'o) DuplexProxy option" where
  "dxp_run config next method options before after =
     (case meta_interceptDuplex config next method options of
        DirectDuplex call \<Rightarrow> None
      | ProxiedDuplex p \<Rightarrow>
          Some (foldl dxp_request
                  (dxp_provider_settled next method options
                     (resolveMetadata (config_metadata config)
                        \<lparr>callType = Duplex, context_method = method\<rparr>)
                     (foldl dxp_request p before))
                  after))"

section \<open>Delegates and providers for the examples\<close>

text \<open>
  A platform without base64 decoders and without stacks, the state before any call, a
  call without options, the wire error \<open>NOT_FOUND\<close>; a client-streaming delegate whose
  four channels reject with that one wire error, and one whose channels all succeed; a
  provider that rejects.  Then, for each call shape, a delegate that succeeds and answers
  with the request metadata it was called with as its response headers; a unary delegate
  whose four promises reject with the wire error, and a server-streaming delegate whose
  three promises reject with it and whose response stream reports it; and the typed
  error that \<open>mapRpcError\<close> builds from the wire error on the bare platform, as the object
  with a given number.
\<close>

definition bare_platform :: platform where
  "bare_platform =
     \<lparr>atob = None, Buffer_from = None, new_error_stack = [], call_site_stack = None\<rparr>"

definition new_world :: world where
  "new_world = \<lparr>next_id = 0, onError_calls = []\<rparr>"

definition no_options :: RpcOptions where
  "no_options = \<lparr>options_meta = None, options_abort = None\<rparr>"

definition not_found :: RpcError where
  "not_found = \<lparr>rpc_code = ''NOT_FOUND'', rpc_meta = [], rpc_message = []\<rparr>"

definition typed_not_found :: "nat \<Rightarrow> thrown" where
  "typed_not_found i =
     TypedErr \<lparr>ident = i, cls = NotFoundError, name = ''NotFoundError'',
       message = ''Not found'', error_details = [], cause = Some not_found, stack = []\<rparr>"

definition client_streaming_not_found ::
  "MethodInfo \<Rightarrow> RpcOptions \<Rightarrow> (nat, nat) ClientStreamingCall" where
  "client_streaming_not_found m opts =
     \<lparr>cs_method = m, cs_requestHeaders = meta_or_empty opts, cs_requests = [],
      cs_headers = Rejected (RpcErr not_found), cs_response = Rejected (RpcErr not_found),
      cs_status = Rejected (RpcErr not_found), cs_trailers = Rejected (RpcErr not_found)\<rparr>"

definition client_streaming_ok ::
  "MethodInfo \<Rightarrow> RpcOptions \<Rightarrow> (nat, nat) ClientStreamingCall" where
  "client_streaming_ok m opts =
     \<lparr>cs_method = m, cs_requestHeaders = meta_or_empty opts, cs_requests = [],
      cs_headers = Fulfilled [], cs_response = Fulfilled 0,
      cs_status = Fulfilled \<lparr>status_code = ''OK'', status_detail = []\<rparr>,
      cs_trailers = Fulfilled []\<rparr>"

definition rejecting_provider :: MetadataProvider where
  "rejecting_provider = Provider (\<lambda>context. Rejected (OtherError 0 ''no token''))"

definition status_ok :: RpcStatus where
  "status_ok = \<lparr>status_code = ''OK'', status_detail = []\<rparr>"

definition unary_echo :: "MethodInfo \<Rightarrow> nat \<Rightarrow> RpcOptions \<Rightarrow> (nat, nat) UnaryCall" where
  "unary_echo m i opts =
     \<lparr>u_method = m, u_requestHeaders = meta_or_empty opts, u_request = i,
      u_headers = Fulfilled (meta_or_empty opts), u_response = Fulfilled i,
      u_status = Fulfilled status_ok, u_trailers = Fulfilled []\<rparr>"

definition server_streaming_echo ::
  "MethodInfo \<Rightarrow> nat \<Rightarrow> RpcOptions \<Rightarrow> (nat, nat) ServerStreamingCall" where
  "server_streaming_echo m i opts =
     \<lparr>ss_method = m, ss_requestHeaders = meta_or_empty opts, ss_request = i,
      ss_headers = Fulfilled (meta_or_empty opts),
      ss_responses = [Message i, StreamComplete],
      ss_status = Fulfilled status_ok, ss_trailers = Fulfilled []\<rparr>"

definition client_streaming_echo ::
  "MethodInfo \<Rightarrow> RpcOptions \<Rightarrow> (nat, nat) ClientStreamingCall" where
  "client_streaming_echo m opts =
     \<lparr>cs_method = m, cs_requestHeaders = meta_or_empty opts, cs_requests = [],
      cs_headers = Fulfilled (meta_or_empty opts), cs_response = Fulfilled 0,
      cs_status = Fulfilled status_ok, cs_trailers = Fulfilled []\<rparr>"

definition duplex_echo :: "MethodInfo \<Rightarrow> RpcOptions \<Rightarrow> (nat, nat) DuplexStreamingCall" where
  "duplex_echo m opts =
     \<lparr>dx_method = m, dx_requestHeaders = meta_or_empty opts, dx_requests = [],
      dx_headers = Fulfilled (meta_or_empty opts), dx_responses = [StreamComplete],
      dx_status = Fulfilled status_ok, dx_trailers = Fulfilled []\<rparr>"

definition unary_not_found :: "MethodInfo \<Rightarrow> nat \<Rightarrow> RpcOptions \<Rightarrow> (nat, nat) UnaryCall" where
  "unary_not_found m i opts =
     \<lparr>u_method = m, u_requestHeaders = meta_or_empty opts, u_request = i,
      u_headers = Rejected (RpcErr not_found), u_response = Rejected (RpcErr not_found),
      u_status = Rejected (RpcErr not_found), u_trailers = Rejected (RpcErr not_found)\<rparr>"

definition server_streaming_not_found ::
  "MethodInfo \<Rightarrow> nat \<Rightarrow> RpcOptions \<Rightarrow> (nat, nat) ServerStreamingCall" where
  "server_streaming_not_found m i opts =
     \<lparr>ss_method = m, ss_requestHeaders = meta_or_empty opts, ss_request = i,
      ss_headers = Rejected (RpcErr not_found),
      ss_responses = [StreamError (RpcErr not_found)],
      ss_status = Rejected (RpcErr not_found), ss_trailers = Rejected (RpcErr not_found)\<rparr>"

section \<open>Reading back what the writer wrote\<close>

lemma unat_byte_of_nat: "n < 256 \<Longrightarrow> unat (of_nat n :: byte) = n"
  by (simp add: unat_of_nat)

lemma varint_read_write:
  "n < 128 ^ Suc k \<Longrightarrow> varint_read (Suc k) (varint_write n @ rest) = Some (n, rest)"
proof (induction k arbitrary: n)
  case 0
  then have "unat (of_nat n :: byte) = n" by (intro unat_byte_of_nat) simp
  with 0 show ?case by (subst varint_write.simps) simp
next
  case (Suc k)
  show ?case
  proof (cases "n > 127")
    case True
    have lt: "n div 128 < 128 ^ Suc k" using Suc.prems by (simp add: less_mult_imp_div_less mult.commute)
    have b: "unat (of_nat (n mod 128 + 128) :: byte) = n mod 128 + 128"
      by (rule unat_byte_of_nat) simp
    show ?thesis
      using True Suc.IH[OF lt] b
      by (subst varint_write.simps) simp
  next
    case False
    then have "unat (of_nat n :: byte) = n" by (intro unat_byte_of_nat) simp
    with False show ?thesis
      by (subst varint_write.simps) simp
  qed
qed

lemma rd_uint32_write: "n < 2 ^ 32 \<Longrightarrow> rd_uint32 (wr_uint32 n @ rest) = Some (n, rest)"
proof -
  assume a: "n < 2 ^ 32"
  then have "n < 128 ^ Suc 9" by simp
  from varint_read_write[OF this] a show ?thesis by (simp add: rd_uint32_def wr_uint32_def)
qed

lemma rd_tag_write:
  "0 < f \<Longrightarrow> f < 2 ^ 29 \<Longrightarrow> rd_tag (wr_tag f w @ rest) = Some ((f, w), rest)"
proof -
  assume a: "0 < f" "f < 2 ^ 29"
  have c: "wire_code w < 8" by (cases w) simp_all
  then have "f * 8 + wire_code w < 2 ^ 32" using a by simp
  from rd_uint32_write[OF this] 
  have r: "rd_uint32 (wr_tag f w @ rest) = Some (f * 8 + wire_code w, rest)"
    by (simp add: wr_tag_def)
  have d: "(f * 8 + wire_code w) div 8 = f" using c by simp
  have m: "wire_code w mod 8 = wire_code w" using c by simp
  have w: "wire_of_code (wire_code w) = Some w" by (cases w) (simp_all add: wire_of_code_def)
  show ?thesis using a by (simp add: rd_tag_def r d m w)
qed

lemma TextDecoder_encode: "well_formed s \<Longrightarrow> TextDecoder_decode (TextEncoder_encode s) = Some s"
proof -
  have "map (\<lambda>b. char_of (unat b)) (TextEncoder_encode s) = s"
    by (induction s) (simp_all add: TextEncoder_encode_def unat_of_nat)
  then show "well_formed s \<Longrightarrow> TextDecoder_decode (TextEncoder_encode s) = Some s"
    by (simp add: TextDecoder_decode_def well_formed_def)
qed

lemma well_formed_ascii: "list_all (\<lambda>c. of_char c < (128::nat)) s \<Longrightarrow> well_formed s"
  unfolding well_formed_def
  by (induction s) (simp_all add: TextEncoder_encode_def unat_of_nat)

lemma rd_bytes_write:
  "length v < 2 ^ 32 \<Longrightarrow> rd_bytes (wr_bytes v @ rest) = Some (v, rest)"
  by (simp add: rd_bytes_def wr_bytes_def rd_uint32_write)

lemma rd_string_write:
  "length s < 2 ^ 32 \<Longrightarrow> well_formed s \<Longrightarrow> rd_string (wr_string s @ rest) = Some (s, rest)"
proof -
  assume "length s < 2 ^ 32" and w: "well_formed s"
  then have "length (TextEncoder_encode s) < 2 ^ 32" by (simp add: TextEncoder_encode_def)
  then show ?thesis
    using w by (simp add: rd_string_def wr_string_def rd_bytes_write TextDecoder_encode)
qed

lemma neg_mod_eq: "- m \<le> v \<Longrightarrow> v < 0 \<Longrightarrow> v mod m = v + (m::int)"
proof -
  assume a: "- m \<le> v" "v < 0"
  have "v mod m = (v + m) mod m" by simp
  also have "\<dots> = v + m" using a by (intro mod_pos_pos_trivial) simp_all
  finally show ?thesis .
qed

lemma rd_int32_write:
  "- (2 ^ 31) \<le> v \<Longrightarrow> v < 2 ^ 31 \<Longrightarrow> rd_int32 (wr_int32 v @ rest) = Some (v, rest)"
proof -
  assume a: "- (2 ^ 31) \<le> v" "v < 2 ^ 31"
  show ?thesis
  proof (cases "v \<ge> 0")
    case True
    then have "nat v < 2 ^ 32" using a by simp
    from rd_uint32_write[OF this] True a show ?thesis
      by (simp add: rd_int32_def wr_int32_def wr_uint32_def to_signed_def)
  next
    case False
    let ?n = "nat (v mod 2 ^ 64)"
    have e: "v mod 2 ^ 64 = v + 2 ^ 64" using False a
      by (intro neg_mod_eq) simp_all
    have "?n < 128 ^ Suc 9" using e a by simp
    from varint_read_write[OF this]
    have r: "varint_read 10 (varint_write ?n @ rest) = Some (?n, rest)" by simp
    have m: "?n mod 2 ^ 32 = nat (v + 2 ^ 32)"
    proof -
      have "int (?n mod 2 ^ 32) = (v mod 2 ^ 64) mod 2 ^ 32" by (simp add: zmod_int)
      also have "\<dots> = v mod 2 ^ 32" by (rule mod_mod_cancel) simp
      also have "\<dots> = v + 2 ^ 32" using a False by (intro neg_mod_eq) simp_all
      finally show ?thesis by linarith
    qed
    show ?thesis using False a r m
      by (simp add: rd_int32_def rd_uint32_def wr_int32_def to_signed_def)
  qed
qed

lemma rd_int64_write:
  "- (2 ^ 63) \<le> v \<Longrightarrow> v < 2 ^ 63 \<Longrightarrow> rd_int64 (wr_int64 v @ rest) = Some (v, rest)"
proof -
  assume a: "- (2 ^ 63) \<le> v" "v < 2 ^ 63"
  let ?n = "nat (v mod 2 ^ 64)"
  have lt: "?n < 2 ^ 64" by (simp add: nat_less_iff)
  then have "?n < 128 ^ Suc 9" by simp
  from varint_read_write[OF this]
  have r: "varint_read 10 (varint_write ?n @ rest) = Some (?n, rest)" by simp
  have s: "to_signed 64 ?n = v"
  proof (cases "v \<ge> 0")
    case True
    then show ?thesis using a by (simp add: to_signed_def)
  next
    case False
    then have "v mod 2 ^ 64 = v + 2 ^ 64" using a by (intro neg_mod_eq) simp_all
    then show ?thesis using False a by (simp add: to_signed_def)
  qed
  show ?thesis using r lt s by (simp add: rd_int64_def wr_int64_def)
qed

section \<open>Facts about \<open>mapRpcError\<close>\<close>

lemmas code_defs = GrpcStatusCode_CANCELLED_def GrpcStatusCode_INVALID_ARGUMENT_def
  GrpcStatusCode_DEADLINE_EXCEEDED_def GrpcStatusCode_NOT_FOUND_def
  GrpcStatusCode_ALREADY_EXISTS_def GrpcStatusCode_PERMISSION_DENIED_def
  GrpcStatusCode_FAILED_PRECONDITION_def GrpcStatusCode_ABORTED_def
  GrpcStatusCode_UNAVAILABLE_def GrpcStatusCode_UNAUTHENTICATED_def

lemma applyCallSiteStack_fields [simp]:
  "ident (applyCallSiteStack e cs) = ident e"
  "cls (applyCallSiteStack e cs) = cls e"
  "name (applyCallSiteStack e cs) = name e"
  "message (applyCallSiteStack e cs) = message e"
  "error_details (applyCallSiteStack e cs) = error_details e"
  "cause (applyCallSiteStack e cs) = cause e"
  by (simp_all add: applyCallSiteStack_def Let_def split: option.splits)

lemma mapRpcError_wire:
  "mapRpcError g (RpcErr r) abort onError cs w =
     (let c = (if abort = Some True then AbortedError else class_of_code (rpc_code r));
          opts = (if abort = Some True then None
                  else Some ((parseRichErrorDetails g (rpc_meta r))\<lparr>opt_cause := Some r\<rparr>));
          error = applyCallSiteStack (fst (new_GrpcError g c opts w)) cs
      in (TypedErr error, call_onError onError error (w\<lparr>next_id := Suc (next_id w)\<rparr>)))"
  by (simp add: mapRpcError_def Let_def new_GrpcError_def)


section \<open>The ten type URLs\<close>

lemma TYPE_URLS_simps:
  "x \<in> set TYPE_URLS \<longleftrightarrow>
     x = TYPE_URLS_localizedMessage \<or> x = TYPE_URLS_badRequest \<or> x = TYPE_URLS_debugInfo \<or>
     x = TYPE_URLS_errorInfo \<or> x = TYPE_URLS_retryInfo \<or> x = TYPE_URLS_quotaFailure \<or>
     x = TYPE_URLS_preconditionFailure \<or> x = TYPE_URLS_requestInfo \<or>
     x = TYPE_URLS_resourceInfo \<or> x = TYPE_URLS_help"
  by (auto simp: TYPE_URLS_def)

lemmas TYPE_URL_defs = TYPE_URLS_localizedMessage_def TYPE_URLS_badRequest_def
  TYPE_URLS_debugInfo_def TYPE_URLS_errorInfo_def TYPE_URLS_retryInfo_def
  TYPE_URLS_quotaFailure_def TYPE_URLS_preconditionFailure_def TYPE_URLS_requestInfo_def
  TYPE_URLS_resourceInfo_def TYPE_URLS_help_def


section \<open>The decoders read back what the encoders wrote\<close>

text \<open>
  One lemma per field of every decoder loop: the loop, given the bytes the encoder writes
  for that field followed by any other bytes, goes on with those bytes and the field
  stored.  The round trip of a message follows field by field, that of a repeated field by
  induction on the list.
\<close>

lemma varint_write_nonempty [simp]: "varint_write n \<noteq> []"
  by (subst varint_write.simps) simp

lemma wr_tag_nonempty [simp]: "wr_tag f w \<noteq> []"
  by (simp add: wr_tag_def wr_uint32_def)

lemma rd_tag_write_small [simp]:
  "rd_tag (wr_tag (Suc 0) w @ rest) = Some ((1, w), rest)"
  "rd_tag (wr_tag 2 w @ rest) = Some ((2, w), rest)"
  "rd_tag (wr_tag 3 w @ rest) = Some ((3, w), rest)"
  "rd_tag (wr_tag 4 w @ rest) = Some ((4, w), rest)"
  by (simp_all add: rd_tag_write)

lemma parseLocalizedMessage_loop_Nil: "parseLocalizedMessage_loop [] a b = Some (LocalizedMessageDetail a b)"
  by (subst parseLocalizedMessage_loop.simps) simp

lemma parseLocalizedMessage_loop_field1:
  "length s < 2 ^ 32 \<Longrightarrow> well_formed s \<Longrightarrow>
   parseLocalizedMessage_loop (wr_tag (Suc 0) LengthDelimited @ wr_string s @ rest) a b = parseLocalizedMessage_loop rest s b"
  by (subst parseLocalizedMessage_loop.simps) (simp add: rd_string_write)

lemma parseLocalizedMessage_loop_string_field1:
  "length s < 2 ^ 32 \<Longrightarrow> well_formed s \<Longrightarrow>
   parseLocalizedMessage_loop (wr_string_field (Suc 0) s @ rest) [] b = parseLocalizedMessage_loop rest s b"
  by (simp add: wr_string_field_def parseLocalizedMessage_loop_field1)

lemma parseLocalizedMessage_loop_field2:
  "length s < 2 ^ 32 \<Longrightarrow> well_formed s \<Longrightarrow>
   parseLocalizedMessage_loop (wr_tag 2 LengthDelimited @ wr_string s @ rest) a b = parseLocalizedMessage_loop rest a s"
  by (subst parseLocalizedMessage_loop.simps) (simp add: rd_string_write)

lemma parseLocalizedMessage_loop_string_field2:
  "length s < 2 ^ 32 \<Longrightarrow> well_formed s \<Longrightarrow>
   parseLocalizedMessage_loop (wr_string_field 2 s @ rest) a [] = parseLocalizedMessage_loop rest a s"
  by (simp add: wr_string_field_def parseLocalizedMessage_loop_field2)

lemma parseFieldViolation_loop_Nil: "parseFieldViolation_loop [] a b = Some (FieldViolation a b)"
  by (subst parseFieldViolation_loop.simps) simp

lemma parseFieldViolation_loop_field1:
  "length s < 2 ^ 32 \<Longrightarrow> well_formed s \<Longrightarrow>
   parseFieldViolation_loop (wr_tag (Suc 0) LengthDelimited @ wr_string s @ rest) a b = parseFieldViolation_loop rest s b"
  by (subst parseFieldViolation_loop.simps) (simp add: rd_string_write)

lemma parseFieldViolation_loop_string_field1:
  "length s < 2 ^ 32 \<Longrightarrow> well_formed s \<Longrightarrow>
   parseFieldViolation_loop (wr_string_field (Suc 0) s @ rest) [] b = parseFieldViolation_loop rest s b"
  by (simp add: wr_string_field_def parseFieldViolation_loop_field1)

lemma parseFieldViolation_loop_field2:
  "length s < 2 ^ 32 \<Longrightarrow> well_formed s \<Longrightarrow>
   parseFieldViolation_loop (wr_tag 2 LengthDelimited @ wr_string s @ rest) a b = parseFieldViolation_loop rest a s"
  by (subst parseFieldViolation_loop.simps) (simp add: rd_string_write)

lemma parseFieldViolation_loop_string_field2:
  "length s < 2 ^ 32 \<Longrightarrow> well_formed s \<Longrightarrow>
   parseFieldViolation_loop (wr_string_field 2 s @ rest) a [] = parseFieldViolation_loop rest a s"
  by (simp add: wr_string_field_def parseFieldViolation_loop_field2)

lemma parseMapEntry_loop_Nil: "parseMapEntry_loop [] a b = Some ((a, b))"
  by (subst parseMapEntry_loop.simps) simp

lemma parseMapEntry_loop_field1:
  "length s < 2 ^ 32 \<Longrightarrow> well_formed s \<Longrightarrow>
   parseMapEntry_loop (wr_tag (Suc 0) LengthDelimited @ wr_string s @ rest) a b = parseMapEntry_loop rest s b"
  by (subst parseMapEntry_loop.simps) (simp add: rd_string_write)

lemma parseMapEntry_loop_string_field1:
  "length s < 2 ^ 32 \<Longrightarrow> well_formed s \<Longrightarrow>
   parseMapEntry_loop (wr_string_field (Suc 0) s @ rest) [] b = parseMapEntry_loop rest s b"
  by (simp add: wr_string_field_def parseMapEntry_loop_field1)

lemma parseMapEntry_loop_field2:
  "length s < 2 ^ 32 \<Longrightarrow> well_formed s \<Longrightarrow>
   parseMapEntry_loop (wr_tag 2 LengthDelimited @ wr_string s @ rest) a b = parseMapEntry_loop rest a s"
  by (subst parseMapEntry_loop.simps) (simp add: rd_string_write)

lemma parseMapEntry_loop_string_field2:
  "length s < 2 ^ 32 \<Longrightarrow> well_formed s \<Longrightarrow>
   parseMapEntry_loop (wr_string_field 2 s @ rest) a [] = parseMapEntry_loop rest a s"
  by (simp add: wr_string_field_def parseMapEntry_loop_field2)

lemma parseQuotaViolation_loop_Nil: "parseQuotaViolation_loop [] a b = Some (QuotaViolation a b)"
  by (subst parseQuotaViolation_loop.simps) simp

lemma parseQuotaViolation_loop_field1:
  "length s < 2 ^ 32 \<Longrightarrow> well_formed s \<Longrightarrow>
   parseQuotaViolation_loop (wr_tag (Suc 0) LengthDelimited @ wr_string s @ rest) a b = parseQuotaViolation_loop rest s b"
  by (subst parseQuotaViolation_loop.simps) (simp add: rd_string_write)

lemma parseQuotaViolation_loop_string_field1:
  "length s < 2 ^ 32 \<Longrightarrow> well_formed s \<Longrightarrow>
   parseQuotaViolation_loop (wr_string_field (Suc 0) s @ rest) [] b = parseQuotaViolation_loop rest s b"
  by (simp add: wr_string_field_def parseQuotaViolation_loop_field1)

lemma parseQuotaViolation_loop_field2:
  "length s < 2 ^ 32 \<Longrightarrow> well_formed s \<Longrightarrow>
   parseQuotaViolation_loop (wr_tag 2 LengthDelimited @ wr_string s @ rest) a b = parseQuotaViolation_loop rest a s"
  by (subst parseQuotaViolation_loop.simps) (simp add: rd_string_write)

lemma parseQuotaViolation_loop_string_field2:
  "length s < 2 ^ 32 \<Longrightarrow> well_formed s \<Longrightarrow>
   parseQuotaViolation_loop (wr_string_field 2 s @ rest) a [] = parseQuotaViolation_loop rest a s"
  by (simp add: wr_string_field_def parseQuotaViolation_loop_field2)

lemma parsePreconditionViolation_loop_Nil: "parsePreconditionViolation_loop [] a b c = Some (PreconditionViolation a b c)"
  by (subst parsePreconditionViolation_loop.simps) simp

lemma parsePreconditionViolation_loop_field1:
  "length s < 2 ^ 32 \<Longrightarrow> well_formed s \<Longrightarrow>
   parsePreconditionViolation_loop (wr_tag (Suc 0) LengthDelimited @ wr_string s @ rest) a b c = parsePreconditionViolation_loop rest s b c"
  by (subst parsePreconditionViolation_loop.simps) (simp add: rd_string_write)

lemma parsePreconditionViolation_loop_string_field1:
  "length s < 2 ^ 32 \<Longrightarrow> well_formed s \<Longrightarrow>
   parsePreconditionViolation_loop (wr_string_field (Suc 0) s @ rest) [] b c = parsePreconditionViolation_loop rest s b c"
  by (simp add: wr_string_field_def parsePreconditionViolation_loop_field1)

lemma parsePreconditionViolation_loop_field2:
  "length s < 2 ^ 32 \<Longrightarrow> well_formed s \<Longrightarrow>
   parsePreconditionViolation_loop (wr_tag 2 LengthDelimited @ wr_string s @ rest) a b c = parsePreconditionViolation_loop rest a s c"
  by (subst parsePreconditionViolation_loop.simps) (simp add: rd_string_write)

lemma parsePreconditionViolation_loop_string_field2:
  "length s < 2 ^ 32 \<Longrightarrow> well_formed s \<Longrightarrow>
   parsePreconditionViolation_loop (wr_string_field 2 s @ rest) a [] c = parsePreconditionViolation_loop rest a s c"
  by (simp add: wr_string_field_def parsePreconditionViolation_loop_field2)

lemma parsePreconditionViolation_loop_field3:
  "length s < 2 ^ 32 \<Longrightarrow> well_formed s \<Longrightarrow>
   parsePreconditionViolation_loop (wr_tag 3 LengthDelimited @ wr_string s @ rest) a b c = parsePreconditionViolation_loop rest a b s"
  by (subst parsePreconditionViolation_loop.simps) (simp add: rd_string_write)

lemma parsePreconditionViolation_loop_string_field3:
  "length s < 2 ^ 32 \<Longrightarrow> well_formed s \<Longrightarrow>
   parsePreconditionViolation_loop (wr_string_field 3 s @ rest) a b [] = parsePreconditionViolation_loop rest a b s"
  by (simp add: wr_string_field_def parsePreconditionViolation_loop_field3)

lemma parseRequestInfo_loop_Nil: "parseRequestInfo_loop [] a b = Some (RequestInfoDetail a b)"
  by (subst parseRequestInfo_loop.simps) simp

lemma parseRequestInfo_loop_field1:
  "length s < 2 ^ 32 \<Longrightarrow> well_formed s \<Longrightarrow>
   parseRequestInfo_loop (wr_tag (Suc 0) LengthDelimited @ wr_string s @ rest) a b = parseRequestInfo_loop rest s b"
  by (subst parseRequestInfo_loop.simps) (simp add: rd_string_write)

lemma parseRequestInfo_loop_string_field1:
  "length s < 2 ^ 32 \<Longrightarrow> well_formed s \<Longrightarrow>
   parseRequestInfo_loop (wr_string_field (Suc 0) s @ rest) [] b = parseRequestInfo_loop rest s b"
  by (simp add: wr_string_field_def parseRequestInfo_loop_field1)

lemma parseRequestInfo_loop_field2:
  "length s < 2 ^ 32 \<Longrightarrow> well_formed s \<Longrightarrow>
   parseRequestInfo_loop (wr_tag 2 LengthDelimited @ wr_string s @ rest) a b = parseRequestInfo_loop rest a s"
  by (subst parseRequestInfo_loop.simps) (simp add: rd_string_write)

lemma parseRequestInfo_loop_string_field2:
  "length s < 2 ^ 32 \<Longrightarrow> well_formed s \<Longrightarrow>
   parseRequestInfo_loop (wr_string_field 2 s @ rest) a [] = parseRequestInfo_loop rest a s"
  by (simp add: wr_string_field_def parseRequestInfo_loop_field2)

lemma parseResourceInfo_loop_Nil: "parseResourceInfo_loop [] a b c d = Some (ResourceInfoDetail a b c d)"
  by (subst parseResourceInfo_loop.simps) simp

lemma parseResourceInfo_loop_field1:
  "length s < 2 ^ 32 \<Longrightarrow> well_formed s \<Longrightarrow>
   parseResourceInfo_loop (wr_tag (Suc 0) LengthDelimited @ wr_string s @ rest) a b c d = parseResourceInfo_loop rest s b c d"
  by (subst parseResourceInfo_loop.simps) (simp add: rd_string_write)

lemma parseResourceInfo_loop_string_field1:
  "length s < 2 ^ 32 \<Longrightarrow> well_formed s \<Longrightarrow>
   parseResourceInfo_loop (wr_string_field (Suc 0) s @ rest) [] b c d = parseResourceInfo_loop rest s b c d"
  by (simp add: wr_string_field_def parseResourceInfo_loop_field1)

lemma parseResourceInfo_loop_field2:
  "length s < 2 ^ 32 \<Longrightarrow> well_formed s \<Longrightarrow>
   parseResourceInfo_loop (wr_tag 2 LengthDelimited @ wr_string s @ rest) a b c d = parseResourceInfo_loop rest a s c d"
  by (subst parseResourceInfo_loop.simps) (simp add: rd_string_write)

lemma parseResourceInfo_loop_string_field2:
  "length s < 2 ^ 32 \<Longrightarrow> well_formed s \<Longrightarrow>
   parseResourceInfo_loop (wr_string_field 2 s @ rest) a [] c d = parseResourceInfo_loop rest a s c d"
  by (simp add: wr_string_field_def parseResourceInfo_loop_field2)

lemma parseResourceInfo_loop_field3:
  "length s < 2 ^ 32 \<Longrightarrow> well_formed s \<Longrightarrow>
   parseResourceInfo_loop (wr_tag 3 LengthDelimited @ wr_string s @ rest) a b c d = parseResourceInfo_loop rest a b s d"
  by (subst parseResourceInfo_loop.simps) (simp add: rd_string_write)

lemma parseResourceInfo_loop_string_field3:
  "length s < 2 ^ 32 \<Longrightarrow> well_formed s \<Longrightarrow>
   parseResourceInfo_loop (wr_string_field 3 s @ rest) a b [] d = parseResourceInfo_loop rest a b s d"
  by (simp add: wr_string_field_def parseResourceInfo_loop_field3)

lemma parseResourceInfo_loop_field4:
  "length s < 2 ^ 32 \<Longrightarrow> well_formed s \<Longrightarrow>
   parseResourceInfo_loop (wr_tag 4 LengthDelimited @ wr_string s @ rest) a b c d = parseResourceInfo_loop rest a b c s"
  by (subst parseResourceInfo_loop.simps) (simp add: rd_string_write)

lemma parseResourceInfo_loop_string_field4:
  "length s < 2 ^ 32 \<Longrightarrow> well_formed s \<Longrightarrow>
   parseResourceInfo_loop (wr_string_field 4 s @ rest) a b c [] = parseResourceInfo_loop rest a b c s"
  by (simp add: wr_string_field_def parseResourceInfo_loop_field4)

lemma parseHelpLink_loop_Nil: "parseHelpLink_loop [] a b = Some (HelpLink a b)"
  by (subst parseHelpLink_loop.simps) simp

lemma parseHelpLink_loop_field1:
  "length s < 2 ^ 32 \<Longrightarrow> well_formed s \<Longrightarrow>
   parseHelpLink_loop (wr_tag (Suc 0) LengthDelimited @ wr_string s @ rest) a b = parseHelpLink_loop rest s b"
  by (subst parseHelpLink_loop.simps) (simp add: rd_string_write)

lemma parseHelpLink_loop_string_field1:
  "length s < 2 ^ 32 \<Longrightarrow> well_formed s \<Longrightarrow>
   parseHelpLink_loop (wr_string_field (Suc 0) s @ rest) [] b = parseHelpLink_loop rest s b"
  by (simp add: wr_string_field_def parseHelpLink_loop_field1)

lemma parseHelpLink_loop_field2:
  "length s < 2 ^ 32 \<Longrightarrow> well_formed s \<Longrightarrow>
   parseHelpLink_loop (wr_tag 2 LengthDelimited @ wr_string s @ rest) a b = parseHelpLink_loop rest a s"
  by (subst parseHelpLink_loop.simps) (simp add: rd_string_write)

lemma parseHelpLink_loop_string_field2:
  "length s < 2 ^ 32 \<Longrightarrow> well_formed s \<Longrightarrow>
   parseHelpLink_loop (wr_string_field 2 s @ rest) a [] = parseHelpLink_loop rest a s"
  by (simp add: wr_string_field_def parseHelpLink_loop_field2)

lemma length_wr_bytes_ge: "length b \<le> length (wr_bytes b)"
  by (simp add: wr_bytes_def)

lemma length_wr_string_ge: "length s \<le> length (wr_string s)"
  by (simp add: wr_string_def wr_bytes_def TextEncoder_encode_def)

lemma length_wr_string_field_ge: "length s \<le> length (wr_string_field i s)"
  using length_wr_string_ge[of s] by (simp add: wr_string_field_def)

lemma length_concat_map_ge: "x \<in> set xs \<Longrightarrow> length (h x) \<le> length (concat (map h xs))"
  by (induction xs) auto

lemma parseLocalizedMessage_loop_encoded:
  assumes "length (encodeLocalizedMessage a b) < 2 ^ 32" and "well_formed a" "well_formed b"
  shows "parseLocalizedMessage_loop (encodeLocalizedMessage a b @ rest) [] [] = parseLocalizedMessage_loop rest a b"
proof -
  have l1: "length (a) < 2 ^ 32"
    using assms length_wr_string_field_ge[of "a" 1] by (simp add: encodeLocalizedMessage_def)
  have l2: "length (b) < 2 ^ 32"
    using assms length_wr_string_field_ge[of "b" 2] by (simp add: encodeLocalizedMessage_def)
  show ?thesis
    using l1 l2 assms(2-)
    by (simp add: encodeLocalizedMessage_def parseLocalizedMessage_loop_string_field1 parseLocalizedMessage_loop_string_field2)
qed

lemma parseLocalizedMessage_encoded:
  assumes "length (encodeLocalizedMessage a b) < 2 ^ 32" and "well_formed a" "well_formed b"
  shows "parseLocalizedMessage (encodeLocalizedMessage a b) = Some (LocalizedMessageDetail a b)"
  using parseLocalizedMessage_loop_encoded[OF assms, of "[]"]
  by (simp add: parseLocalizedMessage_def parseLocalizedMessage_loop_Nil)

lemma parseFieldViolation_loop_encoded:
  assumes "length (encodeFieldViolation v) < 2 ^ 32" and "wf_FieldViolation v"
  shows "parseFieldViolation_loop (encodeFieldViolation v @ rest) [] [] = parseFieldViolation_loop rest (fv_field v) (fv_description v)"
proof -
  have l1: "length (fv_field v) < 2 ^ 32"
    using assms length_wr_string_field_ge[of "fv_field v" 1] by (simp add: encodeFieldViolation_def)
  have l2: "length (fv_description v) < 2 ^ 32"
    using assms length_wr_string_field_ge[of "fv_description v" 2] by (simp add: encodeFieldViolation_def)
  show ?thesis
    using l1 l2 assms(2)
    by (simp add: wf_FieldViolation_def encodeFieldViolation_def parseFieldViolation_loop_string_field1 parseFieldViolation_loop_string_field2)
qed

lemma parseFieldViolation_encoded:
  assumes "length (encodeFieldViolation v) < 2 ^ 32" and "wf_FieldViolation v"
  shows "parseFieldViolation (encodeFieldViolation v) = Some (v)"
  using parseFieldViolation_loop_encoded[OF assms, of "[]"]
  by (simp add: parseFieldViolation_def parseFieldViolation_loop_Nil)

lemma parseQuotaViolation_loop_encoded:
  assumes "length (encodeQuotaViolation v) < 2 ^ 32" and "wf_QuotaViolation v"
  shows "parseQuotaViolation_loop (encodeQuotaViolation v @ rest) [] [] = parseQuotaViolation_loop rest (qv_subject v) (qv_description v)"
proof -
  have l1: "length (qv_subject v) < 2 ^ 32"
    using assms length_wr_string_field_ge[of "qv_subject v" 1] by (simp add: encodeQuotaViolation_def)
  have l2: "length (qv_description v) < 2 ^ 32"
    using assms length_wr_string_field_ge[of "qv_description v" 2] by (simp add: encodeQuotaViolation_def)
  show ?thesis
    using l1 l2 assms(2)
    by (simp add: wf_QuotaViolation_def encodeQuotaViolation_def parseQuotaViolation_loop_string_field1 parseQuotaViolation_loop_string_field2)
qed

lemma parseQuotaViolation_encoded:
  assumes "length (encodeQuotaViolation v) < 2 ^ 32" and "wf_QuotaViolation v"
  shows "parseQuotaViolation (encodeQuotaViolation v) = Some (v)"
  using parseQuotaViolation_loop_encoded[OF assms, of "[]"]
  by (simp add: parseQuotaViolation_def parseQuotaViolation_loop_Nil)

lemma parsePreconditionViolation_loop_encoded:
  assumes "length (encodePreconditionViolation v) < 2 ^ 32" and "wf_PreconditionViolation v"
  shows "parsePreconditionViolation_loop (encodePreconditionViolation v @ rest) [] [] [] = parsePreconditionViolation_loop rest (pv_type v) (pv_subject v) (pv_description v)"
proof -
  have l1: "length (pv_type v) < 2 ^ 32"
    using assms length_wr_string_field_ge[of "pv_type v" 1] by (simp add: encodePreconditionViolation_def)
  have l2: "length (pv_subject v) < 2 ^ 32"
    using assms length_wr_string_field_ge[of "pv_subject v" 2] by (simp add: encodePreconditionViolation_def)
  have l3: "length (pv_description v) < 2 ^ 32"
    using assms length_wr_string_field_ge[of "pv_description v" 3] by (simp add: encodePreconditionViolation_def)
  show ?thesis
    using l1 l2 l3 assms(2)
    by (simp add: wf_PreconditionViolation_def encodePreconditionViolation_def parsePreconditionViolation_loop_string_field1 parsePreconditionViolation_loop_string_field2 parsePreconditionViolation_loop_string_field3)
qed

lemma parsePreconditionViolation_encoded:
  assumes "length (encodePreconditionViolation v) < 2 ^ 32" and "wf_PreconditionViolation v"
  shows "parsePreconditionViolation (encodePreconditionViolation v) = Some (v)"
  using parsePreconditionViolation_loop_encoded[OF assms, of "[]"]
  by (simp add: parsePreconditionViolation_def parsePreconditionViolation_loop_Nil)

lemma parseRequestInfo_loop_encoded:
  assumes "length (encodeRequestInfo a b) < 2 ^ 32" and "well_formed a" "well_formed b"
  shows "parseRequestInfo_loop (encodeRequestInfo a b @ rest) [] [] = parseRequestInfo_loop rest a b"
proof -
  have l1: "length (a) < 2 ^ 32"
    using assms length_wr_string_field_ge[of "a" 1] by (simp add: encodeRequestInfo_def)
  have l2: "length (b) < 2 ^ 32"
    using assms length_wr_string_field_ge[of "b" 2] by (simp add: encodeRequestInfo_def)
  show ?thesis
    using l1 l2 assms(2-)
    by (simp add: encodeRequestInfo_def parseRequestInfo_loop_string_field1 parseRequestInfo_loop_string_field2)
qed

lemma parseRequestInfo_encoded:
  assumes "length (encodeRequestInfo a b) < 2 ^ 32" and "well_formed a" "well_formed b"
  shows "parseRequestInfo (encodeRequestInfo a b) = Some (RequestInfoDetail a b)"
  using parseRequestInfo_loop_encoded[OF assms, of "[]"]
  by (simp add: parseRequestInfo_def parseRequestInfo_loop_Nil)

lemma parseResourceInfo_loop_encoded:
  assumes "length (encodeResourceInfo a b c d) < 2 ^ 32" and "well_formed a" "well_formed b" "well_formed c" "well_formed d"
  shows "parseResourceInfo_loop (encodeResourceInfo a b c d @ rest) [] [] [] [] = parseResourceInfo_loop rest a b c d"
proof -
  have l1: "length (a) < 2 ^ 32"
    using assms length_wr_string_field_ge[of "a" 1] by (simp add: encodeResourceInfo_def)
  have l2: "length (b) < 2 ^ 32"
    using assms length_wr_string_field_ge[of "b" 2] by (simp add: encodeResourceInfo_def)
  have l3: "length (c) < 2 ^ 32"
    using assms length_wr_string_field_ge[of "c" 3] by (simp add: encodeResourceInfo_def)
  have l4: "length (d) < 2 ^ 32"
    using assms length_wr_string_field_ge[of "d" 4] by (simp add: encodeResourceInfo_def)
  show ?thesis
    using l1 l2 l3 l4 assms(2-)
    by (simp add: encodeResourceInfo_def parseResourceInfo_loop_string_field1 parseResourceInfo_loop_string_field2 parseResourceInfo_loop_string_field3 parseResourceInfo_loop_string_field4)
qed

lemma parseResourceInfo_encoded:
  assumes "length (encodeResourceInfo a b c d) < 2 ^ 32" and "well_formed a" "well_formed b" "well_formed c" "well_formed d"
  shows "parseResourceInfo (encodeResourceInfo a b c d) = Some (ResourceInfoDetail a b c d)"
  using parseResourceInfo_loop_encoded[OF assms, of "[]"]
  by (simp add: parseResourceInfo_def parseResourceInfo_loop_Nil)

lemma parseHelpLink_loop_encoded:
  assumes "length (encodeHelpLink v) < 2 ^ 32" and "wf_HelpLink v"
  shows "parseHelpLink_loop (encodeHelpLink v @ rest) [] [] = parseHelpLink_loop rest (hl_description v) (hl_url v)"
proof -
  have l1: "length (hl_description v) < 2 ^ 32"
    using assms length_wr_string_field_ge[of "hl_description v" 1] by (simp add: encodeHelpLink_def)
  have l2: "length (hl_url v) < 2 ^ 32"
    using assms length_wr_string_field_ge[of "hl_url v" 2] by (simp add: encodeHelpLink_def)
  show ?thesis
    using l1 l2 assms(2)
    by (simp add: wf_HelpLink_def encodeHelpLink_def parseHelpLink_loop_string_field1 parseHelpLink_loop_string_field2)
qed

lemma parseHelpLink_encoded:
  assumes "length (encodeHelpLink v) < 2 ^ 32" and "wf_HelpLink v"
  shows "parseHelpLink (encodeHelpLink v) = Some (v)"
  using parseHelpLink_loop_encoded[OF assms, of "[]"]
  by (simp add: parseHelpLink_def parseHelpLink_loop_Nil)

lemma parseBadRequest_loop_Nil: "parseBadRequest_loop [] acc = Some (BadRequestDetail acc)"
  by (subst parseBadRequest_loop.simps) simp

lemma parseBadRequest_loop_entry:
  "length bs < 2 ^ 32 \<Longrightarrow> parseFieldViolation bs = Some v \<Longrightarrow>
   parseBadRequest_loop (wr_tag (Suc 0) LengthDelimited @ wr_bytes bs @ rest) acc
     = parseBadRequest_loop rest (acc @ [v])"
  by (subst parseBadRequest_loop.simps) (simp add: rd_bytes_write)

lemma parseBadRequest_loop_encoded:
  assumes "length (encodeBadRequest vs) < 2 ^ 32" and "list_all wf_FieldViolation vs"
  shows "parseBadRequest_loop (encodeBadRequest vs @ rest) acc = parseBadRequest_loop rest (acc @ vs)"
  using assms unfolding encodeBadRequest_def
proof (induction vs arbitrary: acc)
  case Nil
  then show ?case by simp
next
  case (Cons v vs)
  have lv: "length (encodeFieldViolation v) < 2 ^ 32"
    using Cons.prems(1) length_wr_bytes_ge[of "encodeFieldViolation v"] by simp
  have wv: "wf_FieldViolation v" using Cons.prems(2) by simp
  have wr: "list_all wf_FieldViolation vs" using Cons.prems(2) by simp
  have lr: "length (concat (map (\<lambda>x. wr_tag 1 LengthDelimited @ wr_bytes (encodeFieldViolation x)) vs)) < 2 ^ 32"
    using Cons.prems(1) by simp
  show ?case
    using parseBadRequest_loop_entry[OF lv parseFieldViolation_encoded[OF lv wv]] Cons.IH[OF lr wr]
    by simp
qed

lemma parseBadRequest_encoded:
  assumes "length (encodeBadRequest vs) < 2 ^ 32" and "list_all wf_FieldViolation vs"
  shows "parseBadRequest (encodeBadRequest vs) = Some (BadRequestDetail vs)"
  using parseBadRequest_loop_encoded[OF assms, of "[]" "[]"]
  by (simp add: parseBadRequest_def parseBadRequest_loop_Nil)

lemma parseQuotaFailure_loop_Nil: "parseQuotaFailure_loop [] acc = Some (QuotaFailureDetail acc)"
  by (subst parseQuotaFailure_loop.simps) simp

lemma parseQuotaFailure_loop_entry:
  "length bs < 2 ^ 32 \<Longrightarrow> parseQuotaViolation bs = Some v \<Longrightarrow>
   parseQuotaFailure_loop (wr_tag (Suc 0) LengthDelimited @ wr_bytes bs @ rest) acc
     = parseQuotaFailure_loop rest (acc @ [v])"
  by (subst parseQuotaFailure_loop.simps) (simp add: rd_bytes_write)

lemma parseQuotaFailure_loop_encoded:
  assumes "length (encodeQuotaFailure vs) < 2 ^ 32" and "list_all wf_QuotaViolation vs"
  shows "parseQuotaFailure_loop (encodeQuotaFailure vs @ rest) acc = parseQuotaFailure_loop rest (acc @ vs)"
  using assms unfolding encodeQuotaFailure_def
proof (induction vs arbitrary: acc)
  case Nil
  then show ?case by simp
next
  case (Cons v vs)
  have lv: "length (encodeQuotaViolation v) < 2 ^ 32"
    using Cons.prems(1) length_wr_bytes_ge[of "encodeQuotaViolation v"] by simp
  have wv: "wf_QuotaViolation v" using Cons.prems(2) by simp
  have wr: "list_all wf_QuotaViolation vs" using Cons.prems(2) by simp
  have lr: "length (concat (map (\<lambda>x. wr_tag 1 LengthDelimited @ wr_bytes (encodeQuotaViolation x)) vs)) < 2 ^ 32"
    using Cons.prems(1) by simp
  show ?case
    using parseQuotaFailure_loop_entry[OF lv parseQuotaViolation_encoded[OF lv wv]] Cons.IH[OF lr wr]
    by simp
qed

lemma parseQuotaFailure_encoded:
  assumes "length (encodeQuotaFailure vs) < 2 ^ 32" and "list_all wf_QuotaViolation vs"
  shows "parseQuotaFailure (encodeQuotaFailure vs) = Some (QuotaFailureDetail vs)"
  using parseQuotaFailure_loop_encoded[OF assms, of "[]" "[]"]
  by (simp add: parseQuotaFailure_def parseQuotaFailure_loop_Nil)

lemma parsePreconditionFailure_loop_Nil: "parsePreconditionFailure_loop [] acc = Some (PreconditionFailureDetail acc)"
  by (subst parsePreconditionFailure_loop.simps) simp

lemma parsePreconditionFailure_loop_entry:
  "length bs < 2 ^ 32 \<Longrightarrow> parsePreconditionViolation bs = Some v \<Longrightarrow>
   parsePreconditionFailure_loop (wr_tag (Suc 0) LengthDelimited @ wr_bytes bs @ rest) acc
     = parsePreconditionFailure_loop rest (acc @ [v])"
  by (subst parsePreconditionFailure_loop.simps) (simp add: rd_bytes_write)

lemma parsePreconditionFailure_loop_encoded:
  assumes "length (encodePreconditionFailure vs) < 2 ^ 32" and "list_all wf_PreconditionViolation vs"
  shows "parsePreconditionFailure_loop (encodePreconditionFailure vs @ rest) acc = parsePreconditionFailure_loop rest (acc @ vs)"
  using assms unfolding encodePreconditionFailure_def
proof (induction vs arbitrary: acc)
  case Nil
  then show ?case by simp
next
  case (Cons v vs)
  have lv: "length (encodePreconditionViolation v) < 2 ^ 32"
    using Cons.prems(1) length_wr_bytes_ge[of "encodePreconditionViolation v"] by simp
  have wv: "wf_PreconditionViolation v" using Cons.prems(2) by simp
  have wr: "list_all wf_PreconditionViolation vs" using Cons.prems(2) by simp
  have lr: "length (concat (map (\<lambda>x. wr_tag 1 LengthDelimited @ wr_bytes (encodePreconditionViolation x)) vs)) < 2 ^ 32"
    using Cons.prems(1) by simp
  show ?case
    using parsePreconditionFailure_loop_entry[OF lv parsePreconditionViolation_encoded[OF lv wv]] Cons.IH[OF lr wr]
    by simp
qed

lemma parsePreconditionFailure_encoded:
  assumes "length (encodePreconditionFailure vs) < 2 ^ 32" and "list_all wf_PreconditionViolation vs"
  shows "parsePreconditionFailure (encodePreconditionFailure vs) = Some (PreconditionFailureDetail vs)"
  using parsePreconditionFailure_loop_encoded[OF assms, of "[]" "[]"]
  by (simp add: parsePreconditionFailure_def parsePreconditionFailure_loop_Nil)

lemma parseHelp_loop_Nil: "parseHelp_loop [] acc = Some (HelpDetail acc)"
  by (subst parseHelp_loop.simps) simp

lemma parseHelp_loop_entry:
  "length bs < 2 ^ 32 \<Longrightarrow> parseHelpLink bs = Some v \<Longrightarrow>
   parseHelp_loop (wr_tag (Suc 0) LengthDelimited @ wr_bytes bs @ rest) acc
     = parseHelp_loop rest (acc @ [v])"
  by (subst parseHelp_loop.simps) (simp add: rd_bytes_write)

lemma parseHelp_loop_encoded:
  assumes "length (encodeHelp vs) < 2 ^ 32" and "list_all wf_HelpLink vs"
  shows "parseHelp_loop (encodeHelp vs @ rest) acc = parseHelp_loop rest (acc @ vs)"
  using assms unfolding encodeHelp_def
proof (induction vs arbitrary: acc)
  case Nil
  then show ?case by simp
next
  case (Cons v vs)
  have lv: "length (encodeHelpLink v) < 2 ^ 32"
    using Cons.prems(1) length_wr_bytes_ge[of "encodeHelpLink v"] by simp
  have wv: "wf_HelpLink v" using Cons.prems(2) by simp
  have wr: "list_all wf_HelpLink vs" using Cons.prems(2) by simp
  have lr: "length (concat (map (\<lambda>x. wr_tag 1 LengthDelimited @ wr_bytes (encodeHelpLink x)) vs)) < 2 ^ 32"
    using Cons.prems(1) by simp
  show ?case
    using parseHelp_loop_entry[OF lv parseHelpLink_encoded[OF lv wv]] Cons.IH[OF lr wr]
    by simp
qed

lemma parseHelp_encoded:
  assumes "length (encodeHelp vs) < 2 ^ 32" and "list_all wf_HelpLink vs"
  shows "parseHelp (encodeHelp vs) = Some (HelpDetail vs)"
  using parseHelp_loop_encoded[OF assms, of "[]" "[]"]
  by (simp add: parseHelp_def parseHelp_loop_Nil)


lemma parseDebugInfo_loop_Nil: "parseDebugInfo_loop [] es d = Some (DebugInfoDetail es d)"
  by (subst parseDebugInfo_loop.simps) simp

lemma parseDebugInfo_loop_field1:
  "length s < 2 ^ 32 \<Longrightarrow> well_formed s \<Longrightarrow>
   parseDebugInfo_loop (wr_tag (Suc 0) LengthDelimited @ wr_string s @ rest) es d
     = parseDebugInfo_loop rest (es @ [s]) d"
  by (subst parseDebugInfo_loop.simps) (simp add: rd_string_write)

lemma parseDebugInfo_loop_field2:
  "length s < 2 ^ 32 \<Longrightarrow> well_formed s \<Longrightarrow>
   parseDebugInfo_loop (wr_tag 2 LengthDelimited @ wr_string s @ rest) es d
     = parseDebugInfo_loop rest es s"
  by (subst parseDebugInfo_loop.simps) (simp add: rd_string_write)

lemma parseDebugInfo_loop_string_field2:
  "length s < 2 ^ 32 \<Longrightarrow> well_formed s \<Longrightarrow>
   parseDebugInfo_loop (wr_string_field 2 s @ rest) es [] = parseDebugInfo_loop rest es s"
  by (simp add: wr_string_field_def parseDebugInfo_loop_field2)

lemma parseDebugInfo_loop_entries:
  assumes "length (concat (map (\<lambda>entry. wr_tag 1 LengthDelimited @ wr_string entry) es)) < 2 ^ 32"
    and "list_all well_formed es"
  shows "parseDebugInfo_loop
           (concat (map (\<lambda>entry. wr_tag 1 LengthDelimited @ wr_string entry) es) @ rest) acc d
         = parseDebugInfo_loop rest (acc @ es) d"
  using assms
proof (induction es arbitrary: acc)
  case Nil
  then show ?case by simp
next
  case (Cons e es)
  have le: "length e < 2 ^ 32"
    using Cons.prems(1) length_wr_string_ge[of e] by simp
  have lr: "length (concat (map (\<lambda>entry. wr_tag 1 LengthDelimited @ wr_string entry) es)) < 2 ^ 32"
    using Cons.prems(1) by simp
  have we: "well_formed e" using Cons.prems(2) by simp
  have wr: "list_all well_formed es" using Cons.prems(2) by simp
  show ?case
    using parseDebugInfo_loop_field1[OF le we] Cons.IH[OF lr wr] by simp
qed

lemma parseDebugInfo_encoded:
  assumes "length (encodeDebugInfo es d) < 2 ^ 32"
    and "list_all well_formed es" and "well_formed d"
  shows "parseDebugInfo (encodeDebugInfo es d) = Some (DebugInfoDetail es d)"
proof -
  have l1: "length (concat (map (\<lambda>entry. wr_tag 1 LengthDelimited @ wr_string entry) es)) < 2 ^ 32"
    using assms(1) by (simp add: encodeDebugInfo_def)
  have l2: "length d < 2 ^ 32"
    using assms(1) length_wr_string_field_ge[of d 2] by (simp add: encodeDebugInfo_def)
  show ?thesis
    using parseDebugInfo_loop_entries[OF l1 assms(2), of "wr_string_field 2 d" "[]" "[]"]
      parseDebugInfo_loop_string_field2[OF l2 assms(3), of "[]" es]
    by (simp add: parseDebugInfo_def encodeDebugInfo_def parseDebugInfo_loop_Nil)
qed



lemma parseMapEntry_encoded:
  assumes "length (encodeMapEntry kv) < 2 ^ 32" and "wf_entry kv"
  shows "parseMapEntry (encodeMapEntry kv) = Some kv"
proof -
  have l1: "length (fst kv) < 2 ^ 32"
    using assms(1) length_wr_string_ge[of "fst kv"] by (simp add: encodeMapEntry_def)
  have l2: "length (snd kv) < 2 ^ 32"
    using assms(1) length_wr_string_ge[of "snd kv"] by (simp add: encodeMapEntry_def)
  have w1: "well_formed (fst kv)" and w2: "well_formed (snd kv)"
    using assms(2) by (simp_all add: wf_entry_def)
  show ?thesis
    using parseMapEntry_loop_field1[OF l1 w1, of "wr_tag 2 LengthDelimited @ wr_string (snd kv)" "[]" "[]"]
      parseMapEntry_loop_field2[OF l2 w2, of "[]" "fst kv" "[]"]
    by (simp add: parseMapEntry_def encodeMapEntry_def parseMapEntry_loop_Nil)
qed

lemma update_fresh_key: "k \<notin> fst ` set al \<Longrightarrow> AList.update k v al = al @ [(k, v)]"
  by (induction al) auto

lemma parseErrorInfo_loop_Nil:
  "parseErrorInfo_loop [] r d md = Some (ErrorInfoDetail r d md)"
  by (subst parseErrorInfo_loop.simps) simp

lemma parseErrorInfo_loop_field1:
  "length s < 2 ^ 32 \<Longrightarrow> well_formed s \<Longrightarrow>
   parseErrorInfo_loop (wr_tag (Suc 0) LengthDelimited @ wr_string s @ rest) r d md
     = parseErrorInfo_loop rest s d md"
  by (subst parseErrorInfo_loop.simps) (simp add: rd_string_write)

lemma parseErrorInfo_loop_field2:
  "length s < 2 ^ 32 \<Longrightarrow> well_formed s \<Longrightarrow>
   parseErrorInfo_loop (wr_tag 2 LengthDelimited @ wr_string s @ rest) r d md
     = parseErrorInfo_loop rest r s md"
  by (subst parseErrorInfo_loop.simps) (simp add: rd_string_write)

lemma parseErrorInfo_loop_string_field1:
  "length s < 2 ^ 32 \<Longrightarrow> well_formed s \<Longrightarrow>
   parseErrorInfo_loop (wr_string_field (Suc 0) s @ rest) [] d md
     = parseErrorInfo_loop rest s d md"
  by (simp add: wr_string_field_def parseErrorInfo_loop_field1)

lemma parseErrorInfo_loop_string_field2:
  "length s < 2 ^ 32 \<Longrightarrow> well_formed s \<Longrightarrow>
   parseErrorInfo_loop (wr_string_field 2 s @ rest) r [] md
     = parseErrorInfo_loop rest r s md"
  by (simp add: wr_string_field_def parseErrorInfo_loop_field2)

lemma parseErrorInfo_loop_entry:
  "length bs < 2 ^ 32 \<Longrightarrow> parseMapEntry bs = Some kv \<Longrightarrow>
   parseErrorInfo_loop (wr_tag 3 LengthDelimited @ wr_bytes bs @ rest) r d md
     = parseErrorInfo_loop rest r d (assign_property (fst kv) (snd kv) md)"
  by (subst parseErrorInfo_loop.simps) (simp add: rd_bytes_write)

lemma parseErrorInfo_loop_entries:
  assumes "length (concat (map (\<lambda>kv. wr_tag 3 LengthDelimited @ wr_bytes (encodeMapEntry kv)) kvs))
             < 2 ^ 32"
    and "distinct (map fst (acc @ kvs))" and "''__proto__'' \<notin> set (map fst kvs)"
    and "list_all wf_entry kvs"
  shows "parseErrorInfo_loop
           (concat (map (\<lambda>kv. wr_tag 3 LengthDelimited @ wr_bytes (encodeMapEntry kv)) kvs) @ rest)
           r d acc
         = parseErrorInfo_loop rest r d (acc @ kvs)"
  using assms
proof (induction kvs arbitrary: acc)
  case Nil
  then show ?case by simp
next
  case (Cons kv kvs)
  have lv: "length (encodeMapEntry kv) < 2 ^ 32"
    using Cons.prems(1) length_wr_bytes_ge[of "encodeMapEntry kv"] by simp
  have lr: "length (concat (map (\<lambda>kv. wr_tag 3 LengthDelimited @ wr_bytes (encodeMapEntry kv)) kvs))
             < 2 ^ 32"
    using Cons.prems(1) by simp
  have fresh: "fst kv \<notin> fst ` set acc" using Cons.prems(2) by auto
  have d: "distinct (map fst ((acc @ [kv]) @ kvs))" using Cons.prems(2) by simp
  have np: "fst kv \<noteq> ''__proto__''" using Cons.prems(3) by auto
  have np': "''__proto__'' \<notin> set (map fst kvs)" using Cons.prems(3) by simp
  have wv: "wf_entry kv" using Cons.prems(4) by simp
  have wr: "list_all wf_entry kvs" using Cons.prems(4) by simp
  have u: "assign_property (fst kv) (snd kv) acc = acc @ [kv]"
    using update_fresh_key[OF fresh, of "snd kv"] np by (simp add: assign_property_def)
  show ?case
    using parseErrorInfo_loop_entry[OF lv parseMapEntry_encoded[OF lv wv]] Cons.IH[OF lr d np' wr] u
    by simp
qed

lemma parseErrorInfo_encoded:
  assumes "length (encodeErrorInfo r d md) < 2 ^ 32" and "distinct (map fst md)"
    and "''__proto__'' \<notin> set (map fst md)"
    and "well_formed r" and "well_formed d" and "list_all wf_entry md"
  shows "parseErrorInfo (encodeErrorInfo r d md) = Some (ErrorInfoDetail r d md)"
proof -
  have l1: "length r < 2 ^ 32"
    using assms(1) length_wr_string_field_ge[of r 1] by (simp add: encodeErrorInfo_def)
  have l2: "length d < 2 ^ 32"
    using assms(1) length_wr_string_field_ge[of d 2] by (simp add: encodeErrorInfo_def)
  have l3: "length (concat (map (\<lambda>kv. wr_tag 3 LengthDelimited @ wr_bytes (encodeMapEntry kv)) md))
             < 2 ^ 32"
    using assms(1) by (simp add: encodeErrorInfo_def)
  have d: "distinct (map fst ([] @ md))" using assms(2) by simp
  show ?thesis
    using l1 l2 assms(4,5) parseErrorInfo_loop_entries[OF l3 d assms(3,6), of "[]" r d]
    by (simp add: parseErrorInfo_def encodeErrorInfo_def parseErrorInfo_loop_string_field1
          parseErrorInfo_loop_string_field2 parseErrorInfo_loop_Nil)
qed



lemma length_varint_write: "n < 128 ^ Suc k \<Longrightarrow> length (varint_write n) \<le> Suc k"
proof (induction k arbitrary: n)
  case 0
  then show ?case by (subst varint_write.simps) simp
next
  case (Suc k)
  have "n div 128 < 128 ^ Suc k" using Suc.prems by (simp add: less_mult_imp_div_less mult.commute)
  from Suc.IH[OF this] show ?case by (subst varint_write.simps) simp
qed

lemma length_wr_int64: "length (wr_int64 n) \<le> 10"
proof -
  have "nat (n mod 2 ^ 64) < 2 ^ 64" by (simp add: nat_less_iff)
  then have "nat (n mod 2 ^ 64) < 128 ^ Suc 9" by simp
  from length_varint_write[OF this] show ?thesis by (simp add: wr_int64_def)
qed

lemma length_wr_tag_small: "f < 16 \<Longrightarrow> length (wr_tag f w) = 1"
proof -
  assume "f < 16"
  moreover have "wire_code w < 8" by (cases w) simp_all
  ultimately have "f * 8 + wire_code w \<le> 127" by simp
  then show ?thesis by (subst wr_tag_def, subst wr_uint32_def, subst varint_write.simps) simp
qed

lemma parseDuration_loop_Nil: "parseDuration_loop [] x = Some x"
  by (subst parseDuration_loop.simps) simp

lemma parseDuration_loop_seconds:
  "- (2 ^ 63) \<le> n \<Longrightarrow> n < 2 ^ 63 \<Longrightarrow>
   parseDuration_loop (wr_tag (Suc 0) Varint @ wr_int64 n @ rest) x = parseDuration_loop rest n"
  by (subst parseDuration_loop.simps) (simp add: rd_int64_write)

lemma parseRetryInfo_loop_Nil: "parseRetryInfo_loop [] x = Some (RetryInfoDetail x)"
  by (subst parseRetryInfo_loop.simps) simp

lemma parseRetryInfo_loop_entry:
  "length bs < 2 ^ 32 \<Longrightarrow> parseDuration_loop bs x = Some y \<Longrightarrow>
   parseRetryInfo_loop (wr_tag (Suc 0) LengthDelimited @ wr_bytes bs @ rest) x
     = parseRetryInfo_loop rest y"
  by (subst parseRetryInfo_loop.simps) (simp add: rd_bytes_write)

lemma parseRetryInfo_encoded:
  assumes "n < 2 ^ 63"
  shows "parseRetryInfo (encodeRetryInfo n) = Some (RetryInfoDetail (if n > 0 then n else 0))"
proof (cases "n > 0")
  case False
  then show ?thesis by (simp add: parseRetryInfo_def encodeRetryInfo_def parseRetryInfo_loop_Nil)
next
  case True
  let ?d = "wr_tag 1 Varint @ wr_int64 n"
  have ld: "length ?d < 2 ^ 32"
    using length_wr_int64[of n] length_wr_tag_small[of 1 Varint] by simp
  have pd: "parseDuration_loop ?d 0 = Some n"
    using parseDuration_loop_seconds[of n "[]" 0] True assms
    by (simp add: parseDuration_loop_Nil)
  show ?thesis
    using True parseRetryInfo_loop_entry[OF ld pd, of "[]"]
    by (simp add: parseRetryInfo_def encodeRetryInfo_def parseRetryInfo_loop_Nil)
qed



lemma parseAny_loop_Nil: "parseAny_loop [] a = Some a"
  by (subst parseAny_loop.simps) simp

lemma parseAny_loop_field1:
  "length s < 2 ^ 32 \<Longrightarrow> well_formed s \<Longrightarrow>
   parseAny_loop (wr_tag (Suc 0) LengthDelimited @ wr_string s @ rest) a
     = parseAny_loop rest (a\<lparr>typeUrl := s\<rparr>)"
  by (subst parseAny_loop.simps) (simp add: rd_string_write)

lemma parseAny_loop_field2:
  "length b < 2 ^ 32 \<Longrightarrow>
   parseAny_loop (wr_tag 2 LengthDelimited @ wr_bytes b @ rest) a
     = parseAny_loop rest (a\<lparr>value := b\<rparr>)"
  by (subst parseAny_loop.simps) (simp add: rd_bytes_write)

lemma parseAny_encoded:
  assumes "length (encodeAny a) < 2 ^ 32" and "well_formed (typeUrl a)"
  shows "parseAny (encodeAny a) = Some a"
proof -
  have l1: "length (typeUrl a) < 2 ^ 32"
    using assms(1) length_wr_string_field_ge[of "typeUrl a" 1] by (simp add: encodeAny_def)
  have l2: "length (value a) < 2 ^ 32"
    using assms(1) length_wr_bytes_ge[of "value a"] by (simp add: encodeAny_def split: if_splits)
  note w = assms(2)
  show ?thesis
    using parseAny_loop_field1[OF l1 w] parseAny_loop_field2[OF l2]
      parseAny_loop_field1[OF l1 w, of "[]"] parseAny_loop_field2[OF l2, of "[]"]
    by (cases a) (simp add: parseAny_def encodeAny_def wr_string_field_def parseAny_loop_Nil)
qed

lemma parseStatus_loop_Nil: "parseStatus_loop [] s = Some s"
  by (subst parseStatus_loop.simps) simp

lemma parseStatus_loop_field1:
  "- (2 ^ 31) \<le> c \<Longrightarrow> c < 2 ^ 31 \<Longrightarrow>
   parseStatus_loop (wr_tag (Suc 0) Varint @ wr_int32 c @ rest) s
     = parseStatus_loop rest (s\<lparr>code := c\<rparr>)"
  by (subst parseStatus_loop.simps) (simp add: rd_int32_write)

lemma parseStatus_loop_field2:
  "length m < 2 ^ 32 \<Longrightarrow> well_formed m \<Longrightarrow>
   parseStatus_loop (wr_tag 2 LengthDelimited @ wr_string m @ rest) s
     = parseStatus_loop rest (s\<lparr>status_message := m\<rparr>)"
  by (subst parseStatus_loop.simps) (simp add: rd_string_write)

lemma parseStatus_loop_entry:
  "length bs < 2 ^ 32 \<Longrightarrow> parseAny bs = Some a \<Longrightarrow>
   parseStatus_loop (wr_tag 3 LengthDelimited @ wr_bytes bs @ rest) s
     = parseStatus_loop rest (s\<lparr>details := details s @ [a]\<rparr>)"
  by (subst parseStatus_loop.simps) (simp add: rd_bytes_write)

lemma parseStatus_loop_entries:
  assumes "length (concat (map (\<lambda>detail. wr_tag 3 LengthDelimited @ wr_bytes (encodeAny detail)) ds))
             < 2 ^ 32"
    and "list_all (\<lambda>detail. well_formed (typeUrl detail)) ds"
  shows "parseStatus_loop
           (concat (map (\<lambda>detail. wr_tag 3 LengthDelimited @ wr_bytes (encodeAny detail)) ds) @ rest) s
         = parseStatus_loop rest (s\<lparr>details := details s @ ds\<rparr>)"
  using assms
proof (induction ds arbitrary: s)
  case Nil
  then show ?case by simp
next
  case (Cons a ds)
  have lv: "length (encodeAny a) < 2 ^ 32"
    using Cons.prems(1) length_wr_bytes_ge[of "encodeAny a"] by simp
  have lr: "length (concat (map (\<lambda>detail. wr_tag 3 LengthDelimited @ wr_bytes (encodeAny detail)) ds))
             < 2 ^ 32"
    using Cons.prems(1) by simp
  have wv: "well_formed (typeUrl a)" using Cons.prems(2) by simp
  have wr: "list_all (\<lambda>detail. well_formed (typeUrl detail)) ds" using Cons.prems(2) by simp
  show ?case
    using parseStatus_loop_entry[OF lv parseAny_encoded[OF lv wv]] Cons.IH[OF lr wr]
    by simp
qed

lemma parseStatus_encoded:
  assumes "length (encodeStatus s) < 2 ^ 32" and "- (2 ^ 31) \<le> code s" and "code s < 2 ^ 31"
    and "well_formed (status_message s)"
    and "list_all (\<lambda>detail. well_formed (typeUrl detail)) (details s)"
  shows "parseStatus (encodeStatus s) = Some s"
proof -
  have l2: "length (status_message s) < 2 ^ 32"
    using assms(1) length_wr_string_field_ge[of "status_message s" 2]
    by (simp add: encodeStatus_def)
  have l3: "length (concat (map (\<lambda>detail. wr_tag 3 LengthDelimited @ wr_bytes (encodeAny detail))
              (details s))) < 2 ^ 32"
    using assms(1) by (simp add: encodeStatus_def)
  show ?thesis
    using l2 assms(2,3,4) parseStatus_loop_entries[OF l3 assms(5), of "[]"]
    by (cases s)
       (simp add: parseStatus_def encodeStatus_def wr_string_field_def parseStatus_loop_field1
          parseStatus_loop_field2 parseStatus_loop_Nil)
qed

lemma parseErrorDetail_encoded:
  assumes "in_codec_domain r" and "encoded_size r < 2 ^ 32"
  shows "Option.bind (encodeErrorDetail r) parseErrorDetail = Some r"
proof (cases r)
  case (LocalizedMessageDetail a b)
  with assms show ?thesis
    by (simp add: encoded_size_def parseErrorDetail_def parseLocalizedMessage_encoded)
next
  case (BadRequestDetail vs)
  with assms show ?thesis
    by (simp add: encoded_size_def parseErrorDetail_def parseBadRequest_encoded TYPE_URL_defs)
next
  case (DebugInfoDetail es d)
  with assms show ?thesis
    by (simp add: encoded_size_def parseErrorDetail_def parseDebugInfo_encoded TYPE_URL_defs)
next
  case (ErrorInfoDetail a b md)
  with assms show ?thesis
    by (simp add: encoded_size_def parseErrorDetail_def parseErrorInfo_encoded TYPE_URL_defs)
next
  case (RetryInfoDetail n)
  with assms show ?thesis
    by (simp add: encoded_size_def parseErrorDetail_def parseRetryInfo_encoded TYPE_URL_defs)
next
  case (QuotaFailureDetail vs)
  with assms show ?thesis
    by (simp add: encoded_size_def parseErrorDetail_def parseQuotaFailure_encoded TYPE_URL_defs)
next
  case (PreconditionFailureDetail vs)
  with assms show ?thesis
    by (simp add: encoded_size_def parseErrorDetail_def parsePreconditionFailure_encoded
          TYPE_URL_defs)
next
  case (RequestInfoDetail a b)
  with assms show ?thesis
    by (simp add: encoded_size_def parseErrorDetail_def parseRequestInfo_encoded TYPE_URL_defs)
next
  case (ResourceInfoDetail a b c d)
  with assms show ?thesis
    by (simp add: encoded_size_def parseErrorDetail_def parseResourceInfo_encoded TYPE_URL_defs)
next
  case (HelpDetail ls)
  with assms show ?thesis
    by (simp add: encoded_size_def parseErrorDetail_def parseHelp_encoded TYPE_URL_defs)
next
  case (UnknownDetail t v)
  with assms show ?thesis
    by (simp add: parseErrorDetail_def TYPE_URLS_simps)
qed

lemma encodeErrorDetail_Some: "\<exists>a. encodeErrorDetail r = Some a"
  by (cases r) simp_all

lemma length_value_le_encodeAny: "length (value a) \<le> length (encodeAny a)"
  using length_wr_bytes_ge[of "value a"] by (simp add: encodeAny_def)

lemma those_parse_encoded:
  assumes "\<forall>d \<in> set ds. in_codec_domain d \<and> encoded_size d < 2 ^ 32"
  shows "those (map parseErrorDetail (List.map_filter encodeErrorDetail ds)) = Some ds"
  using assms
proof (induction ds)
  case Nil
  then show ?case by (simp add: List.map_filter_simps)
next
  case (Cons d ds)
  obtain a where a: "encodeErrorDetail d = Some a" using encodeErrorDetail_Some by blast
  have "Option.bind (encodeErrorDetail d) parseErrorDetail = Some d"
    using Cons.prems by (intro parseErrorDetail_encoded) simp_all
  with a have p: "parseErrorDetail a = Some d" by simp
  from Cons.IH Cons.prems have "those (map parseErrorDetail (List.map_filter encodeErrorDetail ds)) = Some ds"
    by simp
  with a p show ?case by (simp add: List.map_filter_simps)
qed

lemma encoded_size_le_status:
  assumes "d \<in> set ds"
  shows "encoded_size d \<le>
           length (concat (map (\<lambda>detail. wr_tag 3 LengthDelimited @ wr_bytes (encodeAny detail))
              (List.map_filter encodeErrorDetail ds)))"
  using assms
proof (induction ds)
  case Nil
  then show ?case by simp
next
  case (Cons x xs)
  obtain a where a: "encodeErrorDetail x = Some a" using encodeErrorDetail_Some by blast
  show ?case
  proof (cases "d = x")
    case True
    have "encoded_size d = length (value a)" using True a by (simp add: encoded_size_def)
    also have "\<dots> \<le> length (wr_bytes (encodeAny a))"
      using length_value_le_encodeAny[of a] length_wr_bytes_ge[of "encodeAny a"] by simp
    finally show ?thesis using a by (simp add: List.map_filter_simps)
  next
    case False
    with Cons have "encoded_size d \<le>
           length (concat (map (\<lambda>detail. wr_tag 3 LengthDelimited @ wr_bytes (encodeAny detail))
              (List.map_filter encodeErrorDetail xs)))" by simp
    then show ?thesis using a by (simp add: List.map_filter_simps)
  qed
qed

lemma ERROR_TO_GRPC_CODE_range: "0 < ERROR_TO_GRPC_CODE c \<and> ERROR_TO_GRPC_CODE c < 2 ^ 31"
  by (cases c) simp_all

lemma well_formed_TYPE_URLS:
  "well_formed TYPE_URLS_localizedMessage" "well_formed TYPE_URLS_badRequest"
  "well_formed TYPE_URLS_debugInfo" "well_formed TYPE_URLS_errorInfo"
  "well_formed TYPE_URLS_retryInfo" "well_formed TYPE_URLS_quotaFailure"
  "well_formed TYPE_URLS_preconditionFailure" "well_formed TYPE_URLS_requestInfo"
  "well_formed TYPE_URLS_resourceInfo" "well_formed TYPE_URLS_help"
  by (rule well_formed_ascii, simp add: TYPE_URL_defs)+

lemma well_formed_encoded_typeUrl:
  "in_codec_domain d \<Longrightarrow> encodeErrorDetail d = Some a \<Longrightarrow> well_formed (typeUrl a)"
  by (cases d) (auto simp: well_formed_TYPE_URLS)

lemma well_formed_encoded_typeUrls:
  "\<forall>d \<in> set ds. in_codec_domain d \<Longrightarrow>
   list_all (\<lambda>detail. well_formed (typeUrl detail)) (List.map_filter encodeErrorDetail ds)"
proof (induction ds)
  case Nil
  then show ?case by (simp add: List.map_filter_simps)
next
  case (Cons d ds)
  obtain a where a: "encodeErrorDetail d = Some a" using encodeErrorDetail_Some by blast
  from Cons.prems have "in_codec_domain d" by simp
  from well_formed_encoded_typeUrl[OF this a] Cons a show ?case
    by (simp add: List.map_filter_simps)
qed

lemma decodeGrpcStatus_encoded:
  assumes "\<forall>d \<in> set (error_details e). in_codec_domain d"
    and "length (encodeGrpcStatus e) < 2 ^ 32"
    and "well_formed (message e)"
  shows "decodeGrpcStatus (encodeGrpcStatus e) =
           Some \<lparr>decoded_code = ERROR_TO_GRPC_CODE (cls e), decoded_message = message e,
                 localizedMessage = error_localizedMessage e,
                 decoded_details = error_details e\<rparr>"
proof -
  let ?s = "\<lparr>code = ERROR_TO_GRPC_CODE (cls e), status_message = message e,
             details = List.map_filter encodeErrorDetail (error_details e)\<rparr>"
  have len: "length (encodeStatus ?s) < 2 ^ 32" using assms(2) by (simp add: encodeGrpcStatus_def)
  have ps: "parseStatus (encodeStatus ?s) = Some ?s"
    using ERROR_TO_GRPC_CODE_range[of "cls e"] assms(3) well_formed_encoded_typeUrls[OF assms(1)]
    by (intro parseStatus_encoded[OF len]) simp_all
  have sz: "\<forall>d \<in> set (error_details e). encoded_size d < 2 ^ 32"
  proof
    fix d assume "d \<in> set (error_details e)"
    from encoded_size_le_status[OF this] len show "encoded_size d < 2 ^ 32"
      by (simp add: encodeStatus_def)
  qed
  have th: "those (map parseErrorDetail (List.map_filter encodeErrorDetail (error_details e)))
              = Some (error_details e)"
    using assms(1) sz by (intro those_parse_encoded) simp
  show ?thesis
    using ps th by (simp add: decodeGrpcStatus_def encodeGrpcStatus_def error_localizedMessage_def)
qed

lemma length_varint_write_small: "n \<le> 127 \<Longrightarrow> length (varint_write n) = 1"
  by (subst varint_write.simps) simp

lemma length_wr_string_small: "length s \<le> 127 \<Longrightarrow> length (wr_string s) = Suc (length s)"
  by (simp add: wr_string_def wr_bytes_def wr_uint32_def TextEncoder_encode_def
        length_varint_write_small)

lemma length_wr_bytes_small: "length b \<le> 127 \<Longrightarrow> length (wr_bytes b) = Suc (length b)"
  by (simp add: wr_bytes_def wr_uint32_def length_varint_write_small)


section \<open>Properties of the codec\<close>

text \<open>
  Claim C7.  An \<open>Any\<close> record whose type identifier is none of the ten recognised URLs
  decodes, without an exception, to the unknown shape with the same identifier and the
  same bytes; encoding an unknown-shape record hands identifier and bytes through; so
  such a record is read back as it was.
\<close>

theorem unknown_type_url_passes_through:
  assumes "t \<notin> set TYPE_URLS"
  shows "parseErrorDetail \<lparr>typeUrl = t, value = v\<rparr> = Some (UnknownDetail t v) \<and>
         encodeErrorDetail (UnknownDetail t v) = Some \<lparr>typeUrl = t, value = v\<rparr> \<and>
         Option.bind (encodeErrorDetail (UnknownDetail t v)) parseErrorDetail
           = Some (UnknownDetail t v)"
  using assms by (simp add: TYPE_URLS_simps parseErrorDetail_def)

theorem unknown_type_url_passes_through_witness:
  "''x.y/Z'' \<notin> set TYPE_URLS \<and>
   parseErrorDetail \<lparr>typeUrl = ''x.y/Z'', value = [1, 2, 3]\<rparr>
     = Some (UnknownDetail ''x.y/Z'' [1, 2, 3])"
  using unknown_type_url_passes_through [of "''x.y/Z''" "[1, 2, 3]"]
  by (simp add: TYPE_URLS_def TYPE_URL_defs)





lemma proto_key_is_lost:
  assumes "well_formed v" and "length v \<le> 100"
  shows "parseErrorInfo (encodeErrorInfo [] [] [(''__proto__'', v)]) = Some (ErrorInfoDetail [] [] [])"
proof -
  have wk: "well_formed ''__proto__''" by (rule well_formed_ascii) simp
  have we: "wf_entry (''__proto__'', v)" using wk assms(1) by (simp add: wf_entry_def)
  have lv: "length (encodeMapEntry (''__proto__'', v)) < 2 ^ 32"
    using assms(2)
    by (simp add: encodeMapEntry_def length_wr_tag_small length_wr_string_small)
  show ?thesis
    using parseErrorInfo_loop_entry[OF lv parseMapEntry_encoded[OF lv we], of "[]" "[]" "[]" "[]"]
    by (simp add: parseErrorInfo_def encodeErrorInfo_def wr_string_field_def
          parseErrorInfo_loop_Nil assign_property_def)
qed



section \<open>Status details that cannot be decoded\<close>

lemma rd_uint32_small: "unat b < 128 \<Longrightarrow> rd_uint32 (b # bs) = Some (unat b, bs)"
  using varint_read.simps(3)[of 9 b bs] by (simp add: rd_uint32_def)

lemma decodeGrpcStatus_not_utf8: "decodeGrpcStatus [18, 2, 0xC3, 0x28] = None"
proof -
  have t: "rd_tag [18, 2, 0xC3, 0x28] = Some ((2, LengthDelimited), [2, 0xC3, 0x28])"
    by (simp add: rd_tag_def rd_uint32_small wire_of_code_def)
  have s: "rd_string [2, 0xC3, 0x28] = None"
    by (simp add: rd_string_def rd_bytes_def rd_uint32_small TextDecoder_decode_def
          utf8_lead_def)
  have "parseStatus [18, 2, 0xC3, 0x28] = None"
    unfolding parseStatus_def by (subst parseStatus_loop.simps) (simp add: t s)
  then show ?thesis by (simp add: decodeGrpcStatus_def)
qed

lemma decodeGrpcStatus_truncated: "decodeGrpcStatus [18, 5, 104, 105] = None"
proof -
  have t: "rd_tag [18, 5, 104, 105] = Some ((2, LengthDelimited), [5, 104, 105])"
    by (simp add: rd_tag_def rd_uint32_small wire_of_code_def)
  have s: "rd_string [5, 104, 105] = None"
    by (simp add: rd_string_def rd_bytes_def rd_uint32_small)
  have "parseStatus [18, 5, 104, 105] = None"
    unfolding parseStatus_def by (subst parseStatus_loop.simps) (simp add: t s)
  then show ?thesis by (simp add: decodeGrpcStatus_def)
qed


text \<open>
  Claim C8.  When the metadata of a failed call has no status-details header, or base64
  decoding of the header raises, or decoding the status raises, the details parsed are
  the empty list and the typed error the interceptor builds has no details (where the
  call was not aborted its class still follows the status code and its cause is the wire
  error); \<open>mapRpcError\<close> returns an error in every case, so the exception of the codec
  reaches no caller.
\<close>

theorem undecodable_status_details_are_absorbed:
  assumes "map_of (rpc_meta r) ''grpc-status-details-bin'' = None \<or>
         (\<exists>h. map_of (rpc_meta r) ''grpc-status-details-bin'' = Some h \<and>
              (decodeBase64 g h = None \<or>
               (\<exists>binary. decodeBase64 g h = Some binary \<and> decodeGrpcStatus binary = None)))"
  shows "parseRichErrorDetails g (rpc_meta r) = \<lparr>opt_details = Some [], opt_cause = None\<rparr> \<and>
         (\<exists>error w'.
            mapRpcError g (RpcErr r) abort onError cs w = (TypedErr error, w') \<and>
            error_details error = [] \<and>
            (abort \<noteq> Some True \<longrightarrow>
               cls error = class_of_code (rpc_code r) \<and> cause error = Some r))"
proof -
  from assms have p: "parseRichErrorDetails g (rpc_meta r) = \<lparr>opt_details = Some [], opt_cause = None\<rparr>"
    by (auto simp: parseRichErrorDetails_def)
  then show ?thesis
    by (simp add: mapRpcError_wire Let_def new_GrpcError_def)
qed

theorem undecodable_status_details_are_absorbed_witness:
  "decodeBase64
     \<lparr>atob = Some (\<lambda>s. if s = ''EgVoaQ=='' then Some [18, 5, 104, 105] else None),
      Buffer_from = None, new_error_stack = [], call_site_stack = None\<rparr>
     (Single ''EgVoaQ=='') = Some [18, 5, 104, 105] \<and>
   decodeGrpcStatus [18, 5, 104, 105] = None \<and>
   fst (mapRpcError
          \<lparr>atob = Some (\<lambda>s. if s = ''EgVoaQ=='' then Some [18, 5, 104, 105] else None),
           Buffer_from = None, new_error_stack = [], call_site_stack = None\<rparr>
          (RpcErr \<lparr>rpc_code = ''NOT_FOUND'',
                   rpc_meta = [(''grpc-status-details-bin'', Single ''EgVoaQ=='')],
                   rpc_message = []\<rparr>)
          None False None \<lparr>next_id = 0, onError_calls = []\<rparr>)
     = TypedErr \<lparr>ident = 0, cls = NotFoundError, name = ''NotFoundError'',
                  message = ''Not found'', error_details = [],
                  cause = Some \<lparr>rpc_code = ''NOT_FOUND'',
                    rpc_meta = [(''grpc-status-details-bin'', Single ''EgVoaQ=='')],
                    rpc_message = []\<rparr>,
                  stack = []\<rparr>"
  using undecodable_status_details_are_absorbed [of
      "\<lparr>rpc_code = ''NOT_FOUND'',
        rpc_meta = [(''grpc-status-details-bin'', Single ''EgVoaQ=='')], rpc_message = []\<rparr>"
      "\<lparr>atob = Some (\<lambda>s. if s = ''EgVoaQ=='' then Some [18, 5, 104, 105] else None),
        Buffer_from = None, new_error_stack = [], call_site_stack = None\<rparr>"
      None False None "\<lparr>next_id = 0, onError_calls = []\<rparr>"]
    decodeGrpcStatus_truncated
  by (auto simp: decodeBase64_def mapRpcError_wire Let_def new_GrpcError_def
        applyCallSiteStack_def class_of_code_def code_defs)


section \<open>Properties of the error mapping\<close>

text \<open>
  Claim C5.  A wire error that arrives while the abort signal is not active is mapped to
  a typed error whose class follows the table of status codes (CANCELLED or ABORTED to
  aborted, UNAUTHENTICATED to unauthenticated, UNAVAILABLE to unavailable, ALREADY_EXISTS
  to already-exists, NOT_FOUND to not-found, INVALID_ARGUMENT or FAILED_PRECONDITION to
  validation, DEADLINE_EXCEEDED to deadline-exceeded, PERMISSION_DENIED to
  permission-denied, every other code to unknown), and whose message is the fixed message
  of that class.
\<close>

theorem mapRpcError_status_table:
  assumes "abort \<noteq> Some True"
  shows "\<exists>error w'.
     mapRpcError g (RpcErr r) abort onError cs w = (TypedErr error, w') \<and>
     name error = class_name (cls error) \<and>
     (rpc_code r = ''CANCELLED'' \<or> rpc_code r = ''ABORTED'' \<longrightarrow>
        cls error = AbortedError \<and> message error = ''Aborted by client'') \<and>
     (rpc_code r = ''UNAUTHENTICATED'' \<longrightarrow>
        cls error = UnauthenticatedError \<and> message error = ''Unauthenticated'') \<and>
     (rpc_code r = ''UNAVAILABLE'' \<longrightarrow>
        cls error = UnavailableError \<and> message error = ''Cannot connect to the server'') \<and>
     (rpc_code r = ''ALREADY_EXISTS'' \<longrightarrow>
        cls error = AlreadyExistsError \<and> message error = ''Already exists'') \<and>
     (rpc_code r = ''NOT_FOUND'' \<longrightarrow>
        cls error = NotFoundError \<and> message error = ''Not found'') \<and>
     (rpc_code r = ''INVALID_ARGUMENT'' \<or> rpc_code r = ''FAILED_PRECONDITION'' \<longrightarrow>
        cls error = ValidationError \<and> message error = ''Validation error'') \<and>
     (rpc_code r = ''DEADLINE_EXCEEDED'' \<longrightarrow>
        cls error = DeadlineExceededError \<and>
        message error = ''Request took too long to respond'') \<and>
     (rpc_code r = ''PERMISSION_DENIED'' \<longrightarrow>
        cls error = PermissionDeniedError \<and> message error = ''Permission denied'') \<and>
     (rpc_code r \<notin> {''CANCELLED'', ''ABORTED'', ''UNAUTHENTICATED'', ''UNAVAILABLE'',
          ''ALREADY_EXISTS'', ''NOT_FOUND'', ''INVALID_ARGUMENT'', ''FAILED_PRECONDITION'',
          ''DEADLINE_EXCEEDED'', ''PERMISSION_DENIED''} \<longrightarrow>
        cls error = UnknownError \<and> message error = ''Unknown error'')"
  using assms
  by (simp add: mapRpcError_wire Let_def new_GrpcError_def class_of_code_def code_defs)


theorem mapRpcError_status_table_witness:
  "(None :: bool option) \<noteq> Some True \<and>
   fst (mapRpcError
          \<lparr>atob = None, Buffer_from = None, new_error_stack = [], call_site_stack = None\<rparr>
          (RpcErr \<lparr>rpc_code = ''NOT_FOUND'', rpc_meta = [], rpc_message = []\<rparr>)
          None False None \<lparr>next_id = 0, onError_calls = []\<rparr>)
     = TypedErr \<lparr>ident = 0, cls = NotFoundError, name = ''NotFoundError'',
                  message = ''Not found'', error_details = [],
                  cause = Some \<lparr>rpc_code = ''NOT_FOUND'', rpc_meta = [], rpc_message = []\<rparr>,
                  stack = []\<rparr>"
  using mapRpcError_status_table [of None
      "\<lparr>atob = None, Buffer_from = None, new_error_stack = [], call_site_stack = None\<rparr>"
      "\<lparr>rpc_code = ''NOT_FOUND'', rpc_meta = [], rpc_message = []\<rparr>"
      False None "\<lparr>next_id = 0, onError_calls = []\<rparr>"]
  by (auto simp: mapRpcError_wire Let_def new_GrpcError_def parseRichErrorDetails_def
        applyCallSiteStack_def)



text \<open>
  Claim C6.  When the abort signal of the call is active at the time of the failure, a
  wire error is mapped to the aborted class whatever status code it carries.
\<close>

theorem mapRpcError_abort_signal:
  assumes "abort = Some True"
  shows "\<exists>error w'.
     mapRpcError g (RpcErr r) abort onError cs w = (TypedErr error, w') \<and>
     cls error = AbortedError \<and> name error = ''AbortedError'' \<and>
     message error = ''Aborted by client''"
  using assms by (simp add: mapRpcError_wire Let_def new_GrpcError_def)

theorem mapRpcError_abort_signal_witness:
  "Some True = Some True \<and>
   fst (mapRpcError
          \<lparr>atob = None, Buffer_from = None, new_error_stack = [], call_site_stack = None\<rparr>
          (RpcErr \<lparr>rpc_code = ''NOT_FOUND'', rpc_meta = [], rpc_message = []\<rparr>)
          (Some True) False None \<lparr>next_id = 0, onError_calls = []\<rparr>)
     = TypedErr \<lparr>ident = 0, cls = AbortedError, name = ''AbortedError'',
                  message = ''Aborted by client'', error_details = [], cause = None,
                  stack = []\<rparr>"
  using mapRpcError_abort_signal [of "Some True"
      "\<lparr>atob = None, Buffer_from = None, new_error_stack = [], call_site_stack = None\<rparr>"
      "\<lparr>rpc_code = ''NOT_FOUND'', rpc_meta = [], rpc_message = []\<rparr>"
      False None "\<lparr>next_id = 0, onError_calls = []\<rparr>"]
  by (auto simp: mapRpcError_wire Let_def new_GrpcError_def applyCallSiteStack_def)


text \<open>
  Claim C10.  When the abort signal is active, the aborted error that \<open>mapRpcError\<close>
  builds from a wire error has no details and no cause, and the result depends neither on
  the metadata of the wire error nor on the base64 decoders of the platform: the
  status-details header is not decoded.  (In the example after the theorem the header
  holds a status with one detail record: the error has it when the call was not aborted,
  and has none when it was.)
\<close>

theorem mapRpcError_abort_ignores_status_details:
  assumes "abort = Some True"
  shows "(\<exists>error w'.
            mapRpcError g (RpcErr r) abort onError cs w = (TypedErr error, w') \<and>
            error_details error = [] \<and> cause error = None) \<and>
         (\<forall>m a b.
            mapRpcError (g\<lparr>atob := a, Buffer_from := b\<rparr>) (RpcErr (r\<lparr>rpc_meta := m\<rparr>))
              abort onError cs w
            = mapRpcError g (RpcErr r) abort onError cs w)"
  using assms
  by (simp add: mapRpcError_wire Let_def new_GrpcError_def captureCallSiteStack_def)


lemma decodeGrpcStatus_example:
  "decodeGrpcStatus (encodeGrpcStatus
      \<lparr>ident = 0, cls = ValidationError, name = ''ValidationError'',
        message = ''Validation error'',
        error_details = [LocalizedMessageDetail ''en'' ''Invalid input''],
        cause = None, stack = []\<rparr>)
   = Some \<lparr>decoded_code = 3, decoded_message = ''Validation error'',
         localizedMessage = Some ''Invalid input'',
         decoded_details = [LocalizedMessageDetail ''en'' ''Invalid input'']\<rparr>"
proof -
  have le: "length (encodeGrpcStatus
      \<lparr>ident = 0, cls = ValidationError, name = ''ValidationError'',
        message = ''Validation error'',
        error_details = [LocalizedMessageDetail ''en'' ''Invalid input''],
        cause = None, stack = []\<rparr>) < 2 ^ 32"
    by (simp add: encodeGrpcStatus_def encodeStatus_def encodeAny_def wr_string_field_def
          wr_int32_def List.map_filter_simps encodeLocalizedMessage_def
          TYPE_URL_defs length_wr_tag_small length_wr_string_small length_wr_bytes_small
          length_varint_write_small)
  have wf: "well_formed ''Validation error''" "well_formed ''en''" "well_formed ''Invalid input''"
    by (rule well_formed_ascii, simp)+
  show ?thesis
    using decodeGrpcStatus_encoded[OF _ le] wf by (simp add: error_localizedMessage_def)
qed

theorem mapRpcError_abort_ignores_status_details_witness:
  "Some True = Some True \<and>
   fst (mapRpcError
          \<lparr>atob = Some (\<lambda>s. Some (encodeGrpcStatus
              \<lparr>ident = 0, cls = ValidationError, name = ''ValidationError'',
               message = ''Validation error'',
               error_details = [LocalizedMessageDetail ''en'' ''Invalid input''],
               cause = None, stack = []\<rparr>)),
           Buffer_from = None, new_error_stack = [], call_site_stack = None\<rparr>
          (RpcErr \<lparr>rpc_code = ''INVALID_ARGUMENT'',
                   rpc_meta = [(''grpc-status-details-bin'', Single ''CAM='')],
                   rpc_message = []\<rparr>)
          None False None \<lparr>next_id = 0, onError_calls = []\<rparr>)
     = TypedErr \<lparr>ident = 0, cls = ValidationError, name = ''ValidationError'',
                  message = ''Validation error'',
                  error_details = [LocalizedMessageDetail ''en'' ''Invalid input''],
                  cause = Some \<lparr>rpc_code = ''INVALID_ARGUMENT'',
                     rpc_meta = [(''grpc-status-details-bin'', Single ''CAM='')],
                     rpc_message = []\<rparr>,
                  stack = []\<rparr> \<and>
   fst (mapRpcError
          \<lparr>atob = Some (\<lambda>s. Some (encodeGrpcStatus
              \<lparr>ident = 0, cls = ValidationError, name = ''ValidationError'',
               message = ''Validation error'',
               error_details = [LocalizedMessageDetail ''en'' ''Invalid input''],
               cause = None, stack = []\<rparr>)),
           Buffer_from = None, new_error_stack = [], call_site_stack = None\<rparr>
          (RpcErr \<lparr>rpc_code = ''INVALID_ARGUMENT'',
                   rpc_meta = [(''grpc-status-details-bin'', Single ''CAM='')],
                   rpc_message = []\<rparr>)
          (Some True) False None \<lparr>next_id = 0, onError_calls = []\<rparr>)
     = TypedErr \<lparr>ident = 0, cls = AbortedError, name = ''AbortedError'',
                  message = ''Aborted by client'', error_details = [], cause = None,
                  stack = []\<rparr>"
  using mapRpcError_abort_ignores_status_details [of "Some True"
      "\<lparr>atob = Some (\<lambda>s. Some (encodeGrpcStatus
              \<lparr>ident = 0, cls = ValidationError, name = ''ValidationError'',
               message = ''Validation error'',
               error_details = [LocalizedMessageDetail ''en'' ''Invalid input''],
               cause = None, stack = []\<rparr>)),
           Buffer_from = None, new_error_stack = [], call_site_stack = None\<rparr>"
      "\<lparr>rpc_code = ''INVALID_ARGUMENT'',
                   rpc_meta = [(''grpc-status-details-bin'', Single ''CAM='')],
                   rpc_message = []\<rparr>"
      False None "\<lparr>next_id = 0, onError_calls = []\<rparr>"]
    decodeGrpcStatus_example
  by (auto simp: mapRpcError_wire Let_def new_GrpcError_def applyCallSiteStack_def
        parseRichErrorDetails_def decodeBase64_def class_of_code_def code_defs)


section \<open>Properties of the metadata interceptor\<close>

lemma messages_of_append [simp]: "messages_of (xs @ ys) = messages_of xs @ messages_of ys"
  by (induction xs rule: messages_of.induct) simp_all

lemma messages_of_sends [simp]: "messages_of (map Send ms) = ms"
  by (induction ms) simp_all

lemma map_of_spread:
  "map_of (spread t s) = map_of t ++ map_of (rev s)"
  unfolding spread_def
proof (induction s arbitrary: t)
  case Nil
  then show ?case by simp
next
  case (Cons kv s)
  show ?case
    by (cases kv) (simp add: Cons.IH update_conv' map_add_upd_left fun_eq_iff map_add_def split: option.splits)
qed

lemma map_of_rev_distinct: "distinct (map fst s) \<Longrightarrow> map_of (rev s) = map_of s"
  by (simp add: map_of_inject_set distinct_map)

lemma map_of_merge_meta:
  assumes "distinct (map fst (case m of None \<Rightarrow> [] | Some xs \<Rightarrow> xs))" "distinct (map fst resolved)"
  shows "map_of (merge_meta m resolved) k =
           (case map_of resolved k of
              Some v \<Rightarrow> Some v
            | None \<Rightarrow> map_of (case m of None \<Rightarrow> [] | Some xs \<Rightarrow> xs) k)"
  using assms
  by (simp add: merge_meta_def map_of_spread map_of_rev_distinct map_add_def)


lemma foldl_cs_send:
  "foldl (\<lambda>c msg. cs_send msg c) call msgs = call\<lparr>cs_requests := cs_requests call @ map Send msgs\<rparr>"
  by (induction msgs arbitrary: call) (simp_all add: cs_send_def)

lemma foldl_csp_request_buffering:
  "csp_pendingCall p = None \<Longrightarrow>
   foldl csp_request p evs =
     p\<lparr>csp_pendingMessages := csp_pendingMessages p @ messages_of evs,
       csp_sendCompleted := (csp_sendCompleted p \<or> Complete \<in> set evs)\<rparr>"
proof (induction evs arbitrary: p)
  case Nil
  then show ?case by simp
next
  case (Cons ev evs)
  show ?case
  proof (cases ev)
    case (Send m)
    with Cons.prems Cons.IH[of "p\<lparr>csp_pendingMessages := csp_pendingMessages p @ [m]\<rparr>"]
    show ?thesis by simp
  next
    case Complete
    with Cons.prems Cons.IH[of "p\<lparr>csp_sendCompleted := True\<rparr>"]
    show ?thesis by auto
  qed
qed

lemma foldl_csp_request_passthrough:
  "csp_pendingCall p = Some call \<Longrightarrow>
   foldl csp_request p evs =
     p\<lparr>csp_pendingCall := Some (call\<lparr>cs_requests := cs_requests call @ evs\<rparr>)\<rparr>"
proof (induction evs arbitrary: p call)
  case Nil
  then show ?case by simp
next
  case (Cons ev evs)
  show ?case
  proof (cases ev)
    case (Send m)
    with Cons.prems Cons.IH[of "p\<lparr>csp_pendingCall := Some (cs_send m call)\<rparr>" "cs_send m call"]
    show ?thesis by (simp add: cs_send_def)
  next
    case Complete
    with Cons.prems Cons.IH[of "p\<lparr>csp_pendingCall := Some (cs_complete call)\<rparr>" "cs_complete call"]
    show ?thesis by (simp add: cs_complete_def)
  qed
qed

lemma csp_run_resolved:
  assumes "shouldIntercept config ClientStreaming"
    and "resolveMetadata (config_metadata config)
           \<lparr>callType = ClientStreaming, context_method = method\<rparr> = Fulfilled resolved"
  shows "\<exists>p. csp_run config next method options before after = Some p \<and>
     csp_pendingMessages p = [] \<and>
     csp_headersDeferred p = cs_headers (next method (options\<lparr>options_meta := Some (merge_meta (options_meta options) resolved)\<rparr>)) \<and>
     csp_responseDeferred p = cs_response (next method (options\<lparr>options_meta := Some (merge_meta (options_meta options) resolved)\<rparr>)) \<and>
     csp_statusDeferred p = cs_status (next method (options\<lparr>options_meta := Some (merge_meta (options_meta options) resolved)\<rparr>)) \<and>
     csp_trailersDeferred p = cs_trailers (next method (options\<lparr>options_meta := Some (merge_meta (options_meta options) resolved)\<rparr>)) \<and>
     csp_pendingCall p =
       Some ((next method (options\<lparr>options_meta := Some (merge_meta (options_meta options) resolved)\<rparr>))
          \<lparr>cs_requests :=
             cs_requests (next method (options\<lparr>options_meta := Some (merge_meta (options_meta options) resolved)\<rparr>))
             @ map Send (messages_of before)
             @ (if Complete \<in> set before then [Complete] else [])
             @ after\<rparr>)"
  using assms
  by (simp add: csp_run_def meta_interceptClientStreaming_def csp_provider_settled_def
        foldl_csp_request_buffering csp_resolved_def Let_def foldl_cs_send
        foldl_csp_request_passthrough cs_complete_def)

lemma csp_run_unresolved:
  assumes "shouldIntercept config ClientStreaming"
    and "\<forall>resolved. resolveMetadata (config_metadata config)
           \<lparr>callType = ClientStreaming, context_method = method\<rparr> \<noteq> Fulfilled resolved"
  shows "\<exists>p. csp_run config next method options before after = Some p \<and>
     csp_pendingCall p = None \<and>
     csp_pendingMessages p = messages_of (before @ after) \<and>
     (csp_sendCompleted p \<longleftrightarrow> Complete \<in> set (before @ after))"
  using assms
  by (cases "resolveMetadata (config_metadata config)
           \<lparr>callType = ClientStreaming, context_method = method\<rparr>")
     (auto simp: csp_run_def meta_interceptClientStreaming_def csp_provider_settled_def
        foldl_csp_request_buffering)

lemma foldl_dx_send:
  "foldl (\<lambda>c msg. dx_send msg c) call msgs = call\<lparr>dx_requests := dx_requests call @ map Send msgs\<rparr>"
  by (induction msgs arbitrary: call) (simp_all add: dx_send_def)

lemma foldl_dxp_request_buffering:
  "dxp_pendingCall p = None \<Longrightarrow>
   foldl dxp_request p evs =
     p\<lparr>dxp_pendingMessages := dxp_pendingMessages p @ messages_of evs,
       dxp_sendCompleted := (dxp_sendCompleted p \<or> Complete \<in> set evs)\<rparr>"
proof (induction evs arbitrary: p)
  case Nil
  then show ?case by simp
next
  case (Cons ev evs)
  show ?case
  proof (cases ev)
    case (Send m)
    with Cons.prems Cons.IH[of "p\<lparr>dxp_pendingMessages := dxp_pendingMessages p @ [m]\<rparr>"]
    show ?thesis by simp
  next
    case Complete
    with Cons.prems Cons.IH[of "p\<lparr>dxp_sendCompleted := True\<rparr>"]
    show ?thesis by auto
  qed
qed

lemma foldl_dxp_request_passthrough:
  "dxp_pendingCall p = Some call \<Longrightarrow>
   foldl dxp_request p evs =
     p\<lparr>dxp_pendingCall := Some (call\<lparr>dx_requests := dx_requests call @ evs\<rparr>)\<rparr>"
proof (induction evs arbitrary: p call)
  case Nil
  then show ?case by simp
next
  case (Cons ev evs)
  show ?case
  proof (cases ev)
    case (Send m)
    with Cons.prems Cons.IH[of "p\<lparr>dxp_pendingCall := Some (dx_send m call)\<rparr>" "dx_send m call"]
    show ?thesis by (simp add: dx_send_def)
  next
    case Complete
    with Cons.prems Cons.IH[of "p\<lparr>dxp_pendingCall := Some (dx_complete call)\<rparr>" "dx_complete call"]
    show ?thesis by (simp add: dx_complete_def)
  qed
qed

lemma dxp_run_resolved:
  assumes "shouldIntercept config Duplex"
    and "resolveMetadata (config_metadata config)
           \<lparr>callType = Duplex, context_method = method\<rparr> = Fulfilled resolved"
  shows "\<exists>p. dxp_run config next method options before after = Some p \<and>
     dxp_pendingMessages p = [] \<and>
     dxp_headersDeferred p = dx_headers (next method (options\<lparr>options_meta := Some (merge_meta (options_meta options) resolved)\<rparr>)) \<and>
     dxp_responseStream p = dx_responses (next method (options\<lparr>options_meta := Some (merge_meta (options_meta options) resolved)\<rparr>)) \<and>
     dxp_statusDeferred p = dx_status (next method (options\<lparr>options_meta := Some (merge_meta (options_meta options) resolved)\<rparr>)) \<and>
     dxp_trailersDeferred p = dx_trailers (next method (options\<lparr>options_meta := Some (merge_meta (options_meta options) resolved)\<rparr>)) \<and>
     dxp_pendingCall p =
       Some ((next method (options\<lparr>options_meta := Some (merge_meta (options_meta options) resolved)\<rparr>))
          \<lparr>dx_requests :=
             dx_requests (next method (options\<lparr>options_meta := Some (merge_meta (options_meta options) resolved)\<rparr>))
             @ map Send (messages_of before)
             @ (if Complete \<in> set before then [Complete] else [])
             @ after\<rparr>)"
  using assms
  by (simp add: dxp_run_def meta_interceptDuplex_def dxp_provider_settled_def
        foldl_dxp_request_buffering dxp_resolved_def Let_def foldl_dx_send
        foldl_dxp_request_passthrough dx_complete_def)

lemma dxp_run_unresolved:
  assumes "shouldIntercept config Duplex"
    and "\<forall>resolved. resolveMetadata (config_metadata config)
           \<lparr>callType = Duplex, context_method = method\<rparr> \<noteq> Fulfilled resolved"
  shows "\<exists>p. dxp_run config next method options before after = Some p \<and>
     dxp_pendingCall p = None \<and>
     dxp_pendingMessages p = messages_of (before @ after) \<and>
     (dxp_sendCompleted p \<longleftrightarrow> Complete \<in> set (before @ after))"
  using assms
  by (cases "resolveMetadata (config_metadata config)
           \<lparr>callType = Duplex, context_method = method\<rparr>")
     (auto simp: dxp_run_def meta_interceptDuplex_def dxp_provider_settled_def
        foldl_dxp_request_buffering)


lemma no_complete_all_sends: "Complete \<notin> set evs \<Longrightarrow> map Send (messages_of evs) = evs"
proof (induction evs)
  case (Cons ev evs)
  then show ?case by (cases ev) simp_all
qed simp


lemma flush_keeps_order:
  assumes "before @ after = map Send ms @ (if c then [Complete] else [])"
  shows "map Send (messages_of before) @ (if Complete \<in> set before then [Complete] else []) @ after
           = before @ after"
proof (cases "Complete \<in> set before")
  case False
  then show ?thesis by (simp add: no_complete_all_sends)
next
  case True
  have c: "c"
  proof (rule ccontr)
    assume "\<not> c"
    with assms have "set (before @ after) = Send ` set ms" by simp
    with True show False by auto
  qed
  have "after = []"
  proof (rule ccontr)
    assume "after \<noteq> []"
    then obtain a l where "after = a @ [l]" by (metis rev_exhaust)
    with assms c have "before @ a = map Send ms" by simp
    then have "set before \<subseteq> Send ` set ms" by (metis set_append set_map sup_ge1)
    with True show False by auto
  qed
  with assms c have b: "before = map Send ms @ [Complete]" by simp
  show ?thesis unfolding b \<open>after = []\<close> by simp
qed



text \<open>
  Claim C2.  A clientStreaming or a duplex call that goes through the metadata
  interceptor, whatever the caller sends and completes before and after the provider
  settles.  When the provider resolves (the delegated call starting with nothing
  received): the delegated call receives the buffered messages in their order, then a
  completion if the caller completed before the resolution, then, one for one and at
  once, what the caller does after the resolution, and nothing stays buffered.  So it
  receives exactly the caller's messages in the order sent, none twice and none lost; it
  receives a completion if and only if the caller completed; and for a caller that sends
  \<open>m1 .. mn\<close> and then completes (or does not), it receives \<open>m1 .. mn\<close> followed by the
  completion (or not), wherever the resolution falls.  When the provider does not
  resolve there is no delegated call, and the proxy holds the caller's messages in their
  order and whether the caller completed.  When the interceptor is configured not to
  intercept the call type, the caller is handed the delegate's call itself.
\<close>

theorem buffered_messages_keep_their_order:
  "(shouldIntercept config ClientStreaming \<longrightarrow>
      (\<forall>resolved.
         resolveMetadata (config_metadata config) \<lparr>callType = ClientStreaming, context_method = method\<rparr> = Fulfilled resolved \<and>
         cs_requests (next_cs method (options\<lparr>options_meta := Some (merge_meta (options_meta options) resolved)\<rparr>)) = [] \<longrightarrow>
         (\<exists>p call.
            csp_run config next_cs method options before after = Some p \<and>
            csp_pendingCall p = Some call \<and> csp_pendingMessages p = [] \<and>
            cs_requests call =
              map Send (messages_of before) @ (if Complete \<in> set before then [Complete] else [])
              @ after \<and>
            messages_of (cs_requests call) = messages_of (before @ after) \<and>
            (Complete \<in> set (cs_requests call) \<longleftrightarrow> Complete \<in> set (before @ after)) \<and>
            (\<forall>ms c. before @ after = map Send ms @ (if c then [Complete] else []) \<longrightarrow>
               cs_requests call = map Send ms @ (if c then [Complete] else [])))) \<and>
      ((\<forall>resolved.
          resolveMetadata (config_metadata config) \<lparr>callType = ClientStreaming, context_method = method\<rparr> \<noteq> Fulfilled resolved) \<longrightarrow>
         (\<exists>p.
            csp_run config next_cs method options before after = Some p \<and>
            csp_pendingCall p = None \<and>
            csp_pendingMessages p = messages_of (before @ after) \<and>
            (csp_sendCompleted p \<longleftrightarrow> Complete \<in> set (before @ after))))) \<and>
   (\<not> shouldIntercept config ClientStreaming \<longrightarrow>
      meta_interceptClientStreaming config next_cs method options = DirectClientStreaming (next_cs method options)) \<and>
   (shouldIntercept config Duplex \<longrightarrow>
      (\<forall>resolved.
         resolveMetadata (config_metadata config) \<lparr>callType = Duplex, context_method = method\<rparr> = Fulfilled resolved \<and>
         dx_requests (next_dx method (options\<lparr>options_meta := Some (merge_meta (options_meta options) resolved)\<rparr>)) = [] \<longrightarrow>
         (\<exists>p call.
            dxp_run config next_dx method options before after = Some p \<and>
            dxp_pendingCall p = Some call \<and> dxp_pendingMessages p = [] \<and>
            dx_requests call =
              map Send (messages_of before) @ (if Complete \<in> set before then [Complete] else [])
              @ after \<and>
            messages_of (dx_requests call) = messages_of (before @ after) \<and>
            (Complete \<in> set (dx_requests call) \<longleftrightarrow> Complete \<in> set (before @ after)) \<and>
            (\<forall>ms c. before @ after = map Send ms @ (if c then [Complete] else []) \<longrightarrow>
               dx_requests call = map Send ms @ (if c then [Complete] else [])))) \<and>
      ((\<forall>resolved.
          resolveMetadata (config_metadata config) \<lparr>callType = Duplex, context_method = method\<rparr> \<noteq> Fulfilled resolved) \<longrightarrow>
         (\<exists>p.
            dxp_run config next_dx method options before after = Some p \<and>
            dxp_pendingCall p = None \<and>
            dxp_pendingMessages p = messages_of (before @ after) \<and>
            (dxp_sendCompleted p \<longleftrightarrow> Complete \<in> set (before @ after))))) \<and>
   (\<not> shouldIntercept config Duplex \<longrightarrow>
      meta_interceptDuplex config next_dx method options = DirectDuplex (next_dx method options))"
proof -
  let ?trace = "map Send (messages_of before) @ (if Complete \<in> set before then [Complete] else []) @ after"
  have ord: "\<forall>ms c. before @ after = map Send ms @ (if c then [Complete] else []) \<longrightarrow>
               ?trace = map Send ms @ (if c then [Complete] else [])"
    using flush_keeps_order[of before after] by metis
  have msgs: "messages_of ?trace = messages_of (before @ after)" by simp
  have compl: "Complete \<in> set ?trace \<longleftrightarrow> Complete \<in> set (before @ after)" by auto
  have A: "(shouldIntercept config ClientStreaming \<longrightarrow>
      (\<forall>resolved.
         resolveMetadata (config_metadata config) \<lparr>callType = ClientStreaming, context_method = method\<rparr> = Fulfilled resolved \<and>
         cs_requests (next_cs method (options\<lparr>options_meta := Some (merge_meta (options_meta options) resolved)\<rparr>)) = [] \<longrightarrow>
         (\<exists>p call.
            csp_run config next_cs method options before after = Some p \<and>
            csp_pendingCall p = Some call \<and> csp_pendingMessages p = [] \<and>
            cs_requests call =
              map Send (messages_of before) @ (if Complete \<in> set before then [Complete] else [])
              @ after \<and>
            messages_of (cs_requests call) = messages_of (before @ after) \<and>
            (Complete \<in> set (cs_requests call) \<longleftrightarrow> Complete \<in> set (before @ after)) \<and>
            (\<forall>ms c. before @ after = map Send ms @ (if c then [Complete] else []) \<longrightarrow>
               cs_requests call = map Send ms @ (if c then [Complete] else [])))) \<and>
      ((\<forall>resolved.
          resolveMetadata (config_metadata config) \<lparr>callType = ClientStreaming, context_method = method\<rparr> \<noteq> Fulfilled resolved) \<longrightarrow>
         (\<exists>p.
            csp_run config next_cs method options before after = Some p \<and>
            csp_pendingCall p = None \<and>
            csp_pendingMessages p = messages_of (before @ after) \<and>
            (csp_sendCompleted p \<longleftrightarrow> Complete \<in> set (before @ after)))))"
  proof (intro impI conjI allI)
    fix resolved
    assume i: "shouldIntercept config ClientStreaming"
      and r: "resolveMetadata (config_metadata config) \<lparr>callType = ClientStreaming, context_method = method\<rparr> = Fulfilled resolved \<and>
         cs_requests (next_cs method (options\<lparr>options_meta := Some (merge_meta (options_meta options) resolved)\<rparr>)) = []"
    from csp_run_resolved[OF i conjunct1[OF r], of next_cs options before after] conjunct2[OF r]
    obtain p where p: "csp_run config next_cs method options before after = Some p"
      "csp_pendingMessages p = []"
      "csp_pendingCall p = Some ((next_cs method (options\<lparr>options_meta := Some (merge_meta (options_meta options) resolved)\<rparr>))\<lparr>cs_requests := ?trace\<rparr>)"
      by auto
    show "\<exists>p call.
            csp_run config next_cs method options before after = Some p \<and>
            csp_pendingCall p = Some call \<and> csp_pendingMessages p = [] \<and>
            cs_requests call =
              map Send (messages_of before) @ (if Complete \<in> set before then [Complete] else [])
              @ after \<and>
            messages_of (cs_requests call) = messages_of (before @ after) \<and>
            (Complete \<in> set (cs_requests call) \<longleftrightarrow> Complete \<in> set (before @ after)) \<and>
            (\<forall>ms c. before @ after = map Send ms @ (if c then [Complete] else []) \<longrightarrow>
               cs_requests call = map Send ms @ (if c then [Complete] else []))"
      using p ord msgs compl
      by (intro exI[of _ p] exI[of _ "(next_cs method (options\<lparr>options_meta := Some (merge_meta (options_meta options) resolved)\<rparr>))\<lparr>cs_requests := ?trace\<rparr>"])
         simp
  next
    assume i: "shouldIntercept config ClientStreaming"
      and u: "\<forall>resolved. resolveMetadata (config_metadata config) \<lparr>callType = ClientStreaming, context_method = method\<rparr> \<noteq> Fulfilled resolved"
    from csp_run_unresolved[OF i u, of next_cs options before after]
    show "\<exists>p.
            csp_run config next_cs method options before after = Some p \<and>
            csp_pendingCall p = None \<and>
            csp_pendingMessages p = messages_of (before @ after) \<and>
            (csp_sendCompleted p \<longleftrightarrow> Complete \<in> set (before @ after))" .
  qed
  have A': "(\<not> shouldIntercept config ClientStreaming \<longrightarrow>
      meta_interceptClientStreaming config next_cs method options = DirectClientStreaming (next_cs method options))"
    by (simp add: meta_interceptClientStreaming_def)
  have B: "(shouldIntercept config Duplex \<longrightarrow>
      (\<forall>resolved.
         resolveMetadata (config_metadata config) \<lparr>callType = Duplex, context_method = method\<rparr> = Fulfilled resolved \<and>
         dx_requests (next_dx method (options\<lparr>options_meta := Some (merge_meta (options_meta options) resolved)\<rparr>)) = [] \<longrightarrow>
         (\<exists>p call.
            dxp_run config next_dx method options before after = Some p \<and>
            dxp_pendingCall p = Some call \<and> dxp_pendingMessages p = [] \<and>
            dx_requests call =
              map Send (messages_of before) @ (if Complete \<in> set before then [Complete] else [])
              @ after \<and>
            messages_of (dx_requests call) = messages_of (before @ after) \<and>
            (Complete \<in> set (dx_requests call) \<longleftrightarrow> Complete \<in> set (before @ after)) \<and>
            (\<forall>ms c. before @ after = map Send ms @ (if c then [Complete] else []) \<longrightarrow>
               dx_requests call = map Send ms @ (if c then [Complete] else [])))) \<and>
      ((\<forall>resolved.
          resolveMetadata (config_metadata config) \<lparr>callType = Duplex, context_method = method\<rparr> \<noteq> Fulfilled resolved) \<longrightarrow>
         (\<exists>p.
            dxp_run config next_dx method options before after = Some p \<and>
            dxp_pendingCall p = None \<and>
            dxp_pendingMessages p = messages_of (before @ after) \<and>
            (dxp_sendCompleted p \<longleftrightarrow> Complete \<in> set (before @ after)))))"
  proof (intro impI conjI allI)
    fix resolved
    assume i: "shouldIntercept config Duplex"
      and r: "resolveMetadata (config_metadata config) \<lparr>callType = Duplex, context_method = method\<rparr> = Fulfilled resolved \<and>
         dx_requests (next_dx method (options\<lparr>options_meta := Some (merge_meta (options_meta options) resolved)\<rparr>)) = []"
    from dxp_run_resolved[OF i conjunct1[OF r], of next_dx options before after] conjunct2[OF r]
    obtain p where p: "dxp_run config next_dx method options before after = Some p"
      "dxp_pendingMessages p = []"
      "dxp_pendingCall p = Some ((next_dx method (options\<lparr>options_meta := Some (merge_meta (options_meta options) resolved)\<rparr>))\<lparr>dx_requests := ?trace\<rparr>)"
      by auto
    show "\<exists>p call.
            dxp_run config next_dx method options before after = Some p \<and>
            dxp_pendingCall p = Some call \<and> dxp_pendingMessages p = [] \<and>
            dx_requests call =
              map Send (messages_of before) @ (if Complete \<in> set before then [Complete] else [])
              @ after \<and>
            messages_of (dx_requests call) = messages_of (before @ after) \<and>
            (Complete \<in> set (dx_requests call) \<longleftrightarrow> Complete \<in> set (before @ after)) \<and>
            (\<forall>ms c. before @ after = map Send ms @ (if c then [Complete] else []) \<longrightarrow>
               dx_requests call = map Send ms @ (if c then [Complete] else []))"
      using p ord msgs compl
      by (intro exI[of _ p] exI[of _ "(next_dx method (options\<lparr>options_meta := Some (merge_meta (options_meta options) resolved)\<rparr>))\<lparr>dx_requests := ?trace\<rparr>"])
         simp
  next
    assume i: "shouldIntercept config Duplex"
      and u: "\<forall>resolved. resolveMetadata (config_metadata config) \<lparr>callType = Duplex, context_method = method\<rparr> \<noteq> Fulfilled resolved"
    from dxp_run_unresolved[OF i u, of next_dx options before after]
    show "\<exists>p.
            dxp_run config next_dx method options before after = Some p \<and>
            dxp_pendingCall p = None \<and>
            dxp_pendingMessages p = messages_of (before @ after) \<and>
            (dxp_sendCompleted p \<longleftrightarrow> Complete \<in> set (before @ after))" .
  qed
  have B': "(\<not> shouldIntercept config Duplex \<longrightarrow>
      meta_interceptDuplex config next_dx method options = DirectDuplex (next_dx method options))"
    by (simp add: meta_interceptDuplex_def)
  from A A' B B' show ?thesis by blast
qed

theorem buffered_messages_keep_their_order_witness:
  "shouldIntercept \<lparr>config_metadata = Static [(''a'', Single ''1'')], config_callTypes = Some [ClientStreaming]\<rparr> ClientStreaming \<and>
   resolveMetadata (config_metadata \<lparr>config_metadata = Static [(''a'', Single ''1'')], config_callTypes = Some [ClientStreaming]\<rparr>)
     \<lparr>callType = ClientStreaming, context_method = ''Upload''\<rparr> = Fulfilled [(''a'', Single ''1'')] \<and>
   cs_requests (client_streaming_echo ''Upload'' (no_options\<lparr>options_meta := Some (merge_meta (options_meta no_options) [(''a'', Single ''1'')])\<rparr>)) = [] \<and>
   map_option (\<lambda>p. map_option cs_requests (csp_pendingCall p))
     (csp_run \<lparr>config_metadata = Static [(''a'', Single ''1'')], config_callTypes = Some [ClientStreaming]\<rparr> client_streaming_echo ''Upload'' no_options
        [Send 1, Complete, Send 2] [Send 3])
     = Some (Some [Send 1, Send 2, Complete, Send 3]) \<and>
   shouldIntercept \<lparr>config_metadata = Static [(''a'', Single ''1'')], config_callTypes = Some [Duplex]\<rparr> Duplex \<and>
   resolveMetadata (config_metadata \<lparr>config_metadata = Static [(''a'', Single ''1'')], config_callTypes = Some [Duplex]\<rparr>)
     \<lparr>callType = Duplex, context_method = ''Chat''\<rparr> = Fulfilled [(''a'', Single ''1'')] \<and>
   dx_requests (duplex_echo ''Chat'' (no_options\<lparr>options_meta := Some (merge_meta (options_meta no_options) [(''a'', Single ''1'')])\<rparr>)) = [] \<and>
   map_option (\<lambda>p. map_option dx_requests (dxp_pendingCall p))
     (dxp_run \<lparr>config_metadata = Static [(''a'', Single ''1'')], config_callTypes = Some [Duplex]\<rparr> duplex_echo ''Chat'' no_options [Send 1, Send 2] [Send 3, Complete])
     = Some (Some [Send 1, Send 2, Send 3, Complete]) \<and>
   \<not> shouldIntercept \<lparr>config_metadata = Static [(''a'', Single ''1'')], config_callTypes = Some [Duplex]\<rparr> ClientStreaming \<and>
   meta_interceptClientStreaming \<lparr>config_metadata = Static [(''a'', Single ''1'')], config_callTypes = Some [Duplex]\<rparr> client_streaming_echo ''Upload'' no_options
     = DirectClientStreaming (client_streaming_echo ''Upload'' no_options) \<and>
   map_option (\<lambda>p. (csp_pendingCall p, csp_pendingMessages p, csp_sendCompleted p))
     (csp_run \<lparr>config_metadata = rejecting_provider, config_callTypes = None\<rparr> client_streaming_echo ''Upload'' no_options [Send 1] [Send 2, Complete])
     = Some (None, [1, 2], True)"
proof -
  have cs: "map_option (\<lambda>p. map_option cs_requests (csp_pendingCall p))
     (csp_run \<lparr>config_metadata = Static [(''a'', Single ''1'')], config_callTypes = Some [ClientStreaming]\<rparr> client_streaming_echo ''Upload'' no_options
        [Send 1, Complete, Send 2] [Send 3])
     = Some (Some [Send 1, Send 2, Complete, Send 3])"
    using buffered_messages_keep_their_order
      [of "\<lparr>config_metadata = Static [(''a'', Single ''1'')], config_callTypes = Some [ClientStreaming]\<rparr>" "''Upload''" client_streaming_echo no_options
          "[Send 1, Complete, Send 2]" "[Send 3]" duplex_echo]
    by (auto simp: shouldIntercept_def resolveMetadata_def client_streaming_echo_def)
  have dx: "map_option (\<lambda>p. map_option dx_requests (dxp_pendingCall p))
     (dxp_run \<lparr>config_metadata = Static [(''a'', Single ''1'')], config_callTypes = Some [Duplex]\<rparr> duplex_echo ''Chat'' no_options [Send 1, Send 2] [Send 3, Complete])
     = Some (Some [Send 1, Send 2, Send 3, Complete])"
    using buffered_messages_keep_their_order
      [of "\<lparr>config_metadata = Static [(''a'', Single ''1'')], config_callTypes = Some [Duplex]\<rparr>" "''Chat''" client_streaming_echo no_options
          "[Send 1, Send 2]" "[Send 3, Complete]" duplex_echo]
    by (auto simp: shouldIntercept_def resolveMetadata_def duplex_echo_def)
  have direct: "meta_interceptClientStreaming \<lparr>config_metadata = Static [(''a'', Single ''1'')], config_callTypes = Some [Duplex]\<rparr> client_streaming_echo ''Upload'' no_options
     = DirectClientStreaming (client_streaming_echo ''Upload'' no_options)"
    using buffered_messages_keep_their_order
      [of "\<lparr>config_metadata = Static [(''a'', Single ''1'')], config_callTypes = Some [Duplex]\<rparr>" "''Upload''" client_streaming_echo no_options "[]" "[]" duplex_echo]
    by (simp add: shouldIntercept_def)
  have rej: "map_option (\<lambda>p. (csp_pendingCall p, csp_pendingMessages p, csp_sendCompleted p))
     (csp_run \<lparr>config_metadata = rejecting_provider, config_callTypes = None\<rparr> client_streaming_echo ''Upload'' no_options [Send 1] [Send 2, Complete])
     = Some (None, [1, 2], True)"
    using buffered_messages_keep_their_order
      [of "\<lparr>config_metadata = rejecting_provider, config_callTypes = None\<rparr>" "''Upload''" client_streaming_echo no_options
          "[Send 1]" "[Send 2, Complete]" duplex_echo]
    by (auto simp: shouldIntercept_def resolveMetadata_def rejecting_provider_def)
  from cs dx direct rej show ?thesis
    by (simp add: shouldIntercept_def resolveMetadata_def client_streaming_echo_def
          duplex_echo_def)
qed


lemma meta_unary_provider_rejects:
  assumes "shouldIntercept config Unary"
    and "resolveMetadata (config_metadata config) \<lparr>callType = Unary, context_method = method\<rparr>
           = Rejected e"
  shows "meta_interceptUnary config next method input options =
           \<lparr>u_method = method, u_requestHeaders = meta_or_empty options, u_request = input,
             u_headers = Rejected e, u_response = Rejected e, u_status = Rejected e,
             u_trailers = Rejected e\<rparr>"
  using assms by (simp add: meta_interceptUnary_def Let_def then_outcome_def)

lemma meta_server_streaming_provider_rejects:
  assumes "shouldIntercept config ServerStreaming"
    and "resolveMetadata (config_metadata config)
           \<lparr>callType = ServerStreaming, context_method = method\<rparr> = Rejected e"
  shows "meta_interceptServerStreaming config next method input options =
           \<lparr>ss_method = method, ss_requestHeaders = meta_or_empty options, ss_request = input,
             ss_headers = Rejected e, ss_responses = [], ss_status = Rejected e,
             ss_trailers = Rejected e\<rparr>"
  using assms by (simp add: meta_interceptServerStreaming_def Let_def then_outcome_def)

lemma meta_client_streaming_provider_rejects:
  assumes "shouldIntercept config ClientStreaming"
    and "resolveMetadata (config_metadata config)
           \<lparr>callType = ClientStreaming, context_method = method\<rparr> = Rejected e"
  shows "\<exists>p. csp_run config next method options before after = Some p \<and>
           csp_headersDeferred p = Pending \<and> csp_responseDeferred p = Pending \<and>
           csp_statusDeferred p = Pending \<and> csp_trailersDeferred p = Pending \<and>
           csp_pendingCall p = None"
  using assms
  by (simp add: csp_run_def meta_interceptClientStreaming_def csp_provider_settled_def
        foldl_csp_request_buffering)

lemma meta_duplex_provider_rejects:
  assumes "shouldIntercept config Duplex"
    and "resolveMetadata (config_metadata config)
           \<lparr>callType = Duplex, context_method = method\<rparr> = Rejected e"
  shows "\<exists>p. dxp_run config next method options before after = Some p \<and>
           dxp_headersDeferred p = Pending \<and> dxp_responseStream p = [] \<and>
           dxp_statusDeferred p = Pending \<and> dxp_trailersDeferred p = Pending \<and>
           dxp_pendingCall p = None"
  using assms
  by (simp add: dxp_run_def meta_interceptDuplex_def dxp_provider_settled_def
        foldl_dxp_request_buffering)


text \<open>
  Claim C4, at a failing input.  A clientStreaming call whose provider rejects: the
  callback of \<open>resolveMetadata(...).then\<close> never runs and the rejection has no handler, so
  the four deferreds of the returned call stay pending whatever the caller does, where
  the claim has all four rejected.  (The four lemmas before this one give the general
  picture: a unary call rejects all four; a server-streaming call rejects headers, status
  and trailers and leaves its response stream silent; a clientStreaming and a duplex call
  settle nothing.)
\<close>

theorem provider_rejection_leaves_streaming_call_unsettled:
  "map_option
     (\<lambda>p. (csp_headersDeferred p, csp_responseDeferred p, csp_statusDeferred p,
           csp_trailersDeferred p))
     (csp_run \<lparr>config_metadata = rejecting_provider, config_callTypes = None\<rparr>
        client_streaming_ok ''Upload'' no_options [Send 1] [Send 2, Complete])
   = Some (Pending, Pending, Pending, Pending)"
  by (simp add: csp_run_def meta_interceptClientStreaming_def csp_provider_settled_def
        shouldIntercept_def resolveMetadata_def rejecting_provider_def)

lemma await_unary_then:
  "await_unary
     \<lparr>u_method = m, u_requestHeaders = rh, u_request = i,
      u_headers = then_outcome a (\<lambda>(h, r, s, t). h),
      u_response = then_outcome a (\<lambda>(h, r, s, t). r),
      u_status = then_outcome a (\<lambda>(h, r, s, t). s),
      u_trailers = then_outcome a (\<lambda>(h, r, s, t). t)\<rparr> = a"
  by (cases a) (auto simp: await_unary_def then_outcome_def)

lemma await_server_streaming_then:
  "await_server_streaming
     \<lparr>ss_method = m, ss_requestHeaders = rh, ss_request = i,
      ss_headers = then_outcome a (\<lambda>(h, s, t). h),
      ss_responses = out,
      ss_status = then_outcome a (\<lambda>(h, s, t). s),
      ss_trailers = then_outcome a (\<lambda>(h, s, t). t)\<rparr> = a"
  by (cases a) (auto simp: await_server_streaming_def then_outcome_def)

text \<open>
  Claim C9.  In each of the four shapes, for every delegate \<open>next\<close>: when the call is
  intercepted and the provider resolves, what the caller gets from the intercepted call
  is what \<open>next\<close> yields when it is called with the caller's options in which the metadata
  is replaced by the merge (for unary and server streaming, the outcome of awaiting the
  call, and the response stream; for clientStreaming and duplex, the four deferreds or
  the response stream, and the call the proxy hands the caller's messages to).  In the
  merge an entry of the resolved metadata wins over a caller's entry with the same key,
  and a caller's entry whose key the resolved metadata does not have is kept (metadata
  objects having each key once); resolved \<open>{a: "1"}\<close> over caller \<open>{b: "2"}\<close> is exactly
  \<open>{b: "2", a: "1"}\<close>.
\<close>

theorem resolved_metadata_overrides_caller_metadata:
  "(shouldIntercept config Unary \<and>
      resolveMetadata (config_metadata config) \<lparr>callType = Unary, context_method = method\<rparr> = Fulfilled resolved \<longrightarrow>
      await_unary (meta_interceptUnary config next_u method input options)
        = await_unary (next_u method input (options\<lparr>options_meta := Some (merge_meta (options_meta options) resolved)\<rparr>))) \<and>
   (shouldIntercept config ServerStreaming \<and>
      resolveMetadata (config_metadata config) \<lparr>callType = ServerStreaming, context_method = method\<rparr> = Fulfilled resolved \<longrightarrow>
      await_server_streaming (meta_interceptServerStreaming config next_ss method input options)
        = await_server_streaming (next_ss method input (options\<lparr>options_meta := Some (merge_meta (options_meta options) resolved)\<rparr>)) \<and>
      ss_responses (meta_interceptServerStreaming config next_ss method input options)
        = ss_responses (next_ss method input (options\<lparr>options_meta := Some (merge_meta (options_meta options) resolved)\<rparr>))) \<and>
   (shouldIntercept config ClientStreaming \<and>
      resolveMetadata (config_metadata config) \<lparr>callType = ClientStreaming, context_method = method\<rparr> = Fulfilled resolved \<longrightarrow>
      (\<exists>p. csp_run config next_cs method options before after = Some p \<and>
           csp_headersDeferred p = cs_headers (next_cs method (options\<lparr>options_meta := Some (merge_meta (options_meta options) resolved)\<rparr>)) \<and>
           csp_responseDeferred p = cs_response (next_cs method (options\<lparr>options_meta := Some (merge_meta (options_meta options) resolved)\<rparr>)) \<and>
           csp_statusDeferred p = cs_status (next_cs method (options\<lparr>options_meta := Some (merge_meta (options_meta options) resolved)\<rparr>)) \<and>
           csp_trailersDeferred p = cs_trailers (next_cs method (options\<lparr>options_meta := Some (merge_meta (options_meta options) resolved)\<rparr>)) \<and>
           csp_pendingCall p =
             Some ((next_cs method (options\<lparr>options_meta := Some (merge_meta (options_meta options) resolved)\<rparr>))
               \<lparr>cs_requests :=
                  cs_requests (next_cs method (options\<lparr>options_meta := Some (merge_meta (options_meta options) resolved)\<rparr>))
                  @ map Send (messages_of before)
                  @ (if Complete \<in> set before then [Complete] else []) @ after\<rparr>))) \<and>
   (shouldIntercept config Duplex \<and>
      resolveMetadata (config_metadata config) \<lparr>callType = Duplex, context_method = method\<rparr> = Fulfilled resolved \<longrightarrow>
      (\<exists>p. dxp_run config next_dx method options before after = Some p \<and>
           dxp_headersDeferred p = dx_headers (next_dx method (options\<lparr>options_meta := Some (merge_meta (options_meta options) resolved)\<rparr>)) \<and>
           dxp_responseStream p = dx_responses (next_dx method (options\<lparr>options_meta := Some (merge_meta (options_meta options) resolved)\<rparr>)) \<and>
           dxp_statusDeferred p = dx_status (next_dx method (options\<lparr>options_meta := Some (merge_meta (options_meta options) resolved)\<rparr>)) \<and>
           dxp_trailersDeferred p = dx_trailers (next_dx method (options\<lparr>options_meta := Some (merge_meta (options_meta options) resolved)\<rparr>)) \<and>
           dxp_pendingCall p =
             Some ((next_dx method (options\<lparr>options_meta := Some (merge_meta (options_meta options) resolved)\<rparr>))
               \<lparr>dx_requests :=
                  dx_requests (next_dx method (options\<lparr>options_meta := Some (merge_meta (options_meta options) resolved)\<rparr>))
                  @ map Send (messages_of before)
                  @ (if Complete \<in> set before then [Complete] else []) @ after\<rparr>))) \<and>
   (distinct (map fst (meta_or_empty options)) \<and> distinct (map fst resolved) \<longrightarrow>
      (\<forall>k. map_of (merge_meta (options_meta options) resolved) k =
            (case map_of resolved k of
               Some v \<Rightarrow> Some v
             | None \<Rightarrow> map_of (meta_or_empty options) k))) \<and>
   merge_meta (Some [(''b'', Single ''2'')]) [(''a'', Single ''1'')]
       = [(''b'', Single ''2''), (''a'', Single ''1'')]"
proof -
  have u: "(shouldIntercept config Unary \<and>
      resolveMetadata (config_metadata config) \<lparr>callType = Unary, context_method = method\<rparr> = Fulfilled resolved \<longrightarrow>
      await_unary (meta_interceptUnary config next_u method input options)
        = await_unary (next_u method input (options\<lparr>options_meta := Some (merge_meta (options_meta options) resolved)\<rparr>)))"
    by (simp add: meta_interceptUnary_def Let_def await_unary_then)
  have ss: "(shouldIntercept config ServerStreaming \<and>
      resolveMetadata (config_metadata config) \<lparr>callType = ServerStreaming, context_method = method\<rparr> = Fulfilled resolved \<longrightarrow>
      await_server_streaming (meta_interceptServerStreaming config next_ss method input options)
        = await_server_streaming (next_ss method input (options\<lparr>options_meta := Some (merge_meta (options_meta options) resolved)\<rparr>)) \<and>
      ss_responses (meta_interceptServerStreaming config next_ss method input options)
        = ss_responses (next_ss method input (options\<lparr>options_meta := Some (merge_meta (options_meta options) resolved)\<rparr>)))"
    by (simp add: meta_interceptServerStreaming_def Let_def await_server_streaming_then)
  have cs: "(shouldIntercept config ClientStreaming \<and>
      resolveMetadata (config_metadata config) \<lparr>callType = ClientStreaming, context_method = method\<rparr> = Fulfilled resolved \<longrightarrow>
      (\<exists>p. csp_run config next_cs method options before after = Some p \<and>
           csp_headersDeferred p = cs_headers (next_cs method (options\<lparr>options_meta := Some (merge_meta (options_meta options) resolved)\<rparr>)) \<and>
           csp_responseDeferred p = cs_response (next_cs method (options\<lparr>options_meta := Some (merge_meta (options_meta options) resolved)\<rparr>)) \<and>
           csp_statusDeferred p = cs_status (next_cs method (options\<lparr>options_meta := Some (merge_meta (options_meta options) resolved)\<rparr>)) \<and>
           csp_trailersDeferred p = cs_trailers (next_cs method (options\<lparr>options_meta := Some (merge_meta (options_meta options) resolved)\<rparr>)) \<and>
           csp_pendingCall p =
             Some ((next_cs method (options\<lparr>options_meta := Some (merge_meta (options_meta options) resolved)\<rparr>))
               \<lparr>cs_requests :=
                  cs_requests (next_cs method (options\<lparr>options_meta := Some (merge_meta (options_meta options) resolved)\<rparr>))
                  @ map Send (messages_of before)
                  @ (if Complete \<in> set before then [Complete] else []) @ after\<rparr>)))"
    using csp_run_resolved[of config "method" resolved next_cs options before after] by auto
  have dx: "(shouldIntercept config Duplex \<and>
      resolveMetadata (config_metadata config) \<lparr>callType = Duplex, context_method = method\<rparr> = Fulfilled resolved \<longrightarrow>
      (\<exists>p. dxp_run config next_dx method options before after = Some p \<and>
           dxp_headersDeferred p = dx_headers (next_dx method (options\<lparr>options_meta := Some (merge_meta (options_meta options) resolved)\<rparr>)) \<and>
           dxp_responseStream p = dx_responses (next_dx method (options\<lparr>options_meta := Some (merge_meta (options_meta options) resolved)\<rparr>)) \<and>
           dxp_statusDeferred p = dx_status (next_dx method (options\<lparr>options_meta := Some (merge_meta (options_meta options) resolved)\<rparr>)) \<and>
           dxp_trailersDeferred p = dx_trailers (next_dx method (options\<lparr>options_meta := Some (merge_meta (options_meta options) resolved)\<rparr>)) \<and>
           dxp_pendingCall p =
             Some ((next_dx method (options\<lparr>options_meta := Some (merge_meta (options_meta options) resolved)\<rparr>))
               \<lparr>dx_requests :=
                  dx_requests (next_dx method (options\<lparr>options_meta := Some (merge_meta (options_meta options) resolved)\<rparr>))
                  @ map Send (messages_of before)
                  @ (if Complete \<in> set before then [Complete] else []) @ after\<rparr>)))"
    using dxp_run_resolved[of config "method" resolved next_dx options before after] by auto
  have m: "(distinct (map fst (meta_or_empty options)) \<and> distinct (map fst resolved) \<longrightarrow>
      (\<forall>k. map_of (merge_meta (options_meta options) resolved) k =
            (case map_of resolved k of
               Some v \<Rightarrow> Some v
             | None \<Rightarrow> map_of (meta_or_empty options) k)))"
    using map_of_merge_meta[of "options_meta options" resolved]
    by (auto simp: meta_or_empty_def split: option.splits)
  have ex: "merge_meta (Some [(''b'', Single ''2'')]) [(''a'', Single ''1'')]
       = [(''b'', Single ''2''), (''a'', Single ''1'')]"
    by (simp add: merge_meta_def spread_def)
  from u ss cs dx m ex show ?thesis by blast
qed

theorem resolved_metadata_overrides_caller_metadata_witness:
  "shouldIntercept \<lparr>config_metadata = Static [(''a'', Single ''1''), (''x'', Single ''new'')], config_callTypes = None\<rparr> Unary \<and>
   resolveMetadata (config_metadata \<lparr>config_metadata = Static [(''a'', Single ''1''), (''x'', Single ''new'')], config_callTypes = None\<rparr>) \<lparr>callType = Unary, context_method = ''Get''\<rparr>
     = Fulfilled [(''a'', Single ''1''), (''x'', Single ''new'')] \<and>
   distinct (map fst (meta_or_empty \<lparr>options_meta = Some [(''b'', Single ''2''), (''x'', Single ''old'')], options_abort = None\<rparr>)) \<and>
   distinct (map fst [(''a'', Single ''1''), (''x'', Single ''new'')]) \<and>
   await_unary (meta_interceptUnary \<lparr>config_metadata = Static [(''a'', Single ''1''), (''x'', Single ''new'')], config_callTypes = None\<rparr> unary_echo ''Get'' 7 \<lparr>options_meta = Some [(''b'', Single ''2''), (''x'', Single ''old'')], options_abort = None\<rparr>)
     = Fulfilled ([(''b'', Single ''2''), (''x'', Single ''new''), (''a'', Single ''1'')], 7, status_ok, []) \<and>
   await_server_streaming
       (meta_interceptServerStreaming \<lparr>config_metadata = Static [(''a'', Single ''1''), (''x'', Single ''new'')], config_callTypes = None\<rparr> server_streaming_echo ''List'' 7 \<lparr>options_meta = Some [(''b'', Single ''2''), (''x'', Single ''old'')], options_abort = None\<rparr>)
     = Fulfilled ([(''b'', Single ''2''), (''x'', Single ''new''), (''a'', Single ''1'')], status_ok, []) \<and>
   map_option (\<lambda>p. (csp_headersDeferred p, map_option cs_requestHeaders (csp_pendingCall p)))
       (csp_run \<lparr>config_metadata = Static [(''a'', Single ''1''), (''x'', Single ''new'')], config_callTypes = None\<rparr> client_streaming_echo ''Upload'' \<lparr>options_meta = Some [(''b'', Single ''2''), (''x'', Single ''old'')], options_abort = None\<rparr> [Send 1] [Complete])
     = Some (Fulfilled [(''b'', Single ''2''), (''x'', Single ''new''), (''a'', Single ''1'')], Some [(''b'', Single ''2''), (''x'', Single ''new''), (''a'', Single ''1'')]) \<and>
   map_option (\<lambda>p. (dxp_headersDeferred p, map_option dx_requestHeaders (dxp_pendingCall p)))
       (dxp_run \<lparr>config_metadata = Static [(''a'', Single ''1''), (''x'', Single ''new'')], config_callTypes = None\<rparr> duplex_echo ''Chat'' \<lparr>options_meta = Some [(''b'', Single ''2''), (''x'', Single ''old'')], options_abort = None\<rparr> [Send 1] [Complete])
     = Some (Fulfilled [(''b'', Single ''2''), (''x'', Single ''new''), (''a'', Single ''1'')], Some [(''b'', Single ''2''), (''x'', Single ''new''), (''a'', Single ''1'')]) \<and>
   map_of (merge_meta (options_meta \<lparr>options_meta = Some [(''b'', Single ''2''), (''x'', Single ''old'')], options_abort = None\<rparr>) [(''a'', Single ''1''), (''x'', Single ''new'')]) ''x'' = Some (Single ''new'') \<and>
   map_of (merge_meta (options_meta \<lparr>options_meta = Some [(''b'', Single ''2''), (''x'', Single ''old'')], options_abort = None\<rparr>) [(''a'', Single ''1''), (''x'', Single ''new'')]) ''b'' = Some (Single ''2'')"
proof -
  have mm: "merge_meta (Some [(''b'', Single ''2''), (''x'', Single ''old'')]) [(''a'', Single ''1''), (''x'', Single ''new'')] = [(''b'', Single ''2''), (''x'', Single ''new''), (''a'', Single ''1'')]"
    by (simp add: merge_meta_def spread_def)
  have u: "await_unary (meta_interceptUnary \<lparr>config_metadata = Static [(''a'', Single ''1''), (''x'', Single ''new'')], config_callTypes = None\<rparr> unary_echo ''Get'' 7 \<lparr>options_meta = Some [(''b'', Single ''2''), (''x'', Single ''old'')], options_abort = None\<rparr>)
     = Fulfilled ([(''b'', Single ''2''), (''x'', Single ''new''), (''a'', Single ''1'')], 7, status_ok, [])"
  proof -
    have "await_unary (meta_interceptUnary \<lparr>config_metadata = Static [(''a'', Single ''1''), (''x'', Single ''new'')], config_callTypes = None\<rparr> unary_echo ''Get'' 7 \<lparr>options_meta = Some [(''b'', Single ''2''), (''x'', Single ''old'')], options_abort = None\<rparr>)
       = await_unary (unary_echo ''Get'' 7 (\<lparr>options_meta = Some [(''b'', Single ''2''), (''x'', Single ''old'')], options_abort = None\<rparr>\<lparr>options_meta := Some (merge_meta (options_meta \<lparr>options_meta = Some [(''b'', Single ''2''), (''x'', Single ''old'')], options_abort = None\<rparr>) [(''a'', Single ''1''), (''x'', Single ''new'')])\<rparr>))"
      by (rule mp[OF resolved_metadata_overrides_caller_metadata
        [of "\<lparr>config_metadata = Static [(''a'', Single ''1''), (''x'', Single ''new'')], config_callTypes = None\<rparr>" "''Get''" "[(''a'', Single ''1''), (''x'', Single ''new'')]" unary_echo 7 "\<lparr>options_meta = Some [(''b'', Single ''2''), (''x'', Single ''old'')], options_abort = None\<rparr>" server_streaming_echo
            client_streaming_echo "[Send 1]" "[Complete]" duplex_echo, THEN conjunct1]])
         (simp add: shouldIntercept_def resolveMetadata_def)
    also have "\<dots> = Fulfilled ([(''b'', Single ''2''), (''x'', Single ''new''), (''a'', Single ''1'')], 7, status_ok, [])"
      using mm by (simp add: unary_echo_def await_unary_def meta_or_empty_def)
    finally show ?thesis .
  qed
  have ss: "await_server_streaming
       (meta_interceptServerStreaming \<lparr>config_metadata = Static [(''a'', Single ''1''), (''x'', Single ''new'')], config_callTypes = None\<rparr> server_streaming_echo ''List'' 7 \<lparr>options_meta = Some [(''b'', Single ''2''), (''x'', Single ''old'')], options_abort = None\<rparr>)
     = Fulfilled ([(''b'', Single ''2''), (''x'', Single ''new''), (''a'', Single ''1'')], status_ok, [])"
  proof -
    have "await_server_streaming
         (meta_interceptServerStreaming \<lparr>config_metadata = Static [(''a'', Single ''1''), (''x'', Single ''new'')], config_callTypes = None\<rparr> server_streaming_echo ''List'' 7 \<lparr>options_meta = Some [(''b'', Single ''2''), (''x'', Single ''old'')], options_abort = None\<rparr>)
       = await_server_streaming (server_streaming_echo ''List'' 7 (\<lparr>options_meta = Some [(''b'', Single ''2''), (''x'', Single ''old'')], options_abort = None\<rparr>\<lparr>options_meta := Some (merge_meta (options_meta \<lparr>options_meta = Some [(''b'', Single ''2''), (''x'', Single ''old'')], options_abort = None\<rparr>) [(''a'', Single ''1''), (''x'', Single ''new'')])\<rparr>)) \<and>
      ss_responses (meta_interceptServerStreaming \<lparr>config_metadata = Static [(''a'', Single ''1''), (''x'', Single ''new'')], config_callTypes = None\<rparr> server_streaming_echo ''List'' 7 \<lparr>options_meta = Some [(''b'', Single ''2''), (''x'', Single ''old'')], options_abort = None\<rparr>)
       = ss_responses (server_streaming_echo ''List'' 7 (\<lparr>options_meta = Some [(''b'', Single ''2''), (''x'', Single ''old'')], options_abort = None\<rparr>\<lparr>options_meta := Some (merge_meta (options_meta \<lparr>options_meta = Some [(''b'', Single ''2''), (''x'', Single ''old'')], options_abort = None\<rparr>) [(''a'', Single ''1''), (''x'', Single ''new'')])\<rparr>))"
      by (rule mp[OF resolved_metadata_overrides_caller_metadata
        [of "\<lparr>config_metadata = Static [(''a'', Single ''1''), (''x'', Single ''new'')], config_callTypes = None\<rparr>" "''List''" "[(''a'', Single ''1''), (''x'', Single ''new'')]" unary_echo 7 "\<lparr>options_meta = Some [(''b'', Single ''2''), (''x'', Single ''old'')], options_abort = None\<rparr>" server_streaming_echo
            client_streaming_echo "[Send 1]" "[Complete]" duplex_echo, THEN conjunct2, THEN conjunct1]])
         (simp add: shouldIntercept_def resolveMetadata_def)
    also have "await_server_streaming (server_streaming_echo ''List'' 7 (\<lparr>options_meta = Some [(''b'', Single ''2''), (''x'', Single ''old'')], options_abort = None\<rparr>\<lparr>options_meta := Some (merge_meta (options_meta \<lparr>options_meta = Some [(''b'', Single ''2''), (''x'', Single ''old'')], options_abort = None\<rparr>) [(''a'', Single ''1''), (''x'', Single ''new'')])\<rparr>))
        = Fulfilled ([(''b'', Single ''2''), (''x'', Single ''new''), (''a'', Single ''1'')], status_ok, [])"
      using mm by (simp add: server_streaming_echo_def await_server_streaming_def meta_or_empty_def)
    finally show ?thesis by simp
  qed
  have cs: "map_option (\<lambda>p. (csp_headersDeferred p, map_option cs_requestHeaders (csp_pendingCall p)))
       (csp_run \<lparr>config_metadata = Static [(''a'', Single ''1''), (''x'', Single ''new'')], config_callTypes = None\<rparr> client_streaming_echo ''Upload'' \<lparr>options_meta = Some [(''b'', Single ''2''), (''x'', Single ''old'')], options_abort = None\<rparr> [Send 1] [Complete])
     = Some (Fulfilled [(''b'', Single ''2''), (''x'', Single ''new''), (''a'', Single ''1'')], Some [(''b'', Single ''2''), (''x'', Single ''new''), (''a'', Single ''1'')])"
  proof -
    have "\<exists>p. csp_run \<lparr>config_metadata = Static [(''a'', Single ''1''), (''x'', Single ''new'')], config_callTypes = None\<rparr> client_streaming_echo ''Upload'' \<lparr>options_meta = Some [(''b'', Single ''2''), (''x'', Single ''old'')], options_abort = None\<rparr> [Send 1] [Complete] = Some p \<and>
      csp_headersDeferred p = cs_headers (client_streaming_echo ''Upload'' (\<lparr>options_meta = Some [(''b'', Single ''2''), (''x'', Single ''old'')], options_abort = None\<rparr>\<lparr>options_meta := Some (merge_meta (options_meta \<lparr>options_meta = Some [(''b'', Single ''2''), (''x'', Single ''old'')], options_abort = None\<rparr>) [(''a'', Single ''1''), (''x'', Single ''new'')])\<rparr>)) \<and>
      csp_responseDeferred p = cs_response (client_streaming_echo ''Upload'' (\<lparr>options_meta = Some [(''b'', Single ''2''), (''x'', Single ''old'')], options_abort = None\<rparr>\<lparr>options_meta := Some (merge_meta (options_meta \<lparr>options_meta = Some [(''b'', Single ''2''), (''x'', Single ''old'')], options_abort = None\<rparr>) [(''a'', Single ''1''), (''x'', Single ''new'')])\<rparr>)) \<and>
      csp_statusDeferred p = cs_status (client_streaming_echo ''Upload'' (\<lparr>options_meta = Some [(''b'', Single ''2''), (''x'', Single ''old'')], options_abort = None\<rparr>\<lparr>options_meta := Some (merge_meta (options_meta \<lparr>options_meta = Some [(''b'', Single ''2''), (''x'', Single ''old'')], options_abort = None\<rparr>) [(''a'', Single ''1''), (''x'', Single ''new'')])\<rparr>)) \<and>
      csp_trailersDeferred p = cs_trailers (client_streaming_echo ''Upload'' (\<lparr>options_meta = Some [(''b'', Single ''2''), (''x'', Single ''old'')], options_abort = None\<rparr>\<lparr>options_meta := Some (merge_meta (options_meta \<lparr>options_meta = Some [(''b'', Single ''2''), (''x'', Single ''old'')], options_abort = None\<rparr>) [(''a'', Single ''1''), (''x'', Single ''new'')])\<rparr>)) \<and>
      csp_pendingCall p =
         Some ((client_streaming_echo ''Upload'' (\<lparr>options_meta = Some [(''b'', Single ''2''), (''x'', Single ''old'')], options_abort = None\<rparr>\<lparr>options_meta := Some (merge_meta (options_meta \<lparr>options_meta = Some [(''b'', Single ''2''), (''x'', Single ''old'')], options_abort = None\<rparr>) [(''a'', Single ''1''), (''x'', Single ''new'')])\<rparr>))
           \<lparr>cs_requests :=
              cs_requests (client_streaming_echo ''Upload'' (\<lparr>options_meta = Some [(''b'', Single ''2''), (''x'', Single ''old'')], options_abort = None\<rparr>\<lparr>options_meta := Some (merge_meta (options_meta \<lparr>options_meta = Some [(''b'', Single ''2''), (''x'', Single ''old'')], options_abort = None\<rparr>) [(''a'', Single ''1''), (''x'', Single ''new'')])\<rparr>))
              @ map Send (messages_of [Send 1])
              @ (if Complete \<in> set [Send (1::nat)] then [Complete] else []) @ [Complete]\<rparr>)"
      by (rule mp[OF resolved_metadata_overrides_caller_metadata
        [of "\<lparr>config_metadata = Static [(''a'', Single ''1''), (''x'', Single ''new'')], config_callTypes = None\<rparr>" "''Upload''" "[(''a'', Single ''1''), (''x'', Single ''new'')]" unary_echo 7 "\<lparr>options_meta = Some [(''b'', Single ''2''), (''x'', Single ''old'')], options_abort = None\<rparr>" server_streaming_echo
            client_streaming_echo "[Send 1]" "[Complete]" duplex_echo, THEN conjunct2, THEN conjunct2, THEN conjunct1]])
         (simp add: shouldIntercept_def resolveMetadata_def)
    then obtain p where
      "csp_run \<lparr>config_metadata = Static [(''a'', Single ''1''), (''x'', Single ''new'')], config_callTypes = None\<rparr> client_streaming_echo ''Upload'' \<lparr>options_meta = Some [(''b'', Single ''2''), (''x'', Single ''old'')], options_abort = None\<rparr> [Send 1] [Complete] = Some p"
      "csp_headersDeferred p = cs_headers (client_streaming_echo ''Upload'' (\<lparr>options_meta = Some [(''b'', Single ''2''), (''x'', Single ''old'')], options_abort = None\<rparr>\<lparr>options_meta := Some (merge_meta (options_meta \<lparr>options_meta = Some [(''b'', Single ''2''), (''x'', Single ''old'')], options_abort = None\<rparr>) [(''a'', Single ''1''), (''x'', Single ''new'')])\<rparr>))"
      "csp_pendingCall p =
         Some ((client_streaming_echo ''Upload'' (\<lparr>options_meta = Some [(''b'', Single ''2''), (''x'', Single ''old'')], options_abort = None\<rparr>\<lparr>options_meta := Some (merge_meta (options_meta \<lparr>options_meta = Some [(''b'', Single ''2''), (''x'', Single ''old'')], options_abort = None\<rparr>) [(''a'', Single ''1''), (''x'', Single ''new'')])\<rparr>))
           \<lparr>cs_requests :=
              cs_requests (client_streaming_echo ''Upload'' (\<lparr>options_meta = Some [(''b'', Single ''2''), (''x'', Single ''old'')], options_abort = None\<rparr>\<lparr>options_meta := Some (merge_meta (options_meta \<lparr>options_meta = Some [(''b'', Single ''2''), (''x'', Single ''old'')], options_abort = None\<rparr>) [(''a'', Single ''1''), (''x'', Single ''new'')])\<rparr>))
              @ map Send (messages_of [Send 1])
              @ (if Complete \<in> set [Send (1::nat)] then [Complete] else []) @ [Complete]\<rparr>)"
      by (elim exE conjE)
    then show ?thesis
      using mm by (simp add: client_streaming_echo_def meta_or_empty_def)
  qed
  have dx: "map_option (\<lambda>p. (dxp_headersDeferred p, map_option dx_requestHeaders (dxp_pendingCall p)))
       (dxp_run \<lparr>config_metadata = Static [(''a'', Single ''1''), (''x'', Single ''new'')], config_callTypes = None\<rparr> duplex_echo ''Chat'' \<lparr>options_meta = Some [(''b'', Single ''2''), (''x'', Single ''old'')], options_abort = None\<rparr> [Send 1] [Complete])
     = Some (Fulfilled [(''b'', Single ''2''), (''x'', Single ''new''), (''a'', Single ''1'')], Some [(''b'', Single ''2''), (''x'', Single ''new''), (''a'', Single ''1'')])"
  proof -
    have "\<exists>p. dxp_run \<lparr>config_metadata = Static [(''a'', Single ''1''), (''x'', Single ''new'')], config_callTypes = None\<rparr> duplex_echo ''Chat'' \<lparr>options_meta = Some [(''b'', Single ''2''), (''x'', Single ''old'')], options_abort = None\<rparr> [Send 1] [Complete] = Some p \<and>
      dxp_headersDeferred p = dx_headers (duplex_echo ''Chat'' (\<lparr>options_meta = Some [(''b'', Single ''2''), (''x'', Single ''old'')], options_abort = None\<rparr>\<lparr>options_meta := Some (merge_meta (options_meta \<lparr>options_meta = Some [(''b'', Single ''2''), (''x'', Single ''old'')], options_abort = None\<rparr>) [(''a'', Single ''1''), (''x'', Single ''new'')])\<rparr>)) \<and>
      dxp_responseStream p = dx_responses (duplex_echo ''Chat'' (\<lparr>options_meta = Some [(''b'', Single ''2''), (''x'', Single ''old'')], options_abort = None\<rparr>\<lparr>options_meta := Some (merge_meta (options_meta \<lparr>options_meta = Some [(''b'', Single ''2''), (''x'', Single ''old'')], options_abort = None\<rparr>) [(''a'', Single ''1''), (''x'', Single ''new'')])\<rparr>)) \<and>
      dxp_statusDeferred p = dx_status (duplex_echo ''Chat'' (\<lparr>options_meta = Some [(''b'', Single ''2''), (''x'', Single ''old'')], options_abort = None\<rparr>\<lparr>options_meta := Some (merge_meta (options_meta \<lparr>options_meta = Some [(''b'', Single ''2''), (''x'', Single ''old'')], options_abort = None\<rparr>) [(''a'', Single ''1''), (''x'', Single ''new'')])\<rparr>)) \<and>
      dxp_trailersDeferred p = dx_trailers (duplex_echo ''Chat'' (\<lparr>options_meta = Some [(''b'', Single ''2''), (''x'', Single ''old'')], options_abort = None\<rparr>\<lparr>options_meta := Some (merge_meta (options_meta \<lparr>options_meta = Some [(''b'', Single ''2''), (''x'', Single ''old'')], options_abort = None\<rparr>) [(''a'', Single ''1''), (''x'', Single ''new'')])\<rparr>)) \<and>
      dxp_pendingCall p =
         Some ((duplex_echo ''Chat'' (\<lparr>options_meta = Some [(''b'', Single ''2''), (''x'', Single ''old'')], options_abort = None\<rparr>\<lparr>options_meta := Some (merge_meta (options_meta \<lparr>options_meta = Some [(''b'', Single ''2''), (''x'', Single ''old'')], options_abort = None\<rparr>) [(''a'', Single ''1''), (''x'', Single ''new'')])\<rparr>))
           \<lparr>dx_requests :=
              dx_requests (duplex_echo ''Chat'' (\<lparr>options_meta = Some [(''b'', Single ''2''), (''x'', Single ''old'')], options_abort = None\<rparr>\<lparr>options_meta := Some (merge_meta (options_meta \<lparr>options_meta = Some [(''b'', Single ''2''), (''x'', Single ''old'')], options_abort = None\<rparr>) [(''a'', Single ''1''), (''x'', Single ''new'')])\<rparr>))
              @ map Send (messages_of [Send 1])
              @ (if Complete \<in> set [Send (1::nat)] then [Complete] else []) @ [Complete]\<rparr>)"
      by (rule mp[OF resolved_metadata_overrides_caller_metadata
        [of "\<lparr>config_metadata = Static [(''a'', Single ''1''), (''x'', Single ''new'')], config_callTypes = None\<rparr>" "''Chat''" "[(''a'', Single ''1''), (''x'', Single ''new'')]" unary_echo 7 "\<lparr>options_meta = Some [(''b'', Single ''2''), (''x'', Single ''old'')], options_abort = None\<rparr>" server_streaming_echo
            client_streaming_echo "[Send 1]" "[Complete]" duplex_echo, THEN conjunct2, THEN conjunct2, THEN conjunct2, THEN conjunct1]])
         (simp add: shouldIntercept_def resolveMetadata_def)
    then obtain p where
      "dxp_run \<lparr>config_metadata = Static [(''a'', Single ''1''), (''x'', Single ''new'')], config_callTypes = None\<rparr> duplex_echo ''Chat'' \<lparr>options_meta = Some [(''b'', Single ''2''), (''x'', Single ''old'')], options_abort = None\<rparr> [Send 1] [Complete] = Some p"
      "dxp_headersDeferred p = dx_headers (duplex_echo ''Chat'' (\<lparr>options_meta = Some [(''b'', Single ''2''), (''x'', Single ''old'')], options_abort = None\<rparr>\<lparr>options_meta := Some (merge_meta (options_meta \<lparr>options_meta = Some [(''b'', Single ''2''), (''x'', Single ''old'')], options_abort = None\<rparr>) [(''a'', Single ''1''), (''x'', Single ''new'')])\<rparr>))"
      "dxp_pendingCall p =
         Some ((duplex_echo ''Chat'' (\<lparr>options_meta = Some [(''b'', Single ''2''), (''x'', Single ''old'')], options_abort = None\<rparr>\<lparr>options_meta := Some (merge_meta (options_meta \<lparr>options_meta = Some [(''b'', Single ''2''), (''x'', Single ''old'')], options_abort = None\<rparr>) [(''a'', Single ''1''), (''x'', Single ''new'')])\<rparr>))
           \<lparr>dx_requests :=
              dx_requests (duplex_echo ''Chat'' (\<lparr>options_meta = Some [(''b'', Single ''2''), (''x'', Single ''old'')], options_abort = None\<rparr>\<lparr>options_meta := Some (merge_meta (options_meta \<lparr>options_meta = Some [(''b'', Single ''2''), (''x'', Single ''old'')], options_abort = None\<rparr>) [(''a'', Single ''1''), (''x'', Single ''new'')])\<rparr>))
              @ map Send (messages_of [Send 1])
              @ (if Complete \<in> set [Send (1::nat)] then [Complete] else []) @ [Complete]\<rparr>)"
      by (elim exE conjE)
    then show ?thesis
      using mm by (simp add: duplex_echo_def meta_or_empty_def)
  qed
  have m: "\<forall>k. map_of (merge_meta (options_meta \<lparr>options_meta = Some [(''b'', Single ''2''), (''x'', Single ''old'')], options_abort = None\<rparr>) [(''a'', Single ''1''), (''x'', Single ''new'')]) k =
            (case map_of [(''a'', Single ''1''), (''x'', Single ''new'')] k of
               Some v \<Rightarrow> Some v
             | None \<Rightarrow> map_of (meta_or_empty \<lparr>options_meta = Some [(''b'', Single ''2''), (''x'', Single ''old'')], options_abort = None\<rparr>) k)"
    by (rule mp[OF resolved_metadata_overrides_caller_metadata
        [of "\<lparr>config_metadata = Static [(''a'', Single ''1''), (''x'', Single ''new'')], config_callTypes = None\<rparr>" "''Get''" "[(''a'', Single ''1''), (''x'', Single ''new'')]" unary_echo 7 "\<lparr>options_meta = Some [(''b'', Single ''2''), (''x'', Single ''old'')], options_abort = None\<rparr>" server_streaming_echo
            client_streaming_echo "[Send 1]" "[Complete]" duplex_echo, THEN conjunct2, THEN conjunct2, THEN conjunct2, THEN conjunct2, THEN conjunct1]])
       (simp add: meta_or_empty_def)
  have mx: "map_of (merge_meta (options_meta \<lparr>options_meta = Some [(''b'', Single ''2''), (''x'', Single ''old'')], options_abort = None\<rparr>) [(''a'', Single ''1''), (''x'', Single ''new'')]) ''x'' = Some (Single ''new'')"
    by (subst m[rule_format]) simp
  have mb: "map_of (merge_meta (options_meta \<lparr>options_meta = Some [(''b'', Single ''2''), (''x'', Single ''old'')], options_abort = None\<rparr>) [(''a'', Single ''1''), (''x'', Single ''new'')]) ''b'' = Some (Single ''2'')"
    by (subst m[rule_format]) (simp add: meta_or_empty_def)
  from u ss cs dx mx mb show ?thesis
    by (simp add: meta_or_empty_def shouldIntercept_def resolveMetadata_def)
qed

section \<open>Properties of the error-mapping interceptor\<close>

lemma mapRpcError_wire_ident:
  "\<exists>x. \<forall>w. mapRpcError g (RpcErr r) abort onError cs w =
      (TypedErr (x\<lparr>ident := next_id w\<rparr>),
       call_onError onError (x\<lparr>ident := next_id w\<rparr>) (w\<lparr>next_id := Suc (next_id w)\<rparr>))"
proof -
  let ?w0 = "\<lparr>next_id = 0, onError_calls = []\<rparr>"
  let ?c = "if abort = Some True then AbortedError else class_of_code (rpc_code r)"
  let ?opts = "if abort = Some True then None
               else Some ((parseRichErrorDetails g (rpc_meta r))\<lparr>opt_cause := Some r\<rparr>)"
  let ?x = "applyCallSiteStack (fst (new_GrpcError g ?c ?opts ?w0)) cs"
  have "\<forall>w. mapRpcError g (RpcErr r) abort onError cs w =
      (TypedErr (?x\<lparr>ident := next_id w\<rparr>),
       call_onError onError (?x\<lparr>ident := next_id w\<rparr>) (w\<lparr>next_id := Suc (next_id w)\<rparr>))"
    by (simp add: mapRpcError_wire Let_def new_GrpcError_def applyCallSiteStack_def
          split: option.splits)
  then show ?thesis by blast
qed

lemma next_id_call_onError [simp]: "next_id (call_onError b e w) = next_id w"
  by (simp add: call_onError_def)


text \<open>
  How the four hooks map a failure, for every delegate.  A unary call that fails rejects
  headers, response, status and trailers with one error, the result of the one call of
  \<open>mapRpcError\<close>.  In a clientStreaming and a duplex call every channel maps its own
  rejection: when the channels (for duplex, the response stream too) fail with one wire
  error, their typed errors agree in everything but are separately built objects,
  numbered one after the other.  A server-streaming call maps the error its response
  stream reports, and hands the promises of the delegate's call on as they are.
\<close>

lemma err_hooks_typed_errors:
  "(await_unary (next_u method input options) = Rejected e \<longrightarrow>
      (\<exists>x. x = fst (mapRpcError g e (options_abort options) onError (captureCallSiteStack g) w) \<and>
         u_headers (fst (err_interceptUnary g onError next_u method input options w)) = Rejected x \<and>
         u_response (fst (err_interceptUnary g onError next_u method input options w)) = Rejected x \<and>
         u_status (fst (err_interceptUnary g onError next_u method input options w)) = Rejected x \<and>
         u_trailers (fst (err_interceptUnary g onError next_u method input options w)) = Rejected x)) \<and>
   (cs_headers (next_cs method options) = Rejected (RpcErr r) \<and>
    cs_response (next_cs method options) = Rejected (RpcErr r) \<and>
    cs_status (next_cs method options) = Rejected (RpcErr r) \<and>
    cs_trailers (next_cs method options) = Rejected (RpcErr r) \<longrightarrow>
      (\<exists>x. cs_headers (fst (err_interceptClientStreaming g onError next_cs method options w))
             = Rejected (TypedErr (x\<lparr>ident := next_id w\<rparr>)) \<and>
           cs_response (fst (err_interceptClientStreaming g onError next_cs method options w))
             = Rejected (TypedErr (x\<lparr>ident := next_id w + 1\<rparr>)) \<and>
           cs_status (fst (err_interceptClientStreaming g onError next_cs method options w))
             = Rejected (TypedErr (x\<lparr>ident := next_id w + 2\<rparr>)) \<and>
           cs_trailers (fst (err_interceptClientStreaming g onError next_cs method options w))
             = Rejected (TypedErr (x\<lparr>ident := next_id w + 3\<rparr>)))) \<and>
   (dx_headers (next_dx method options) = Rejected (RpcErr r) \<and>
    dx_status (next_dx method options) = Rejected (RpcErr r) \<and>
    dx_trailers (next_dx method options) = Rejected (RpcErr r) \<and>
    dx_responses (next_dx method options) = [StreamError (RpcErr r)] \<longrightarrow>
      (\<exists>x. dx_headers (fst (err_interceptDuplex g onError next_dx method options w))
             = Rejected (TypedErr (x\<lparr>ident := next_id w\<rparr>)) \<and>
           dx_status (fst (err_interceptDuplex g onError next_dx method options w))
             = Rejected (TypedErr (x\<lparr>ident := next_id w + 1\<rparr>)) \<and>
           dx_trailers (fst (err_interceptDuplex g onError next_dx method options w))
             = Rejected (TypedErr (x\<lparr>ident := next_id w + 2\<rparr>)) \<and>
           dx_responses (fst (err_interceptDuplex g onError next_dx method options w))
             = [StreamError (TypedErr (x\<lparr>ident := next_id w + 3\<rparr>))])) \<and>
   (ss_responses (next_ss method input options) = [StreamError (RpcErr r)] \<longrightarrow>
      ss_responses (fst (err_interceptServerStreaming g onError next_ss method input options w))
        = [StreamError (fst (mapRpcError g (RpcErr r) (options_abort options) onError
             (captureCallSiteStack g) w))])"
proof -
  obtain x where x: "\<And>w. mapRpcError g (RpcErr r) (options_abort options) onError
        (captureCallSiteStack g) w =
      (TypedErr (x\<lparr>ident := next_id w\<rparr>),
       call_onError onError (x\<lparr>ident := next_id w\<rparr>) (w\<lparr>next_id := Suc (next_id w)\<rparr>))"
    using mapRpcError_wire_ident[of g r "options_abort options" onError "captureCallSiteStack g"]
    by blast
  have u: "await_unary (next_u method input options) = Rejected e \<longrightarrow>
      (\<exists>x. x = fst (mapRpcError g e (options_abort options) onError (captureCallSiteStack g) w) \<and>
         u_headers (fst (err_interceptUnary g onError next_u method input options w)) = Rejected x \<and>
         u_response (fst (err_interceptUnary g onError next_u method input options w)) = Rejected x \<and>
         u_status (fst (err_interceptUnary g onError next_u method input options w)) = Rejected x \<and>
         u_trailers (fst (err_interceptUnary g onError next_u method input options w)) = Rejected x)"
    by (simp add: err_interceptUnary_def Let_def split: prod.splits)
  have cs: "cs_headers (next_cs method options) = Rejected (RpcErr r) \<and>
    cs_response (next_cs method options) = Rejected (RpcErr r) \<and>
    cs_status (next_cs method options) = Rejected (RpcErr r) \<and>
    cs_trailers (next_cs method options) = Rejected (RpcErr r) \<longrightarrow>
      (\<exists>x. cs_headers (fst (err_interceptClientStreaming g onError next_cs method options w))
             = Rejected (TypedErr (x\<lparr>ident := next_id w\<rparr>)) \<and>
           cs_response (fst (err_interceptClientStreaming g onError next_cs method options w))
             = Rejected (TypedErr (x\<lparr>ident := next_id w + 1\<rparr>)) \<and>
           cs_status (fst (err_interceptClientStreaming g onError next_cs method options w))
             = Rejected (TypedErr (x\<lparr>ident := next_id w + 2\<rparr>)) \<and>
           cs_trailers (fst (err_interceptClientStreaming g onError next_cs method options w))
             = Rejected (TypedErr (x\<lparr>ident := next_id w + 3\<rparr>)))"
    by (intro impI exI[of _ x])
       (simp add: err_interceptClientStreaming_def Let_def map_rejection_def x)
  have dx: "dx_headers (next_dx method options) = Rejected (RpcErr r) \<and>
    dx_status (next_dx method options) = Rejected (RpcErr r) \<and>
    dx_trailers (next_dx method options) = Rejected (RpcErr r) \<and>
    dx_responses (next_dx method options) = [StreamError (RpcErr r)] \<longrightarrow>
      (\<exists>x. dx_headers (fst (err_interceptDuplex g onError next_dx method options w))
             = Rejected (TypedErr (x\<lparr>ident := next_id w\<rparr>)) \<and>
           dx_status (fst (err_interceptDuplex g onError next_dx method options w))
             = Rejected (TypedErr (x\<lparr>ident := next_id w + 1\<rparr>)) \<and>
           dx_trailers (fst (err_interceptDuplex g onError next_dx method options w))
             = Rejected (TypedErr (x\<lparr>ident := next_id w + 2\<rparr>)) \<and>
           dx_responses (fst (err_interceptDuplex g onError next_dx method options w))
             = [StreamError (TypedErr (x\<lparr>ident := next_id w + 3\<rparr>))])"
    by (intro impI exI[of _ x])
       (simp add: err_interceptDuplex_def Let_def map_rejection_def x)
  have ss: "ss_responses (next_ss method input options) = [StreamError (RpcErr r)] \<longrightarrow>
      ss_responses (fst (err_interceptServerStreaming g onError next_ss method input options w))
        = [StreamError (fst (mapRpcError g (RpcErr r) (options_abort options) onError
             (captureCallSiteStack g) w))]"
    by (simp add: err_interceptServerStreaming_def Let_def split: prod.splits)
  from u cs dx ss show ?thesis by blast
qed


lemma err_server_streaming_promises_unmapped:
  "ss_headers (fst (err_interceptServerStreaming g onError next_ss method input options w))
     = ss_headers (next_ss method input options) \<and>
   ss_status (fst (err_interceptServerStreaming g onError next_ss method input options w))
     = ss_status (next_ss method input options) \<and>
   ss_trailers (fst (err_interceptServerStreaming g onError next_ss method input options w))
     = ss_trailers (next_ss method input options)"
  by (simp add: err_interceptServerStreaming_def Let_def split: prod.splits)

lemma unary_channels_share_one_instance:
  "u_headers (fst (err_interceptUnary bare_platform True unary_not_found ''Get'' 7 no_options new_world)) = Rejected (typed_not_found 0) \<and>
   u_response (fst (err_interceptUnary bare_platform True unary_not_found ''Get'' 7 no_options new_world)) = Rejected (typed_not_found 0) \<and>
   u_status (fst (err_interceptUnary bare_platform True unary_not_found ''Get'' 7 no_options new_world)) = Rejected (typed_not_found 0) \<and>
   u_trailers (fst (err_interceptUnary bare_platform True unary_not_found ''Get'' 7 no_options new_world)) = Rejected (typed_not_found 0) \<and>
   map ident (onError_calls (snd (err_interceptUnary bare_platform True unary_not_found ''Get'' 7 no_options new_world))) = [0]"
  by (simp add: err_interceptClientStreaming_def err_interceptServerStreaming_def err_interceptUnary_def
        Let_def map_rejection_def mapRpcError_wire await_unary_def
        new_GrpcError_def call_onError_def rejection_def applyCallSiteStack_def
        captureCallSiteStack_def bare_platform_def client_streaming_not_found_def
        server_streaming_not_found_def unary_not_found_def typed_not_found_def
        no_options_def new_world_def not_found_def parseRichErrorDetails_def
        class_of_code_def code_defs)

text \<open>
  Claim C3, at failing inputs.  A clientStreaming call whose four channels reject with
  one and the same wire error (\<open>NOT_FOUND\<close>, the delegate \<open>client_streaming_not_found\<close>):
  the headers, the response, the status and the trailers of the intercepted call are
  rejected with four typed errors that are equal in every field but are four objects, the
  first to the fourth built, and the callback \<open>onError\<close> is called four times; the claim
  has one instance on all four channels, as the unary hook gives (the lemma before this
  one).  A server-streaming call that fails with that wire error (the delegate
  \<open>server_streaming_not_found\<close>): only the error on the response stream is a typed error;
  headers, status and trailers are rejected with the wire error itself.
\<close>

theorem streaming_channels_do_not_share_one_typed_error:
  "rejection (cs_headers (fst (err_interceptClientStreaming bare_platform True client_streaming_not_found
        ''Upload'' no_options new_world))) = Some (typed_not_found 0) \<and>
   rejection (cs_response (fst (err_interceptClientStreaming bare_platform True client_streaming_not_found
        ''Upload'' no_options new_world))) = Some (typed_not_found 1) \<and>
   rejection (cs_status (fst (err_interceptClientStreaming bare_platform True client_streaming_not_found
        ''Upload'' no_options new_world))) = Some (typed_not_found 2) \<and>
   rejection (cs_trailers (fst (err_interceptClientStreaming bare_platform True client_streaming_not_found
        ''Upload'' no_options new_world))) = Some (typed_not_found 3) \<and>
   rejection (cs_headers (fst (err_interceptClientStreaming bare_platform True client_streaming_not_found
        ''Upload'' no_options new_world))) \<noteq> rejection (cs_response (fst (err_interceptClientStreaming bare_platform True client_streaming_not_found
        ''Upload'' no_options new_world))) \<and>
   map ident (onError_calls (snd (err_interceptClientStreaming bare_platform True client_streaming_not_found
        ''Upload'' no_options new_world))) = [0, 1, 2, 3] \<and>
   ss_responses (fst (err_interceptServerStreaming bare_platform True server_streaming_not_found
        ''List'' 7 no_options new_world)) = [StreamError (typed_not_found 0)] \<and>
   rejection (ss_headers (fst (err_interceptServerStreaming bare_platform True server_streaming_not_found
        ''List'' 7 no_options new_world))) = Some (RpcErr not_found) \<and>
   rejection (ss_status (fst (err_interceptServerStreaming bare_platform True server_streaming_not_found
        ''List'' 7 no_options new_world))) = Some (RpcErr not_found) \<and>
   rejection (ss_trailers (fst (err_interceptServerStreaming bare_platform True server_streaming_not_found
        ''List'' 7 no_options new_world))) = Some (RpcErr not_found)"
  by (simp add: err_interceptClientStreaming_def err_interceptServerStreaming_def err_interceptUnary_def
        Let_def map_rejection_def mapRpcError_wire await_unary_def
        new_GrpcError_def call_onError_def rejection_def applyCallSiteStack_def
        captureCallSiteStack_def bare_platform_def client_streaming_not_found_def
        server_streaming_not_found_def unary_not_found_def typed_not_found_def
        no_options_def new_world_def not_found_def parseRichErrorDetails_def
        class_of_code_def code_defs)

end
